theory Spec2Isabelle
  imports Main "HOL-Library.Word" "HOL-Library.Sublist" "HOL-Library.Char_ord"
    "HOL-Library.List_Lexorder" "HOL-Library.Mapping"
begin

chapter \<open>The file server of mineflare: backup keys, chunked restore, managed paths, jobs\<close>

text \<open>
  A shallow embedding of \<^verbatim>\<open>docker_src/file-server.ts\<close>. JavaScript strings are
  modelled as \<^typ>\<open>string\<close>, compared lexicographically character by character as
  JavaScript's \<^verbatim>\<open><\<close> does; numbers that the code keeps integral (epoch seconds,
  byte offsets, sizes, counters) are \<^typ>\<open>int\<close> or \<^typ>\<open>nat\<close>; a \<^verbatim>\<open>throw\<close> is the
  \<open>Inl\<close> branch of a sum whose left component is the error message.
\<close>

section \<open>Strings and numbers of the JavaScript runtime\<close>

definition digit_char :: "nat \<Rightarrow> char" where
  "digit_char n = ''0123456789'' ! (n mod 10)"

text \<open>\<^verbatim>\<open>String(n)\<close> for a non-negative integer: its decimal digits, no leading zero.\<close>

function string_of_nat :: "nat \<Rightarrow> string" where
  "string_of_nat n =
     (if n < 10 then [digit_char n] else string_of_nat (n div 10) @ [digit_char (n mod 10)])"
  by pat_completeness auto
termination
  by (relation "measure id") auto

declare string_of_nat.simps [simp del]

text \<open>\<^verbatim>\<open>String(i)\<close> for any integer: a minus sign in front of the digits when negative.\<close>

definition string_of_int :: "int \<Rightarrow> string" where
  "string_of_int i = (if i < 0 then CHR ''-'' # string_of_nat (nat (- i)) else string_of_nat (nat i))"

text \<open>\<^verbatim>\<open>s.padStart(w, c)\<close> with a one-character filler.\<close>

definition padStart :: "nat \<Rightarrow> char \<Rightarrow> string \<Rightarrow> string" where
  "padStart w c s = replicate (w - length s) c @ s"

text \<open>\<^verbatim>\<open>s.startsWith(p)\<close>, \<^verbatim>\<open>s.endsWith(p)\<close> and \<^verbatim>\<open>s.includes(p)\<close>.\<close>

definition startsWith :: "string \<Rightarrow> string \<Rightarrow> bool" where
  "startsWith s p = (take (length p) s = p)"

definition endsWith :: "string \<Rightarrow> string \<Rightarrow> bool" where
  "endsWith s p = (length p \<le> length s \<and> drop (length s - length p) s = p)"

fun includes_str :: "string \<Rightarrow> string \<Rightarrow> bool" where
  "includes_str [] p = (p = [])"
| "includes_str (c # s) p = (startsWith (c # s) p \<or> includes_str s p)"

text \<open>
  A number of the runtime: a finite one, written as a mantissa and a binary exponent
  (\<open>Finite m e\<close> is \<open>m * 2 ^ e\<close>), \<^verbatim>\<open>NaN\<close>, or an infinity (\<open>True\<close>: the positive one).
\<close>

datatype js_number = Finite int int | NaN | Infinite bool

fun isFinite :: "js_number \<Rightarrow> bool" where
  "isFinite (Finite m e) = True"
| "isFinite _ = False"

section \<open>The key scheme\<close>

text \<open>
  A \<^verbatim>\<open>Date\<close> is its \<^verbatim>\<open>getTime()\<close>, the milliseconds since the Unix epoch. The UTC
  calendar fields come from the proleptic Gregorian calendar, computed from the day
  number the way the runtime does.
\<close>

type_synonym date = int

definition MAX_EPOCH_SECONDS :: int where
  "MAX_EPOCH_SECONDS = 4891363200"

definition REV_SECONDS_WIDTH :: nat where
  "REV_SECONDS_WIDTH = length (string_of_int MAX_EPOCH_SECONDS)"

definition utc_days :: "date \<Rightarrow> int" where
  "utc_days d = d div 86400000"

text \<open>
  Day number to (year, month, day): 400-year eras of 146097 days starting on 1 March of
  year 0, the day of the era, the year of the era, the day of that year and the month
  counted from March.
\<close>

definition civil_of_mp :: "int \<Rightarrow> int \<Rightarrow> int \<Rightarrow> int \<times> int \<times> int" where
  "civil_of_mp y doy mp =
     (if mp < 10 then (y + (if mp + 3 \<le> 2 then 1 else 0), mp + 3, doy - (153 * mp + 2) div 5 + 1)
      else (y + (if mp - 9 \<le> 2 then 1 else 0), mp - 9, doy - (153 * mp + 2) div 5 + 1))"

definition civil_of_doy :: "int \<Rightarrow> int \<Rightarrow> int \<times> int \<times> int" where
  "civil_of_doy y doy = civil_of_mp y doy ((5 * doy + 2) div 153)"

definition civil_of_yoe :: "int \<Rightarrow> int \<Rightarrow> int \<Rightarrow> int \<times> int \<times> int" where
  "civil_of_yoe era doe yoe =
     civil_of_doy (yoe + era * 400) (doe - (365 * yoe + yoe div 4 - yoe div 100))"

definition civil_of_doe :: "int \<Rightarrow> int \<Rightarrow> int \<times> int \<times> int" where
  "civil_of_doe era doe =
     civil_of_yoe era doe ((doe - doe div 1460 + doe div 36524 - doe div 146096) div 365)"

definition civil_from_days :: "int \<Rightarrow> int \<times> int \<times> int" where
  "civil_from_days days =
     civil_of_doe ((days + 719468) div 146097) ((days + 719468) mod 146097)"

definition getUTCFullYear :: "date \<Rightarrow> int" where
  "getUTCFullYear d = fst (civil_from_days (utc_days d))"

text \<open>\<^verbatim>\<open>getUTCMonth()\<close> counts from 0.\<close>

definition getUTCMonth :: "date \<Rightarrow> int" where
  "getUTCMonth d = fst (snd (civil_from_days (utc_days d))) - 1"

definition getUTCDate :: "date \<Rightarrow> int" where
  "getUTCDate d = snd (snd (civil_from_days (utc_days d)))"

definition getUTCHours :: "date \<Rightarrow> int" where
  "getUTCHours d = (d div 3600000) mod 24"

definition formatUTCDateYYYYMMDDHH :: "date \<Rightarrow> string" where
  "formatUTCDateYYYYMMDDHH d =
     (let yyyy = string_of_int (getUTCFullYear d);
          MM = padStart 2 CHR ''0'' (string_of_int (getUTCMonth d + 1));
          dd = padStart 2 CHR ''0'' (string_of_int (getUTCDate d));
          HH = padStart 2 CHR ''0'' (string_of_int (getUTCHours d))
      in yyyy @ MM @ dd @ HH)"

definition generateBackupKey :: "string \<Rightarrow> date \<Rightarrow> string" where
  "generateBackupKey dirName at =
     (let nowSeconds = at div 1000;
          reverseEpochSeconds = MAX_EPOCH_SECONDS - nowSeconds;
          reversePart = padStart REV_SECONDS_WIDTH CHR ''0'' (string_of_int reverseEpochSeconds);
          datePart = formatUTCDateYYYYMMDDHH at
      in ''backups/'' @ reversePart @ ''_'' @ datePart @ ''_'' @ dirName @ ''.tar.gz'')"

text \<open>
  The reverse part written with a fixed number of digits, most significant first: the
  form in which two reverse parts are compared.
\<close>

primrec dec :: "nat \<Rightarrow> nat \<Rightarrow> string" where
  "dec 0 n = []"
| "dec (Suc w) n = dec w (n div 10) @ [digit_char (n mod 10)]"

section \<open>Replies, the process environment, the job registries\<close>

text \<open>
  The value handed to \<^verbatim>\<open>JSON.stringify\<close>, and a reply: the HTTP status with its body.
\<close>

datatype json = JNull | JBool bool | JNum int | JStr string | JObj "(string \<times> json) list"

record reply =
  code :: nat
  payload :: json

definition jsonResponse :: "json \<Rightarrow> nat \<Rightarrow> reply" where
  "jsonResponse data st = \<lparr>code = st, payload = data\<rparr>"

text \<open>\<^verbatim>\<open>process.env\<close>; an unset variable is \<open>None\<close>, and \<^verbatim>\<open>!v\<close> holds of unset and of empty.\<close>

type_synonym environ = "string \<rightharpoonup> string"

definition falsy :: "string option \<Rightarrow> bool" where
  "falsy v = (case v of None \<Rightarrow> True | Some s \<Rightarrow> s = [])"

text \<open>\<^verbatim>\<open>a || b\<close> on strings that may be undefined.\<close>

definition or_else :: "string option \<Rightarrow> string option \<Rightarrow> string option" where
  "or_else a b = (if falsy a then b else a)"

text \<open>
  \<^verbatim>\<open>createS3Client\<close>: only its check of the credentials matters here; the client
  itself is the object store, which the handlers below receive as their world.
\<close>

definition createS3Client :: "environ \<Rightarrow> string \<Rightarrow> string + unit" where
  "createS3Client env bucketName =
     (let accessKeyId = env ''AWS_ACCESS_KEY_ID'';
          secretAccessKey = env ''AWS_SECRET_ACCESS_KEY'';
          endpoint = env ''AWS_ENDPOINT_URL'';
          bucket = (if bucketName = ''data'' then env ''DATA_BUCKET_NAME'' else env ''DYNMAP_BUCKET'')
      in if falsy accessKeyId \<or> falsy secretAccessKey \<or> falsy endpoint \<or> falsy bucket
         then Inl ''Missing AWS credentials in environment''
         else Inr ())"

text \<open>\<^verbatim>\<open>s.split(c)\<close> for a one-character separator, and \<^verbatim>\<open>.filter(Boolean)\<close>.\<close>

fun split_on :: "char \<Rightarrow> string \<Rightarrow> string list" where
  "split_on c [] = [[]]"
| "split_on c (x # xs) =
     (if x = c then [] # split_on c xs
      else (case split_on c xs of [] \<Rightarrow> [[x]] | s # ss \<Rightarrow> (x # s) # ss))"

definition filter_Boolean :: "string list \<Rightarrow> string list" where
  "filter_Boolean ss = filter (\<lambda>s. s \<noteq> []) ss"

text \<open>\<^verbatim>\<open>directory.split("/").filter(Boolean).pop() || "backup"\<close>\<close>

definition dirName_of :: "string \<Rightarrow> string" where
  "dirName_of directory =
     (case rev (filter_Boolean (split_on CHR ''/'' directory)) of
        [] \<Rightarrow> ''backup''
      | s # _ \<Rightarrow> s)"

text \<open>\<^verbatim>\<open>directory.substring(0, directory.lastIndexOf("/")) || "/"\<close>\<close>

definition parentDir_of :: "string \<Rightarrow> string" where
  "parentDir_of directory =
     (let cut = take (length directory - length (takeWhile (\<lambda>c. c \<noteq> CHR ''/'') (rev directory)) - 1)
                  directory
      in if cut = [] then ''/'' else cut)"

text \<open>The normalisation every backup and restore handler starts with.\<close>

definition normalize_directory :: "string \<Rightarrow> string" where
  "normalize_directory pathname = (if startsWith pathname ''/'' then pathname else ''/'' @ pathname)"

subsection \<open>Backup jobs\<close>

datatype backup_status = BPending | BRunning | BSuccess | BFailed

fun backup_status_string :: "backup_status \<Rightarrow> string" where
  "backup_status_string BPending = ''pending''"
| "backup_status_string BRunning = ''running''"
| "backup_status_string BSuccess = ''success''"
| "backup_status_string BFailed = ''failed''"

record backup_result =
  backup_path :: string
  br_size :: nat
  br_note :: "string option"

text \<open>
  An entry of \<^verbatim>\<open>backupJobs\<close>. The fields carry the prefix \<open>b_\<close> to keep them apart
  from those of a modpack job; \<^verbatim>\<open>Date.now()\<close> is a number of milliseconds.
\<close>

record backup_job =
  b_id :: string
  b_directory :: string
  b_status :: backup_status
  b_startedAt :: nat
  b_completedAt :: "nat option"
  b_result :: "backup_result option"
  b_error :: "string option"

subsection \<open>Modpack jobs\<close>

datatype ModpackSource = Modrinth | Curseforge

fun ModpackSource_string :: "ModpackSource \<Rightarrow> string" where
  "ModpackSource_string Modrinth = ''modrinth''"
| "ModpackSource_string Curseforge = ''curseforge''"

datatype ModpackJobStatus = MPending | MDownloading | MInstalling | MCompleted | MFailed

fun ModpackJobStatus_string :: "ModpackJobStatus \<Rightarrow> string" where
  "ModpackJobStatus_string MPending = ''pending''"
| "ModpackJobStatus_string MDownloading = ''downloading''"
| "ModpackJobStatus_string MInstalling = ''installing''"
| "ModpackJobStatus_string MCompleted = ''completed''"
| "ModpackJobStatus_string MFailed = ''failed''"

datatype loader = PAPER | FORGE | FABRIC | NEOFORGE

record ModpackJobProgress =
  phase :: string
  currentFile :: "string option"
  currentIndex :: "nat option"
  totalFiles :: "nat option"
  progress_note :: "string option"

text \<open>A value of the metadata of a result: a string, if any, or a number.\<close>

datatype meta_value = MetaString "string option" | MetaNumber js_number

record ModpackJobResult =
  r_loader :: "loader option"
  minecraftVersion :: "string option"
  profileSuggestion :: "string option"
  packName :: "string option"
  filesInstalled :: nat
  overridesApplied :: bool
  metadata :: "(string \<times> meta_value) list"

record ModpackJob =
  m_id :: string
  m_source :: ModpackSource
  m_status :: ModpackJobStatus
  m_startedAt :: nat
  m_updatedAt :: nat
  m_progress :: "ModpackJobProgress option"
  m_error :: "string option"
  m_result :: "ModpackJobResult option"

definition progress_of :: "string \<Rightarrow> ModpackJobProgress" where
  "progress_of ph = \<lparr>phase = ph, currentFile = None, currentIndex = None, totalFiles = None,
     progress_note = None\<rparr>"

subsection \<open>The server object\<close>

type_synonym byte = "8 word"

type_synonym bytes = "byte list"

text \<open>
  The files of the container, by path. Directories are not tracked: creating one
  succeeds and leaves the files as they are.
\<close>

type_synonym fs = "(string, bytes) mapping"

record FileServer =
  requestCount :: nat
  backupCount :: nat
  restoreCount :: nat
  activeRestores :: nat
  backupJobs :: "string \<rightharpoonup> backup_job"
  modpackJobs :: "string \<rightharpoonup> ModpackJob"
  managedRoots :: "string list"

section \<open>Background backups\<close>

definition opt_num :: "nat option \<Rightarrow> json" where
  "opt_num v = (case v of None \<Rightarrow> JNull | Some n \<Rightarrow> JNum (int n))"

text \<open>
  What \<^verbatim>\<open>executeBackupJob\<close> meets outside the process: the clock, the exit code and
  output of \<^verbatim>\<open>tar\<close>, the size of the archive it wrote (\<open>None\<close>: \<^verbatim>\<open>stat\<close> gave
  nothing) and whether the upload threw.
\<close>

record backup_world =
  bw_env :: environ
  bw_now :: date
  bw_tar_exit :: int
  bw_tar_stderr :: string
  bw_tar_stdout :: string
  bw_archive_size :: "nat option"
  bw_upload :: "string + unit"
  bw_completed :: nat

text \<open>The body of the \<^verbatim>\<open>try\<close> block after the job was marked running.\<close>

definition backup_work :: "backup_world \<Rightarrow> backup_job \<Rightarrow> string + backup_result" where
  "backup_work w job =
     (case createS3Client (bw_env w) ''data'' of
        Inl e \<Rightarrow> Inl e
      | Inr _ \<Rightarrow>
          (let dirName = dirName_of (b_directory job);
               backupFilename = generateBackupKey dirName (bw_now w)
           in if bw_tar_exit w \<noteq> 0
              then Inl (''tar command failed with exit code '' @ string_of_int (bw_tar_exit w) @ '': '' @
                        (if bw_tar_stderr w \<noteq> [] then bw_tar_stderr w
                         else if bw_tar_stdout w \<noteq> [] then bw_tar_stdout w
                         else ''no error output''))
              else (let fileSize = (case bw_archive_size w of None \<Rightarrow> 0 | Some n \<Rightarrow> n)
                    in case bw_upload w of
                         Inl e \<Rightarrow> Inl e
                       | Inr _ \<Rightarrow> Inr \<lparr>backup_path = backupFilename, br_size = fileSize,
                                      br_note = Some ''complete backup''\<rparr>)))"

text \<open>
  \<^verbatim>\<open>executeBackupJob\<close>: the successive values it stores under the job's id with
  \<^verbatim>\<open>backupJobs.set\<close>, in order. Its promise never rejects, since the \<^verbatim>\<open>catch\<close>
  block covers the whole body, so the \<^verbatim>\<open>.catch\<close> of the caller never runs.
\<close>

definition executeBackupJob :: "backup_world \<Rightarrow> backup_job \<Rightarrow> backup_job list" where
  "executeBackupJob w job =
     (let running = job\<lparr>b_status := BRunning\<rparr>
      in case backup_work w running of
           Inr res \<Rightarrow>
             [running,
              running\<lparr>b_status := BSuccess, b_completedAt := Some (bw_completed w),
                       b_result := Some res\<rparr>]
         | Inl msg \<Rightarrow>
             [running,
              running\<lparr>b_status := BFailed, b_completedAt := Some (bw_completed w),
                       b_error := Some (''Backup failed: '' @ msg)\<rparr>])"

text \<open>
  \<^verbatim>\<open>handleBackgroundBackupStart\<close> calls \<^verbatim>\<open>executeBackupJob\<close> without awaiting it, so
  the call runs up to its first \<^verbatim>\<open>await\<close> before the reply is built: the job, which the
  registry holds, is running by then, or failed already when \<^verbatim>\<open>createS3Client\<close> has
  thrown.
\<close>

definition started_job :: "backup_world \<Rightarrow> backup_job \<Rightarrow> backup_job" where
  "started_job w job =
     (case createS3Client (bw_env w) ''data'' of
        Inl e \<Rightarrow> last (executeBackupJob w job)
      | Inr _ \<Rightarrow> job\<lparr>b_status := BRunning\<rparr>)"

text \<open>
  \<^verbatim>\<open>handleBackgroundBackupStart\<close> returns its reply, the server after it and the job
  on which it has called \<^verbatim>\<open>executeBackupJob\<close>, if any.
\<close>

definition handleBackgroundBackupStart ::
    "backup_world \<Rightarrow> FileServer \<Rightarrow> nat \<Rightarrow> string \<Rightarrow> string \<Rightarrow> reply \<times> FileServer \<times> backup_job option" where
  "handleBackgroundBackupStart w srv now pathname ident =
     (let directory = normalize_directory pathname
      in case backupJobs srv ident of
           Some existing \<Rightarrow>
             (jsonResponse (JObj [
                (''id'', JStr (b_id existing)),
                (''directory'', JStr (b_directory existing)),
                (''status'', JStr (backup_status_string (b_status existing))),
                (''startedAt'', JNum (int (b_startedAt existing))),
                (''completedAt'', opt_num (b_completedAt existing))]) 200,
              srv, None)
         | None \<Rightarrow>
             (let job = \<lparr>b_id = ident, b_directory = directory, b_status = BPending,
                          b_startedAt = now, b_completedAt = None, b_result = None, b_error = None\<rparr>;
                  job1 = started_job w job
              in (jsonResponse (JObj [
                    (''id'', JStr ident),
                    (''started'', JBool True),
                    (''directory'', JStr directory),
                    (''status'', JStr (backup_status_string (b_status job1))),
                    (''startedAt'', JNum (int (b_startedAt job1)))]) 200,
                  srv\<lparr>backupJobs := (backupJobs srv)(ident \<mapsto> job1),
                      backupCount := backupCount srv + 1\<rparr>,
                  Some job)))"

text \<open>An arrow of the backup state machine.\<close>

fun backup_step :: "backup_status \<Rightarrow> backup_status \<Rightarrow> bool" where
  "backup_step BPending BRunning = True"
| "backup_step BRunning BSuccess = True"
| "backup_step BRunning BFailed = True"
| "backup_step _ _ = False"

fun backup_terminal :: "backup_status \<Rightarrow> bool" where
  "backup_terminal BSuccess = True"
| "backup_terminal BFailed = True"
| "backup_terminal _ = False"

section \<open>The chunked transfer engine\<close>

definition MAX_RETRIES :: nat where
  "MAX_RETRIES = 3"

definition RETRY_DELAY_MS :: nat where
  "RETRY_DELAY_MS = 1000"

definition LARGE_FILE_THRESHOLD :: nat where
  "LARGE_FILE_THRESHOLD = 100 * 1024 * 1024"

definition DOWNLOAD_CHUNK_SIZE :: nat where
  "DOWNLOAD_CHUNK_SIZE = 50 * 1024 * 1024"

definition MAX_CONCURRENT_DOWNLOADS :: nat where
  "MAX_CONCURRENT_DOWNLOADS = 5"

text \<open>
  What \<^verbatim>\<open>fetch\<close> gives: the promise rejects with a message, or there is a response
  with its status, status text and body; reading the body may reject in turn.
\<close>

datatype fetch_result = NetworkError string | Response nat string "string + bytes"

definition response_ok :: "nat \<Rightarrow> bool" where
  "response_ok st = (200 \<le> st \<and> st \<le> 299)"

text \<open>
  The object store seen by the range requests of one download: the answer to the
  \<open>n\<close>-th request for the bytes \<open>start\<close> to \<open>end\<close> (inclusive).
\<close>

type_synonym range_fetcher = "nat \<Rightarrow> nat \<Rightarrow> nat \<Rightarrow> fetch_result"

text \<open>
  What a run leaves behind besides its result: the requests sent, the pauses taken,
  the warnings logged and the processes spawned, in order.
\<close>

datatype event =
    HeadRequest string
  | RangeRequest nat nat
  | FullRequest string
  | Delay nat
  | Warning string
  | Spawn "string list"

definition text_of :: "bytes \<Rightarrow> string" where
  "text_of b = map (\<lambda>x. char_of (unat x)) b"

text \<open>One turn of the loop of \<^verbatim>\<open>downloadRangeWithRetry\<close>: the body of its \<^verbatim>\<open>try\<close>.\<close>

definition attempt_range :: "range_fetcher \<Rightarrow> nat \<Rightarrow> nat \<Rightarrow> nat \<Rightarrow> event list \<times> (string + bytes)" where
  "attempt_range fetch start end attempt =
     (let rangeSize = int end - int start + 1
      in case fetch start end attempt of
           NetworkError m \<Rightarrow> ([RangeRequest start end], Inl m)
         | Response st stText body \<Rightarrow>
             if \<not> response_ok st
             then ([RangeRequest start end],
                   Inl (''HTTP '' @ string_of_nat st @ '': '' @ stText @ '' - '' @
                        (case body of Inl _ \<Rightarrow> ''(unable to read body)'' | Inr b \<Rightarrow> text_of b)))
             else (case body of
                     Inl m \<Rightarrow> ([RangeRequest start end], Inl m)
                   | Inr data \<Rightarrow>
                       (RangeRequest start end #
                          (if int (length data) \<noteq> rangeSize
                           then [Warning (''Size mismatch! Expected '' @ string_of_int rangeSize @
                                          '', got '' @ string_of_nat (length data))]
                           else []),
                        Inr data)))"

function downloadRange_loop ::
    "range_fetcher \<Rightarrow> nat \<Rightarrow> nat \<Rightarrow> nat \<Rightarrow> nat \<Rightarrow> nat \<Rightarrow> string option \<Rightarrow> event list \<times> (string + bytes)" where
  "downloadRange_loop fetch start end partNumber totalParts attempt lastError =
     (if attempt \<le> MAX_RETRIES
      then (case snd (attempt_range fetch start end attempt) of
              Inr data \<Rightarrow> attempt_range fetch start end attempt
            | Inl m \<Rightarrow>
                (let rest = downloadRange_loop fetch start end partNumber totalParts (attempt + 1) (Some m)
                 in (fst (attempt_range fetch start end attempt) @
                     (if attempt < MAX_RETRIES then [Delay (RETRY_DELAY_MS * 2 ^ (attempt - 1))] else []) @
                     fst rest,
                     snd rest)))
      else ([], Inl (''Failed to download part '' @ string_of_nat partNumber @ ''/'' @
                     string_of_nat totalParts @ '' after '' @ string_of_nat MAX_RETRIES @
                     '' attempts: '' @ (case lastError of None \<Rightarrow> ''undefined'' | Some m \<Rightarrow> m))))"
  by pat_completeness auto
termination
  by (relation "measure (\<lambda>(fetch, start, end, partNumber, totalParts, attempt, lastError).
        MAX_RETRIES + 1 - attempt)") auto

declare downloadRange_loop.simps [simp del]

definition downloadRangeWithRetry ::
    "range_fetcher \<Rightarrow> nat \<Rightarrow> nat \<Rightarrow> nat \<Rightarrow> nat \<Rightarrow> event list \<times> (string + bytes)" where
  "downloadRangeWithRetry fetch start end partNumber totalParts =
     downloadRange_loop fetch start end partNumber totalParts 1 None"

text \<open>A download task; its fields carry the prefix \<open>t_\<close>.\<close>

record download_task =
  t_partNumber :: nat
  t_start :: nat
  t_end :: nat
  t_tempFile :: string

text \<open>
  \<^verbatim>\<open>Math.ceil(fileSize / DOWNLOAD_CHUNK_SIZE)\<close>, on sizes that a double holds exactly.
\<close>

definition numParts_of :: "nat \<Rightarrow> nat" where
  "numParts_of fileSize = (fileSize + DOWNLOAD_CHUNK_SIZE - 1) div DOWNLOAD_CHUNK_SIZE"

text \<open>The temporary file of part \<open>i\<close>: \<^verbatim>\<open>${tempFile}.part${i}\<close>.\<close>

definition part_name :: "string \<Rightarrow> nat \<Rightarrow> string" where
  "part_name dest i = dest @ ''.part'' @ string_of_nat i"

text \<open>
  The tasks the first loop builds. \<open>fileSize - 1\<close> is only taken when there is a part,
  hence a byte, so the subtraction on \<^typ>\<open>nat\<close> is the one of the code.
\<close>

definition downloadTasks :: "string \<Rightarrow> nat \<Rightarrow> download_task list" where
  "downloadTasks dest fileSize =
     map (\<lambda>i. \<lparr>t_partNumber = i + 1,
               t_start = i * DOWNLOAD_CHUNK_SIZE,
               t_end = min (i * DOWNLOAD_CHUNK_SIZE + DOWNLOAD_CHUNK_SIZE - 1) (fileSize - 1),
               t_tempFile = part_name dest i\<rparr>)
       [0..<numParts_of fileSize]"

definition downloadPart :: "range_fetcher \<Rightarrow> nat \<Rightarrow> download_task \<Rightarrow> fs \<Rightarrow> event list \<times> (string + fs)" where
  "downloadPart fetch numParts task files =
     (case downloadRangeWithRetry fetch (t_start task) (t_end task) (t_partNumber task) numParts of
        (evs, Inl e) \<Rightarrow> (evs, Inl e)
      | (evs, Inr data) \<Rightarrow> (evs, Inr (Mapping.update (t_tempFile task) data files)))"

text \<open>
  One batch under \<^verbatim>\<open>Promise.all\<close>: every part of the batch is started, so every
  part that succeeds writes its file. \<^verbatim>\<open>run_batch\<close> gives the errors of the parts that
  fail, in task order. The events of the parts, interleaved in reality, are listed part
  after part.
\<close>

fun run_batch ::
    "range_fetcher \<Rightarrow> nat \<Rightarrow> download_task list \<Rightarrow> fs \<Rightarrow> event list \<times> string list \<times> fs" where
  "run_batch fetch numParts [] files = ([], [], files)"
| "run_batch fetch numParts (t # ts) files =
     (case downloadPart fetch numParts t files of
        (evs, Inl e) \<Rightarrow>
          (case run_batch fetch numParts ts files of
             (evs', errors, files') \<Rightarrow> (evs @ evs', e # errors, files'))
      | (evs, Inr files1) \<Rightarrow>
          (case run_batch fetch numParts ts files1 of
             (evs', errors, files') \<Rightarrow> (evs @ evs', errors, files')))"

text \<open>
  \<^verbatim>\<open>Promise.all\<close> rejects with the error of the part that fails first in time. Which
  of the failing parts of a batch that is depends on the network; the world gives it,
  for every batch, as a position among the failing parts (taken modulo their number).
\<close>

type_synonym race = "download_task list \<Rightarrow> nat"

definition first_rejection :: "race \<Rightarrow> download_task list \<Rightarrow> string list \<Rightarrow> string" where
  "first_rejection settle batch errors = errors ! (settle batch mod length errors)"

text \<open>The batches, one after another, \<^verbatim>\<open>MAX_CONCURRENT_DOWNLOADS\<close> tasks at a time.\<close>

function download_batches ::
    "range_fetcher \<Rightarrow> race \<Rightarrow> nat \<Rightarrow> download_task list \<Rightarrow> fs \<Rightarrow> event list \<times> (string + fs)" where
  "download_batches fetch settle numParts tasks files =
     (if tasks = [] then ([], Inr files)
      else (case run_batch fetch numParts (take MAX_CONCURRENT_DOWNLOADS tasks) files of
              (evs, [], files1) \<Rightarrow>
                (let rest = download_batches fetch settle numParts
                              (drop MAX_CONCURRENT_DOWNLOADS tasks) files1
                 in (evs @ fst rest, snd rest))
            | (evs, e # es, files1) \<Rightarrow>
                (evs, Inl (first_rejection settle (take MAX_CONCURRENT_DOWNLOADS tasks) (e # es)))))"
  by pat_completeness auto
termination
  by (relation "measure (\<lambda>(fetch, settle, numParts, tasks, files). length tasks)")
    (auto simp: MAX_CONCURRENT_DOWNLOADS_def)

declare download_batches.simps [simp del]

text \<open>
  The reconstitution loop: part \<open>i\<close> is read from its temporary file, appended to
  what the writer holds and removed. Reading a file that is not there rejects.
\<close>

fun merge_parts :: "string \<Rightarrow> nat list \<Rightarrow> fs \<Rightarrow> bytes \<Rightarrow> string + (fs \<times> bytes)" where
  "merge_parts dest [] files written = Inr (files, written)"
| "merge_parts dest (i # rest) files written =
     (let partFile = part_name dest i
      in case Mapping.lookup files partFile of
           None \<Rightarrow> Inl (''ENOENT: no such file or directory, open '' @ partFile)
         | Some partData \<Rightarrow>
             merge_parts dest rest (Mapping.delete partFile files) (written @ partData))"

definition downloadLargeFile ::
    "range_fetcher \<Rightarrow> race \<Rightarrow> string \<Rightarrow> string \<Rightarrow> nat \<Rightarrow> fs \<Rightarrow> event list \<times> (string + fs)" where
  "downloadLargeFile fetch settle key dest fileSize files =
     (let numParts = numParts_of fileSize;
          tasks = downloadTasks dest fileSize
      in case download_batches fetch settle numParts tasks files of
           (evs, Inl e) \<Rightarrow> (evs, Inl e)
         | (evs, Inr files1) \<Rightarrow>
             (case merge_parts dest [0..<numParts] files1 [] of
                Inl e \<Rightarrow> (evs, Inl e)
              | Inr (files2, written) \<Rightarrow> (evs, Inr (Mapping.update dest written files2))))"

text \<open>The bytes \<open>start\<close> to \<open>end\<close> (inclusive) of an object: what a range request asks for.\<close>

definition byte_range :: "bytes \<Rightarrow> nat \<Rightarrow> nat \<Rightarrow> bytes" where
  "byte_range obj start end = take (end + 1 - start) (drop start obj)"

text \<open>
  A fetch result that is a transport-level failure (the request or the reading of the
  body rejects, or the status is not 2xx), and the body of one that is not.
\<close>

fun transport_failure :: "fetch_result \<Rightarrow> bool" where
  "transport_failure (NetworkError m) = True"
| "transport_failure (Response st stText (Inl m)) = True"
| "transport_failure (Response st stText (Inr b)) = (\<not> response_ok st)"

fun delivered :: "fetch_result \<Rightarrow> bytes option" where
  "delivered (NetworkError m) = None"
| "delivered (Response st stText (Inl m)) = None"
| "delivered (Response st stText (Inr b)) = (if response_ok st then Some b else None)"

text \<open>The message with which a try of the retry loop fails.\<close>

fun failure_message :: "fetch_result \<Rightarrow> string" where
  "failure_message (NetworkError m) = m"
| "failure_message (Response st stText (Inl m)) =
     (if response_ok st then m
      else ''HTTP '' @ string_of_nat st @ '': '' @ stText @ '' - (unable to read body)'')"
| "failure_message (Response st stText (Inr b)) =
     ''HTTP '' @ string_of_nat st @ '': '' @ stText @ '' - '' @ text_of b"

text \<open>A store that answers every successful range request with the bytes asked for.\<close>

definition serves :: "bytes \<Rightarrow> range_fetcher \<Rightarrow> bool" where
  "serves obj fetch =
     (\<forall>s e n b. delivered (fetch s e n) = Some b \<longrightarrow> b = byte_range obj s e)"

subsection \<open>Notions the statements about the engine use\<close>

text \<open>The warning logged when the body of a part has not the length of its range.\<close>

definition size_warning :: "nat \<Rightarrow> nat \<Rightarrow> bytes \<Rightarrow> event list" where
  "size_warning s e d =
     (if int (length d) \<noteq> int e - int s + 1
      then [Warning (''Size mismatch! Expected '' @ string_of_int (int e - int s + 1) @
                     '', got '' @ string_of_nat (length d))]
      else [])"

text \<open>
  The events of the tries \<open>a\<close> up to \<open>k - 1\<close> when each of them fails and another try
  follows: the request, then the pause \<^verbatim>\<open>RETRY_DELAY_MS * Math.pow(2, attempt - 1)\<close>.
\<close>

definition failed_tries :: "nat \<Rightarrow> nat \<Rightarrow> nat \<Rightarrow> nat \<Rightarrow> event list" where
  "failed_tries s e a k =
     concat (map (\<lambda>j. [RangeRequest s e, Delay (RETRY_DELAY_MS * 2 ^ (j - 1))]) [a..<k])"

text \<open>The message thrown after the last try, for part \<open>p\<close> of \<open>t\<close> and the last error \<open>m\<close>.\<close>

definition exhausted_message :: "nat \<Rightarrow> nat \<Rightarrow> string \<Rightarrow> string" where
  "exhausted_message p t m =
     ''Failed to download part '' @ string_of_nat p @ ''/'' @ string_of_nat t @
     '' after '' @ string_of_nat MAX_RETRIES @ '' attempts: '' @ m"

text \<open>A task all of whose tries fail at the transport level.\<close>

definition exhausts :: "range_fetcher \<Rightarrow> download_task \<Rightarrow> bool" where
  "exhausts fetch task =
     list_all (\<lambda>j. transport_failure (fetch (t_start task) (t_end task) j)) [1..<Suc MAX_RETRIES]"

text \<open>The error with which such a task rejects.\<close>

definition part_error :: "range_fetcher \<Rightarrow> nat \<Rightarrow> download_task \<Rightarrow> string" where
  "part_error fetch numParts task =
     exhausted_message (t_partNumber task) numParts
       (failure_message (fetch (t_start task) (t_end task) MAX_RETRIES))"

text \<open>The files after every task of a list has written the bytes of its range.\<close>

definition store_parts :: "bytes \<Rightarrow> download_task list \<Rightarrow> fs \<Rightarrow> fs" where
  "store_parts obj ts files =
     fold (\<lambda>t. Mapping.update (t_tempFile t) (byte_range obj (t_start t) (t_end t))) ts files"

text \<open>The bytes of part \<open>i\<close> of an object.\<close>

definition chunk_of :: "bytes \<Rightarrow> nat \<Rightarrow> bytes" where
  "chunk_of obj i =
     byte_range obj (i * DOWNLOAD_CHUNK_SIZE)
       (min (i * DOWNLOAD_CHUNK_SIZE + DOWNLOAD_CHUNK_SIZE - 1) (length obj - 1))"

text \<open>
  Three stores to try the engine on: one that answers every range request at once, one
  that fails twice and then delivers three bytes whatever was asked for, and one that
  is out of reach.
\<close>

definition honest_store :: "bytes \<Rightarrow> range_fetcher" where
  "honest_store obj s e n = Response 206 ''Partial Content'' (Inr (byte_range obj s e))"

definition flaky_store :: range_fetcher where
  "flaky_store s e n =
     (if n = 1 then NetworkError ''ECONNRESET''
      else if n = 2 then Response 503 ''Service Unavailable'' (Inr [])
      else Response 206 ''Partial Content'' (Inr [1, 2, 3]))"

definition dead_store :: range_fetcher where
  "dead_store s e n = NetworkError ''ECONNRESET''"

section \<open>Restore\<close>

text \<open>
  What \<^verbatim>\<open>handleRestore\<close> meets outside the process: the environment variables, the
  answer to the \<^verbatim>\<open>HEAD\<close> probe (the request rejects, or a status comes with the
  \<^verbatim>\<open>Content-Length\<close> header, if any, as a number), the store behind the range
  requests and the race of the parts of a batch, the answer of \<^verbatim>\<open>s3Client.file(key).arrayBuffer()\<close>, the timestamp that
  names the temporary file, the files on disk, and the exit code and error output of
  \<^verbatim>\<open>mkdir -p\<close>, of \<^verbatim>\<open>tar\<close> and of \<^verbatim>\<open>rm -f\<close>.
\<close>

datatype head_result = HeadError string | HeadResponse nat "nat option"

record restore_world =
  rw_env :: environ
  rw_head :: head_result
  rw_range :: range_fetcher
  rw_race :: race
  rw_file :: "string + bytes"
  rw_timestamp :: string
  rw_files :: fs
  rw_mkdir :: "int \<times> string"
  rw_tar :: "int \<times> string"
  rw_unlink :: "int \<times> string"

text \<open>An environment variable inside a template literal.\<close>

definition env_str :: "string option \<Rightarrow> string" where
  "env_str v = (case v of None \<Rightarrow> ''undefined'' | Some s \<Rightarrow> s)"

definition headUrl_of :: "environ \<Rightarrow> string \<Rightarrow> string" where
  "headUrl_of env backupFilename =
     (let endpoint = env ''AWS_ENDPOINT_URL'';
          bucket = or_else (env ''DATA_BUCKET_NAME'') (env ''DYNMAP_BUCKET'')
      in env_str endpoint @ ''/'' @ env_str bucket @ ''/'' @ backupFilename)"

text \<open>
  The download step: the chunked path from \<^verbatim>\<open>LARGE_FILE_THRESHOLD\<close> on, one fetch of
  the whole object below it.
\<close>

definition restore_download ::
    "restore_world \<Rightarrow> string \<Rightarrow> string \<Rightarrow> nat \<Rightarrow> event list \<times> (string + fs)" where
  "restore_download w backupFilename tempFile fileSize =
     (if fileSize \<ge> LARGE_FILE_THRESHOLD
      then downloadLargeFile (rw_range w) (rw_race w) backupFilename tempFile fileSize (rw_files w)
      else (case rw_file w of
              Inl e \<Rightarrow> ([FullRequest backupFilename], Inl e)
            | Inr fileData \<Rightarrow>
                ([FullRequest backupFilename], Inr (Mapping.update tempFile fileData (rw_files w)))))"

definition tar_extract_args :: "string \<Rightarrow> string \<Rightarrow> string list" where
  "tar_extract_args tempFile parentDir =
     [''tar'', ''-xzf'', tempFile, ''-C'', parentDir, ''--overwrite'', ''--no-same-permissions'',
      ''--no-same-owner'', ''--touch'']"

text \<open>
  What follows the download: the size of the written file is compared with the probed
  size, the parent directory is ensured, the archive is extracted, the temporary file
  is removed and the result is built.
\<close>

definition restore_extract ::
    "restore_world \<Rightarrow> string \<Rightarrow> string \<Rightarrow> string \<Rightarrow> nat \<Rightarrow> bytes \<Rightarrow> event list \<times> (string + reply)" where
  "restore_extract w directory backupFilename tempFile fileSize written =
     (let downloadedSize = length written;
          check = (if downloadedSize \<noteq> fileSize
                   then [Warning (''WARNING: Downloaded size ('' @ string_of_nat downloadedSize @
                                  '') does not match expected size ('' @ string_of_nat fileSize @ '')'')]
                   else []);
          parentDir = parentDir_of directory
      in if fst (rw_mkdir w) \<noteq> 0
         then (check @ [Spawn [''mkdir'', ''-p'', parentDir]],
               Inl (''Failed to create directory '' @ parentDir @ '': '' @ snd (rw_mkdir w)))
         else if fst (rw_tar w) \<noteq> 0
         then (check @ [Spawn [''mkdir'', ''-p'', parentDir], Spawn (tar_extract_args tempFile parentDir)],
               Inl (''tar extraction failed with exit code '' @ string_of_int (fst (rw_tar w)) @ '': '' @
                    snd (rw_tar w)))
         else (check @ [Spawn [''mkdir'', ''-p'', parentDir], Spawn (tar_extract_args tempFile parentDir),
                        Spawn [''rm'', ''-f'', tempFile]] @
               (if fst (rw_unlink w) \<noteq> 0
                then [Warning (''Failed to clean up temp file: Error: Failed to remove '' @ tempFile @
                               '': '' @ snd (rw_unlink w))]
                else []),
               Inr (jsonResponse (JObj [
                      (''success'', JBool True),
                      (''restored_from'', JStr backupFilename),
                      (''restored_to'', JStr directory),
                      (''size'', JNum (int downloadedSize)),
                      (''note'', JStr ''complete restore'')]) 200)))"

text \<open>
  The temporary file, named after the time of the request, and the size read from the
  \<^verbatim>\<open>Content-Length\<close> header: \<^verbatim>\<open>contentLength ? parseInt(contentLength, 10) : 0\<close>.
\<close>

definition restore_tempFile :: "restore_world \<Rightarrow> string" where
  "restore_tempFile w = ''/tmp/restore_'' @ rw_timestamp w @ ''.tar.gz''"

definition probed_size :: "nat option \<Rightarrow> nat" where
  "probed_size contentLength = (case contentLength of None \<Rightarrow> 0 | Some n \<Rightarrow> n)"

text \<open>
  The body of the \<^verbatim>\<open>try\<close> block: \<open>Inr\<close> is a reply it returns, \<open>Inl\<close> an error it
  throws.
\<close>

definition restore_body ::
    "restore_world \<Rightarrow> string \<Rightarrow> string \<Rightarrow> event list \<times> (string + reply)" where
  "restore_body w pathname backupFilename =
     (let directory = normalize_directory pathname
      in case createS3Client (rw_env w) ''data'' of
           Inl e \<Rightarrow> ([], Inl e)
         | Inr _ \<Rightarrow>
             if includes_str backupFilename ''..'' \<or> \<not> startsWith backupFilename ''backups/''
             then ([], Inr (jsonResponse (JObj [(''error'', JStr ''Invalid backup filename'')]) 400))
             else (let probe = HeadRequest (headUrl_of (rw_env w) backupFilename)
                   in case rw_head w of
                        HeadError m \<Rightarrow> ([probe], Inl m)
                      | HeadResponse st contentLength \<Rightarrow>
                          if \<not> response_ok st
                          then ([probe],
                                Inr (jsonResponse
                                  (JObj [(''error'', JStr (''Backup not found: '' @ backupFilename))]) 404))
                          else (let fileSize = probed_size contentLength;
                                    tempFile = restore_tempFile w
                                in case restore_download w backupFilename tempFile fileSize of
                                     (evs, Inl e) \<Rightarrow> (probe # evs, Inl e)
                                   | (evs, Inr files1) \<Rightarrow>
                                       (case Mapping.lookup files1 tempFile of
                                          None \<Rightarrow>
                                            (probe # evs,
                                             Inl (''ENOENT: no such file or directory, stat '' @ tempFile))
                                        | Some written \<Rightarrow>
                                            (case restore_extract w directory backupFilename tempFile
                                                    fileSize written of
                                               (evs', r) \<Rightarrow> (probe # evs @ evs', r))))))"

text \<open>
  \<^verbatim>\<open>handleRestore\<close>: its reply, the events of the run and the server after it
  (\<^verbatim>\<open>activeRestores\<close> is raised on entry and lowered again in the \<^verbatim>\<open>finally\<close>).
\<close>

definition handleRestore ::
    "restore_world \<Rightarrow> FileServer \<Rightarrow> string \<Rightarrow> string \<Rightarrow> reply \<times> event list \<times> FileServer" where
  "handleRestore w srv pathname backupFilename =
     (case restore_body w pathname backupFilename of
        (evs, Inr answer) \<Rightarrow> (answer, evs, srv\<lparr>restoreCount := restoreCount srv + 1\<rparr>)
      | (evs, Inl msg) \<Rightarrow>
          (jsonResponse (JObj [(''error'', JStr (''Restore failed: '' @ msg))]) 500,
           evs, srv\<lparr>restoreCount := restoreCount srv + 1\<rparr>))"

text \<open>A request that goes over the network.\<close>

fun network_call :: "event \<Rightarrow> bool" where
  "network_call (HeadRequest u) = True"
| "network_call (RangeRequest s e) = True"
| "network_call (FullRequest k) = True"
| "network_call _ = False"

text \<open>Worlds to try the restore on.\<close>

definition demo_env :: environ where
  "demo_env = [''AWS_ACCESS_KEY_ID'' \<mapsto> ''key'', ''AWS_SECRET_ACCESS_KEY'' \<mapsto> ''secret'',
     ''AWS_ENDPOINT_URL'' \<mapsto> ''https://store.example'', ''DATA_BUCKET_NAME'' \<mapsto> ''data'']"

definition demo_world :: restore_world where
  "demo_world = \<lparr>rw_env = demo_env, rw_head = HeadResponse 200 (Some 5),
     rw_range = honest_store [1, 2, 3], rw_race = (\<lambda>batch. 0), rw_file = Inr [1, 2, 3],
     rw_timestamp = ''20251102_040000'',
     rw_files = Mapping.empty, rw_mkdir = (0, []), rw_tar = (0, []), rw_unlink = (0, [])\<rparr>"

section \<open>Managed paths\<close>

text \<open>
  A string is the list of its code units, which are taken to lie below 256. Of the white
  space and line terminators that \<^verbatim>\<open>String.prototype.trim\<close> strips these are the tab,
  the line feed, the vertical tab, the form feed, the carriage return, the space and the
  no-break space U+00A0. The letters that \<^verbatim>\<open>toLowerCase\<close> changes are \<^verbatim>\<open>A\<close> to \<^verbatim>\<open>Z\<close> and
  U+00C0 to U+00DE without the multiplication sign U+00D7; each goes 32 places up.
\<close>

definition is_space :: "char \<Rightarrow> bool" where
  "is_space c =
     (c \<in> set [CHR 0x09, CHR 0x0A, CHR 0x0B, CHR 0x0C, CHR 0x0D, CHR '' '', CHR 0xA0])"

definition trim :: "string \<Rightarrow> string" where
  "trim s = rev (dropWhile is_space (rev (dropWhile is_space s)))"

definition upper_letters :: string where
  "upper_letters = ''ABCDEFGHIJKLMNOPQRSTUVWXYZ'' @
     [
        CHR 0xC0, CHR 0xC1, CHR 0xC2, CHR 0xC3, CHR 0xC4, CHR 0xC5, CHR 0xC6, CHR 0xC7,
        CHR 0xC8, CHR 0xC9, CHR 0xCA, CHR 0xCB, CHR 0xCC, CHR 0xCD, CHR 0xCE, CHR 0xCF,
        CHR 0xD0, CHR 0xD1, CHR 0xD2, CHR 0xD3, CHR 0xD4, CHR 0xD5, CHR 0xD6, CHR 0xD8,
        CHR 0xD9, CHR 0xDA, CHR 0xDB, CHR 0xDC, CHR 0xDD, CHR 0xDE]"

definition lower_letters :: string where
  "lower_letters = ''abcdefghijklmnopqrstuvwxyz'' @
     [
        CHR 0xE0, CHR 0xE1, CHR 0xE2, CHR 0xE3, CHR 0xE4, CHR 0xE5, CHR 0xE6, CHR 0xE7,
        CHR 0xE8, CHR 0xE9, CHR 0xEA, CHR 0xEB, CHR 0xEC, CHR 0xED, CHR 0xEE, CHR 0xEF,
        CHR 0xF0, CHR 0xF1, CHR 0xF2, CHR 0xF3, CHR 0xF4, CHR 0xF5, CHR 0xF6, CHR 0xF8,
        CHR 0xF9, CHR 0xFA, CHR 0xFB, CHR 0xFC, CHR 0xFD, CHR 0xFE]"

definition lower_char :: "char \<Rightarrow> char" where
  "lower_char c = (case map_of (zip upper_letters lower_letters) c of None \<Rightarrow> c | Some l \<Rightarrow> l)"

definition toLowerCase :: "string \<Rightarrow> string" where
  "toLowerCase s = map lower_char s"

text \<open>
  \<^verbatim>\<open>path.posix\<close>, on the segments between the slashes. \<^verbatim>\<open>normalizeString\<close> drops
  empty segments and \<^verbatim>\<open>.\<close>; \<^verbatim>\<open>..\<close> removes the segment before it, unless there is none
  or it is \<^verbatim>\<open>..\<close> itself, in which case it is kept when the path is relative and
  dropped when it is absolute. The segments found so far are held last first.
\<close>

fun normalizeSegments :: "bool \<Rightarrow> string list \<Rightarrow> string list \<Rightarrow> string list" where
  "normalizeSegments allowAboveRoot [] res = rev res"
| "normalizeSegments allowAboveRoot (seg # segs) res =
     (if seg = [] \<or> seg = ''.'' then normalizeSegments allowAboveRoot segs res
      else if seg = ''..''
      then (case res of
              [] \<Rightarrow> normalizeSegments allowAboveRoot segs (if allowAboveRoot then [''..''] else [])
            | lastSeg # others \<Rightarrow>
                if lastSeg \<noteq> ''..'' then normalizeSegments allowAboveRoot segs others
                else normalizeSegments allowAboveRoot segs (if allowAboveRoot then ''..'' # res else res))
      else normalizeSegments allowAboveRoot segs (seg # res))"

fun join_slash :: "string list \<Rightarrow> string" where
  "join_slash [] = []"
| "join_slash [s] = s"
| "join_slash (s # t # ss) = s @ CHR ''/'' # join_slash (t # ss)"

definition posix_normalize :: "string \<Rightarrow> string" where
  "posix_normalize path =
     (if path = [] then ''.''
      else (let isAbsolute = (hd path = CHR ''/'');
                trailingSeparator = (last path = CHR ''/'');
                normalized = join_slash (normalizeSegments (\<not> isAbsolute) (split_on CHR ''/'' path) [])
            in if normalized = []
               then (if isAbsolute then ''/'' else if trailingSeparator then ''./'' else ''.'')
               else (if isAbsolute then ''/'' else []) @ normalized @
                    (if trailingSeparator then ''/'' else [])))"

text \<open>\<^verbatim>\<open>path.posix.resolve('/', p)\<close> and \<^verbatim>\<open>path.posix.join(a, b)\<close> for non-empty \<open>a\<close>, \<open>b\<close>.\<close>

definition posix_resolve_root :: "string \<Rightarrow> string" where
  "posix_resolve_root p = CHR ''/'' # join_slash (normalizeSegments False (split_on CHR ''/'' p) [])"

definition posix_join :: "string \<Rightarrow> string \<Rightarrow> string" where
  "posix_join a b = posix_normalize (a @ ''/'' @ b)"

text \<open>
  \<^verbatim>\<open>path.posix.dirname\<close>: from the end and down to the second character, the slashes
  at the end are passed over, then the characters of the last segment; the slash
  found there ends the result.
\<close>

definition posix_dirname :: "string \<Rightarrow> string" where
  "posix_dirname path =
     (if path = [] then ''.''
      else (let hasRoot = (hd path = CHR ''/'');
                kept = dropWhile (\<lambda>c. c \<noteq> CHR ''/'')
                           (dropWhile (\<lambda>c. c = CHR ''/'') (rev (tl path)))
            in if kept = [] then (if hasRoot then ''/'' else ''.'')
               else if hasRoot \<and> length kept = 1 then ''//''
               else take (length kept) path))"

text \<open>The constructor's reading of \<^verbatim>\<open>FILE_MANAGER_ROOTS\<close>.\<close>

definition managedRoots_of :: "environ \<Rightarrow> string list" where
  "managedRoots_of env =
     (let raw = (case or_else (env ''FILE_MANAGER_ROOTS'') (Some ''/data'') of
                   None \<Rightarrow> ''/data'' | Some v \<Rightarrow> v);
          entries = filter_Boolean (map trim (split_on CHR '','' raw));
          rooted = map (\<lambda>root. if startsWith root ''/'' then root else ''/'' @ root) entries;
          roots = map (\<lambda>root. if root = ''/'' then ''/''
                               else rev (dropWhile (\<lambda>c. c = CHR ''/'') (rev root))) rooted
      in if roots = [] then [''/data''] else roots)"

record managed_path =
  mp_absolute :: string
  mp_root :: string
  mp_parent :: "string option"

definition computeParent :: "string \<Rightarrow> string \<Rightarrow> string option" where
  "computeParent root absolute =
     (if absolute = root then None
      else (let candidate = posix_dirname absolute
            in if length candidate < length root then Some root
               else if \<not> startsWith candidate root then Some root
               else Some candidate))"

text \<open>The test of the loop over the managed roots.\<close>

definition under_root :: "string \<Rightarrow> string \<Rightarrow> bool" where
  "under_root absolutePath root =
     (root = ''/'' \<or> absolutePath = root \<or> startsWith absolutePath (root @ ''/''))"

definition resolveManagedPath :: "string list \<Rightarrow> string option \<Rightarrow> bool \<Rightarrow> string + managed_path" where
  "resolveManagedPath roots rawPath allowFallback =
     (let fallback = (if allowFallback then (case roots of [] \<Rightarrow> None | r # _ \<Rightarrow> Some r) else None);
          candidate = (case rawPath of
                         None \<Rightarrow> fallback
                       | Some p \<Rightarrow> if p \<noteq> [] \<and> trim p \<noteq> [] then Some (trim p) else fallback)
      in if falsy candidate then Inl ''Path is required''
         else (let normalizedInput = (if startsWith (the candidate) ''/'' then the candidate
                                      else ''/'' @ the candidate);
                   absolutePath = posix_resolve_root (posix_normalize normalizedInput)
               in case find (under_root absolutePath) roots of
                    Some root \<Rightarrow>
                      Inr \<lparr>mp_absolute = absolutePath, mp_root = root,
                           mp_parent = computeParent root absolutePath\<rparr>
                  | None \<Rightarrow> Inl ''Path is outside managed roots''))"

text \<open>
  A path as a list of segments: a segment that can stand in a normalised path, the
  absolute path of a list of segments, and the segments of the absolute path that
  \<^verbatim>\<open>resolveManagedPath\<close> computes for a candidate.
\<close>

definition clean_segment :: "string \<Rightarrow> bool" where
  "clean_segment s = (s \<noteq> [] \<and> CHR ''/'' \<notin> set s \<and> s \<noteq> ''.'' \<and> s \<noteq> ''..'')"

definition abs_path :: "string list \<Rightarrow> string" where
  "abs_path segs = CHR ''/'' # join_slash segs"

definition resolved_segments :: "string \<Rightarrow> string list" where
  "resolved_segments candidate =
     normalizeSegments False
       (split_on CHR ''/''
          (posix_normalize (if startsWith candidate ''/'' then candidate else ''/'' @ candidate))) []"

text \<open>What follows the first segment in a joined path.\<close>

definition seg_tail :: "string list \<Rightarrow> string" where
  "seg_tail ss = (if ss = [] then [] else CHR ''/'' # join_slash ss)"

section \<open>The file system gateway\<close>

definition isMaintenanceModeEnabled :: "environ \<Rightarrow> bool" where
  "isMaintenanceModeEnabled env =
     (toLowerCase (case or_else (env ''MAINTENANCE_MODE'') (Some []) of None \<Rightarrow> [] | Some v \<Rightarrow> v)
        = ''true'')"

definition maintenance_message :: string where
  "maintenance_message = ''Maintenance mode must be enabled before installing a modpack. Stop the server and enter maintenance mode from the Mineflare dashboard.''"

definition ensureMaintenanceModeEnabled :: "environ \<Rightarrow> string + unit" where
  "ensureMaintenanceModeEnabled env =
     (if \<not> isMaintenanceModeEnabled env then Inl maintenance_message else Inr ())"

text \<open>
  The \<^verbatim>\<open>catch\<close> blocks of the gateway: \<^verbatim>\<open>error?.message || fallback\<close>, and the status
  read off the message, in the order of the mutating handlers and in the order of the
  reading ones.
\<close>

definition message_or :: "string \<Rightarrow> string \<Rightarrow> string" where
  "message_or msg fallback = (if msg = [] then fallback else msg)"

definition write_error_status :: "string \<Rightarrow> nat" where
  "write_error_status message =
     (if includes_str message ''maintenance'' then 400
      else if includes_str message ''outside'' then 403 else 500)"

definition read_error_status :: "string \<Rightarrow> nat" where
  "read_error_status message =
     (if includes_str message ''outside'' then 403
      else if includes_str message ''required'' then 400 else 500)"

definition error_reply :: "string \<Rightarrow> nat \<Rightarrow> reply" where
  "error_reply message st = jsonResponse (JObj [(''error'', JStr message)]) st"

definition success_reply :: "string \<Rightarrow> reply" where
  "success_reply path = jsonResponse (JObj [(''success'', JBool True), (''path'', JStr path)]) 200"

text \<open>
  The handlers take the environment, the managed roots, the error with which the file
  system call of the handler rejects, if it does, and the files; they return the reply
  and the files after the call. \<^verbatim>\<open>rm\<close> with \<^verbatim>\<open>recursive\<close> removes the path and all
  below it.
\<close>

definition below :: "string \<Rightarrow> string \<Rightarrow> bool" where
  "below target path =
     (path = target \<or> startsWith path (if target = ''/'' then ''/'' else target @ ''/''))"

definition handleWriteFile ::
    "environ \<Rightarrow> string list \<Rightarrow> string option \<Rightarrow> fs \<Rightarrow> string option \<Rightarrow> bytes \<Rightarrow> reply \<times> fs" where
  "handleWriteFile env roots io files rawPath buffer =
     (case (case ensureMaintenanceModeEnabled env of
              Inl e \<Rightarrow> Inl e
            | Inr _ \<Rightarrow>
                (case resolveManagedPath roots rawPath False of
                   Inl e \<Rightarrow> Inl e
                 | Inr target \<Rightarrow>
                     (case io of
                        Some e \<Rightarrow> Inl e
                      | None \<Rightarrow> Inr (success_reply (mp_absolute target),
                                     Mapping.update (mp_absolute target) buffer files)))) of
        Inr result \<Rightarrow> result
      | Inl e \<Rightarrow>
          (let message = message_or e ''Failed to write file''
           in (error_reply message (write_error_status message), files)))"

definition handleDeletePath ::
    "environ \<Rightarrow> string list \<Rightarrow> string option \<Rightarrow> fs \<Rightarrow> string option \<Rightarrow> reply \<times> fs" where
  "handleDeletePath env roots io files rawPath =
     (case (case ensureMaintenanceModeEnabled env of
              Inl e \<Rightarrow> Inl e
            | Inr _ \<Rightarrow>
                (case resolveManagedPath roots rawPath False of
                   Inl e \<Rightarrow> Inl e
                 | Inr target \<Rightarrow>
                     (case io of
                        Some e \<Rightarrow> Inl e
                      | None \<Rightarrow> Inr (success_reply (mp_absolute target),
                                     Mapping.filter (\<lambda>path content. \<not> below (mp_absolute target) path)
                                       files)))) of
        Inr result \<Rightarrow> result
      | Inl e \<Rightarrow>
          (let message = message_or e ''Failed to delete path''
           in (error_reply message (write_error_status message), files)))"

text \<open>The body of the request is \<open>None\<close> when it is no JSON or has no \<^verbatim>\<open>path\<close>.\<close>

definition handleCreateDirectory ::
    "environ \<Rightarrow> string list \<Rightarrow> string option \<Rightarrow> fs \<Rightarrow> string option \<Rightarrow> reply \<times> fs" where
  "handleCreateDirectory env roots io files bodyPath =
     (case (case ensureMaintenanceModeEnabled env of
              Inl e \<Rightarrow> Inl e
            | Inr _ \<Rightarrow>
                (if falsy bodyPath \<or> trim (the bodyPath) = []
                 then Inr (error_reply ''Directory path is required'' 400, files)
                 else (case resolveManagedPath roots bodyPath False of
                         Inl e \<Rightarrow> Inl e
                       | Inr target \<Rightarrow>
                           (case io of
                              Some e \<Rightarrow> Inl e
                            | None \<Rightarrow> Inr (success_reply (mp_absolute target), files))))) of
        Inr result \<Rightarrow> result
      | Inl e \<Rightarrow>
          (let message = message_or e ''Failed to create directory''
           in (error_reply message (write_error_status message), files)))"

text \<open>
  The reading handlers: a file's content, a plain reply, or a JSON reply. The listing
  of a directory, with its entries described and sorted, is the world's.
\<close>

datatype file_reply = FileContent bytes | PlainText nat string | Json reply

definition handleReadFile :: "string list \<Rightarrow> string option \<Rightarrow> fs \<Rightarrow> string option \<Rightarrow> file_reply" where
  "handleReadFile roots io files rawPath =
     (case (case resolveManagedPath roots rawPath False of
              Inl e \<Rightarrow> Inl e
            | Inr target \<Rightarrow>
                (case Mapping.lookup files (mp_absolute target) of
                   None \<Rightarrow> Inr (PlainText 404 ''File not found'')
                 | Some content \<Rightarrow>
                     (case io of Some e \<Rightarrow> Inl e | None \<Rightarrow> Inr (FileContent content)))) of
        Inr result \<Rightarrow> result
      | Inl e \<Rightarrow>
          (let message = message_or e ''Failed to read file''
           in Json (error_reply message (read_error_status message))))"

definition handleListFiles :: "string list \<Rightarrow> (string \<Rightarrow> string + json) \<Rightarrow> string option \<Rightarrow> reply" where
  "handleListFiles roots readdir rawPath =
     (case (case resolveManagedPath roots rawPath True of
              Inl e \<Rightarrow> Inl e
            | Inr target \<Rightarrow>
                (case readdir (mp_absolute target) of
                   Inl e \<Rightarrow> Inl e
                 | Inr listing \<Rightarrow>
                     Inr (jsonResponse (JObj [
                            (''root'', JStr (mp_root target)),
                            (''path'', JStr (mp_absolute target)),
                            (''parent'', (case mp_parent target of None \<Rightarrow> JNull | Some d \<Rightarrow> JStr d)),
                            (''entries'', listing)]) 200))) of
        Inr result \<Rightarrow> result
      | Inl e \<Rightarrow>
          (let message = message_or e ''Failed to list files''
           in error_reply message (read_error_status message)))"

section \<open>Package installs\<close>

subsection \<open>Starting an install\<close>

text \<open>
  \<^verbatim>\<open>generateJobId\<close>: the clock in base 36 and the random suffix are the caller's.
\<close>

definition generateJobId :: "ModpackSource \<Rightarrow> string \<Rightarrow> string \<Rightarrow> string" where
  "generateJobId source stamp random = ModpackSource_string source @ ''-'' @ stamp @ ''-'' @ random"

text \<open>
  The body of an install request as the handlers read it; the body itself is \<open>None\<close>
  when it is no JSON. A field of a Modrinth request is \<open>None\<close> when it is missing or no
  string. The fields of a CurseForge request are what \<^verbatim>\<open>Number\<close> makes of them:
  \<^verbatim>\<open>NaN\<close> for a missing field, zero for \<^verbatim>\<open>null\<close> or an empty string, and so on.
\<close>

record ModrinthInstallPayload =
  url :: "string option"
  packVersion :: "string option"

record CurseforgeInstallPayload =
  projectId :: js_number
  fileId :: js_number

definition queued_job :: "string \<Rightarrow> ModpackSource \<Rightarrow> nat \<Rightarrow> ModpackJob" where
  "queued_job jobId source now =
     \<lparr>m_id = jobId, m_source = source, m_status = MPending, m_startedAt = now, m_updatedAt = now,
      m_progress = Some (progress_of ''queued''), m_error = None, m_result = None\<rparr>"

text \<open>
  The install handlers return the reply, the server after the call and, when they have
  started the processing of a job, that job.
\<close>

definition handleModrinthInstall ::
    "environ \<Rightarrow> FileServer \<Rightarrow> ModrinthInstallPayload option \<Rightarrow> string \<Rightarrow> string \<Rightarrow> nat \<Rightarrow>
       reply \<times> FileServer \<times> ModpackJob option" where
  "handleModrinthInstall env srv requestBody stamp random now =
     (case requestBody of
        None \<Rightarrow> (error_reply ''Invalid JSON body'' 400, srv, None)
      | Some parsed \<Rightarrow>
          (let packUrl = (case url parsed of None \<Rightarrow> [] | Some u \<Rightarrow> trim u)
           in if packUrl = [] then (error_reply ''Missing Modrinth pack URL'' 400, srv, None)
              else (case ensureMaintenanceModeEnabled env of
                      Inl e \<Rightarrow> (error_reply (message_or e ''Maintenance mode is required'') 400, srv, None)
                    | Inr _ \<Rightarrow>
                        (let jobId = generateJobId Modrinth stamp random;
                             job = queued_job jobId Modrinth now
                         in (jsonResponse (JObj [(''id'', JStr jobId),
                               (''status'', JStr (ModpackJobStatus_string (m_status job)))]) 200,
                             srv\<lparr>modpackJobs := (modpackJobs srv)(jobId \<mapsto> job)\<rparr>,
                             Some job)))))"

definition handleCurseforgeInstall ::
    "environ \<Rightarrow> FileServer \<Rightarrow> CurseforgeInstallPayload option \<Rightarrow> string \<Rightarrow> string \<Rightarrow> nat \<Rightarrow>
       reply \<times> FileServer \<times> ModpackJob option" where
  "handleCurseforgeInstall env srv requestBody stamp random now =
     (case requestBody of
        None \<Rightarrow> (error_reply ''Invalid JSON body'' 400, srv, None)
      | Some parsed \<Rightarrow>
          if \<not> isFinite (projectId parsed) \<or> \<not> isFinite (fileId parsed)
          then (error_reply ''projectId and fileId are required numeric values'' 400, srv, None)
          else (case ensureMaintenanceModeEnabled env of
                  Inl e \<Rightarrow> (error_reply (message_or e ''Maintenance mode is required'') 400, srv, None)
                | Inr _ \<Rightarrow>
                    if falsy (env ''CURSEFORGE_API_KEY'')
                    then (error_reply ''CURSEFORGE_API_KEY is not configured on the container'' 400,
                          srv, None)
                    else (let jobId = generateJobId Curseforge stamp random;
                              job = queued_job jobId Curseforge now
                          in (jsonResponse (JObj [(''id'', JStr jobId),
                                (''status'', JStr (ModpackJobStatus_string (m_status job)))]) 200,
                              srv\<lparr>modpackJobs := (modpackJobs srv)(jobId \<mapsto> job)\<rparr>,
                              Some job))))"

subsection \<open>The Modrinth pipeline\<close>

record ModrinthFileEntry =
  fe_path :: "string option"
  fe_downloads :: "string list"
  fe_hashes :: "(string \<rightharpoonup> string) option"
  fe_env_server :: "string option"

record ModrinthManifest =
  mf_name :: "string option"
  mf_dependencies :: "(string \<rightharpoonup> string) option"
  mf_files :: "ModrinthFileEntry list"
  mf_overrides :: "string option"

record resolution =
  downloadUrl :: string
  res_packName :: string
  res_projectId :: "string option"
  res_versionId :: "string option"

text \<open>
  What the processing of a Modrinth job meets outside the process: the clock, the exit
  code and error output of \<^verbatim>\<open>mkdir -p\<close> for a path, what the metadata requests resolve
  to, the answer to the fetch of a URL, the exit of \<^verbatim>\<open>unzip\<close>, the manifest read from
  the archive (or the error of reading it), whether the overrides directory exists and
  the exit of \<^verbatim>\<open>cp\<close>, and the two digests of \<^verbatim>\<open>crypto.subtle\<close>.
\<close>

record modrinth_world =
  mw_now :: nat
  mw_mkdir :: "string \<Rightarrow> int \<times> string"
  mw_resolve :: "string + resolution"
  mw_fetch :: "string \<Rightarrow> fetch_result"
  mw_unzip :: "int \<times> string"
  mw_manifest :: "string + ModrinthManifest"
  mw_overrides_exist :: bool
  mw_cp :: "int \<times> string"
  mw_sha1 :: "bytes \<Rightarrow> bytes"
  mw_sha512 :: "bytes \<Rightarrow> bytes"

definition ensureDirectory :: "modrinth_world \<Rightarrow> string \<Rightarrow> string + unit" where
  "ensureDirectory w path =
     (if fst (mw_mkdir w path) \<noteq> 0
      then Inl (''Failed to create directory '' @ path @ '': '' @ snd (mw_mkdir w path))
      else Inr ())"

definition downloadFileToPath :: "modrinth_world \<Rightarrow> string \<Rightarrow> string \<Rightarrow> string + bytes" where
  "downloadFileToPath w link destination =
     (case mw_fetch w link of
        NetworkError m \<Rightarrow> Inl m
      | Response st stText body \<Rightarrow>
          if \<not> response_ok st
          then Inl (''Failed to download '' @ link @ '' ('' @ string_of_nat st @ '' '' @ stText @ '')'')
          else (case body of
                  Inl m \<Rightarrow> Inl m
                | Inr buffer \<Rightarrow>
                    (case ensureDirectory w (posix_dirname destination) of
                       Inl e \<Rightarrow> Inl e
                     | Inr _ \<Rightarrow> Inr buffer)))"

definition extractArchive :: "modrinth_world \<Rightarrow> string + unit" where
  "extractArchive w =
     (if fst (mw_unzip w) \<noteq> 0 then Inl (''Failed to extract archive: '' @ snd (mw_unzip w))
      else Inr ())"

definition resetModsDirectory :: "modrinth_world \<Rightarrow> string + unit" where
  "resetModsDirectory w =
     (case ensureDirectory w ''/data/mods'' of
        Inl e \<Rightarrow> Inl e
      | Inr _ \<Rightarrow> ensureDirectory w ''/data/mods'')"

definition applyOverrides :: "modrinth_world \<Rightarrow> string + bool" where
  "applyOverrides w =
     (if \<not> mw_overrides_exist w then Inr False
      else if fst (mw_cp w) \<noteq> 0 then Inl (''Failed to copy overrides: '' @ snd (mw_cp w))
      else Inr True)"

definition sanitizeRelativePath :: "string \<Rightarrow> string + string" where
  "sanitizeRelativePath relPath =
     (let normalized = dropWhile (\<lambda>c. c = CHR ''/'') (posix_normalize relPath)
      in if normalized = [] \<or> startsWith normalized ''..''
         then Inl (''Unsafe path in manifest: '' @ relPath)
         else Inr normalized)"

text \<open>\<^verbatim>\<open>bufferToHex\<close>: two lower-case hexadecimal digits for each byte.\<close>

definition hex_digit :: "nat \<Rightarrow> char" where
  "hex_digit n = ''0123456789abcdef'' ! (n mod 16)"

definition bufferToHex :: "bytes \<Rightarrow> string" where
  "bufferToHex buffer = concat (map (\<lambda>b. [hex_digit (unat b div 16), hex_digit (unat b mod 16)]) buffer)"

text \<open>
  \<^verbatim>\<open>verifyHash\<close>: of the supplied hashes it looks at \<^verbatim>\<open>sha1\<close> and at \<^verbatim>\<open>sha512\<close>, each
  when present and not empty.
\<close>

definition verifyHash ::
    "modrinth_world \<Rightarrow> bytes \<Rightarrow> (string \<rightharpoonup> string) option \<Rightarrow> string \<Rightarrow> string + unit" where
  "verifyHash w buffer hashes label =
     (case hashes of
        None \<Rightarrow> Inr ()
      | Some h \<Rightarrow>
          if \<not> falsy (h ''sha1'') \<and> bufferToHex (mw_sha1 w buffer) \<noteq> toLowerCase (the (h ''sha1''))
          then Inl (''SHA-1 mismatch for '' @ label)
          else if \<not> falsy (h ''sha512'')
                  \<and> bufferToHex (mw_sha512 w buffer) \<noteq> toLowerCase (the (h ''sha512''))
          then Inl (''SHA-512 mismatch for '' @ label)
          else Inr ())"

definition replace_backslashes :: "string \<Rightarrow> string" where
  "replace_backslashes s = map (\<lambda>c. if c = CHR 0x5C then CHR ''/'' else c) s"

text \<open>
  The loop of \<^verbatim>\<open>installModrinthFiles\<close> from the entry with index \<open>index\<close> on: the values
  the job takes, one for each entry whose download is started, and the number of files
  installed or the error thrown.
\<close>

fun install_loop ::
    "modrinth_world \<Rightarrow> nat \<Rightarrow> nat \<Rightarrow> ModrinthFileEntry list \<Rightarrow> ModpackJob \<Rightarrow> nat \<Rightarrow>
       ModpackJob list \<times> (string + nat)" where
  "install_loop w totalCount index [] job installed = ([], Inr installed)"
| "install_loop w totalCount index (fileEntry # rest) job installed =
     (if fe_env_server fileEntry = Some ''unsupported''
      then install_loop w totalCount (index + 1) rest job installed
      else (let normalizedInput = replace_backslashes
                  (if falsy (fe_path fileEntry) then ''mods/file-'' @ string_of_nat index @ ''.jar''
                   else the (fe_path fileEntry))
            in case sanitizeRelativePath normalizedInput of
                 Inl e \<Rightarrow> ([], Inl e)
               | Inr relPath \<Rightarrow>
                   (let destination = posix_join ''/data'' relPath
                    in if fe_downloads fileEntry = [] \<or> hd (fe_downloads fileEntry) = []
                       then ([], Inl (''Missing download URL for '' @ relPath))
                       else (let job1 = job\<lparr>m_progress := Some \<lparr>phase = ''Installing mods'',
                                               currentFile = Some relPath,
                                               currentIndex = Some (index + 1),
                                               totalFiles = Some totalCount,
                                               progress_note = None\<rparr>,
                                             m_updatedAt := mw_now w\<rparr>
                             in case downloadFileToPath w (hd (fe_downloads fileEntry)) destination of
                                  Inl e \<Rightarrow> ([job1], Inl e)
                                | Inr buffer \<Rightarrow>
                                    (case verifyHash w buffer (fe_hashes fileEntry) relPath of
                                       Inl e \<Rightarrow> ([job1], Inl e)
                                     | Inr _ \<Rightarrow>
                                         (case install_loop w totalCount (index + 1) rest job1
                                                 (installed + 1) of
                                            (snaps, r) \<Rightarrow> (job1 # snaps, r)))))))"

definition extractLoaderInfo :: "(string \<rightharpoonup> string) option \<Rightarrow> loader option \<times> string option" where
  "extractLoaderInfo dependencies =
     (case dependencies of
        None \<Rightarrow> (None, None)
      | Some d \<Rightarrow>
          if \<not> falsy (d ''neoforge'') then (Some NEOFORGE, d ''minecraft'')
          else if \<not> falsy (d ''forge'') then (Some FORGE, d ''minecraft'')
          else if \<not> falsy (d ''fabric-loader'') \<or> \<not> falsy (d ''quilt-loader'')
          then (Some FABRIC, d ''minecraft'')
          else (None, d ''minecraft''))"

definition installModrinthFiles ::
    "modrinth_world \<Rightarrow> ModrinthManifest \<Rightarrow> ModpackJob \<Rightarrow>
       ModpackJob list \<times> (string + nat \<times> loader option \<times> string option)" where
  "installModrinthFiles w manifest job =
     (case install_loop w (length (mf_files manifest)) 0 (mf_files manifest) job 0 of
        (snaps, Inl e) \<Rightarrow> (snaps, Inl e)
      | (snaps, Inr installed) \<Rightarrow>
          (snaps, Inr (installed, extractLoaderInfo (mf_dependencies manifest))))"

definition PROFILE_HINTS :: "(string \<times> loader \<times> string) list" where
  "PROFILE_HINTS =
     [(''paper-1-21-10'', PAPER, ''1.21.10''), (''paper-1-21-8'', PAPER, ''1.21.8''),
      (''paper-1-21-7'', PAPER, ''1.21.7''), (''paper-1-20-6'', PAPER, ''1.20.6''),
      (''paper-1-19-4'', PAPER, ''1.19.4''), (''forge-1-20-1'', FORGE, ''1.20.1''),
      (''forge-1-19-2'', FORGE, ''1.19.2''), (''forge-1-18-2'', FORGE, ''1.18.2''),
      (''forge-1-16-5'', FORGE, ''1.16.5''), (''neoforge-1-21-1'', NEOFORGE, ''1.21.1''),
      (''neoforge-1-20-4'', NEOFORGE, ''1.20.4''), (''neoforge-1-20-1'', NEOFORGE, ''1.20.1''),
      (''fabric-1-21-1'', FABRIC, ''1.21.1''), (''fabric-1-20-1'', FABRIC, ''1.20.1''),
      (''fabric-1-19-2'', FABRIC, ''1.19.2''), (''fabric-1-18-2'', FABRIC, ''1.18.2'')]"

definition recommendProfile :: "loader option \<Rightarrow> string option \<Rightarrow> string option" where
  "recommendProfile ld version =
     (if ld = None \<or> falsy version then None
      else map_option fst (find (\<lambda>(profileId, l, v). l = the ld \<and> v = the version) PROFILE_HINTS))"

text \<open>
  \<^verbatim>\<open>processModrinthJob\<close>: the values the job takes, one after each stretch of
  assignments that an \<^verbatim>\<open>await\<close> ends, and whether the promise resolves or rejects with
  an error. The temporary directory, removed in the \<^verbatim>\<open>finally\<close>, plays no part in the
  job.
\<close>

definition processModrinthJob :: "modrinth_world \<Rightarrow> ModpackJob \<Rightarrow> ModpackJob list \<times> (string + unit)" where
  "processModrinthJob w job =
     (let tempDir = ''/tmp/modpack-'' @ m_id job
      in case ensureDirectory w tempDir of
           Inl e \<Rightarrow> ([], Inl e)
         | Inr _ \<Rightarrow>
     (let j1 = job\<lparr>m_status := MDownloading,
                   m_progress := Some (progress_of ''Resolving Modrinth metadata''),
                   m_updatedAt := mw_now w\<rparr>
      in case mw_resolve w of
           Inl e \<Rightarrow> ([j1], Inl e)
         | Inr resolved \<Rightarrow>
     (let archivePath = posix_join tempDir ''pack.mrpack'';
          j2 = j1\<lparr>m_progress := Some ((progress_of ''Downloading pack archive'')
                       \<lparr>progress_note := Some (res_packName resolved)\<rparr>)\<rparr>
      in case downloadFileToPath w (downloadUrl resolved) archivePath of
           Inl e \<Rightarrow> ([j1, j2], Inl e)
         | Inr archiveBuffer \<Rightarrow>
     (let j3 = j2\<lparr>m_progress := Some (progress_of ''Extracting pack archive'')\<rparr>
      in case extractArchive w of
           Inl e \<Rightarrow> ([j1, j2, j3], Inl e)
         | Inr _ \<Rightarrow>
     (case mw_manifest w of
        Inl e \<Rightarrow> ([j1, j2, j3], Inl e)
      | Inr manifest \<Rightarrow>
     (let j4 = j3\<lparr>m_progress := Some (progress_of ''Preparing filesystem for install'')\<rparr>
      in case resetModsDirectory w of
           Inl e \<Rightarrow> ([j1, j2, j3, j4], Inl e)
         | Inr _ \<Rightarrow>
     (case applyOverrides w of
        Inl e \<Rightarrow> ([j1, j2, j3, j4], Inl e)
      | Inr applied \<Rightarrow>
     (let j5 = j4\<lparr>m_status := MInstalling\<rparr>
      in case installModrinthFiles w manifest j5 of
           (snaps, Inl e) \<Rightarrow> ([j1, j2, j3, j4, j5] @ snaps, Inl e)
         | (snaps, Inr (installedCount, ld, version)) \<Rightarrow>
             ([j1, j2, j3, j4, j5] @ snaps @
              [(last (j5 # snaps))
                 \<lparr>m_status := MCompleted,
                  m_progress := Some ((progress_of ''completed'')
                     \<lparr>progress_note := Some ''Modpack installation finished''\<rparr>),
                  m_result := Some \<lparr>r_loader = ld, minecraftVersion = version,
                     profileSuggestion = recommendProfile ld version,
                     packName = or_else (mf_name manifest) (Some (res_packName resolved)),
                     filesInstalled = installedCount,
                     overridesApplied = applied,
                     metadata = [(''modrinthProjectId'', MetaString (res_projectId resolved)),
                                 (''modrinthVersionId'', MetaString (res_versionId resolved))]\<rparr>\<rparr>],
              Inr ())))))))))"

text \<open>
  The job as \<^verbatim>\<open>handleModrinthInstall\<close> runs it: the processing, and the \<^verbatim>\<open>.catch\<close> that
  marks the job failed when the processing rejects. The result is every value the job
  takes after the pending one the handler created.
\<close>

definition run_modrinth_job :: "modrinth_world \<Rightarrow> ModpackJob \<Rightarrow> ModpackJob list" where
  "run_modrinth_job w job =
     (case processModrinthJob w job of
        (snaps, Inr _) \<Rightarrow> snaps
      | (snaps, Inl e) \<Rightarrow>
          snaps @ [(last (job # snaps))
                     \<lparr>m_status := MFailed, m_error := Some e,
                      m_progress := Some ((progress_of ''failed'')\<lparr>progress_note := Some e\<rparr>),
                      m_updatedAt := mw_now w\<rparr>])"

text \<open>An arrow of the package-install state machine, and a change of the job that keeps
  its status (the progress of an active job).\<close>

fun install_step :: "ModpackJobStatus \<Rightarrow> ModpackJobStatus \<Rightarrow> bool" where
  "install_step MPending MDownloading = True"
| "install_step MDownloading MInstalling = True"
| "install_step MInstalling MCompleted = True"
| "install_step MPending MFailed = True"
| "install_step MDownloading MFailed = True"
| "install_step MInstalling MFailed = True"
| "install_step _ _ = False"

fun install_terminal :: "ModpackJobStatus \<Rightarrow> bool" where
  "install_terminal MCompleted = True"
| "install_terminal MFailed = True"
| "install_terminal _ = False"

definition install_move :: "ModpackJobStatus \<Rightarrow> ModpackJobStatus \<Rightarrow> bool" where
  "install_move a b = (install_step a b \<or> (a = b \<and> \<not> install_terminal a))"

subsection \<open>The CurseForge pipeline\<close>

text \<open>
  What the CurseForge API tells about a file; a field is \<open>None\<close> when it is missing.
\<close>

record file_data =
  fd_downloadUrl :: "string option"
  fd_displayName :: "string option"
  fd_fileName :: "string option"

text \<open>
  The answer to a request to the API: the fetch rejects, or a response comes with its
  status and, read as JSON (which may reject), its \<^verbatim>\<open>data\<close> member, if any.
\<close>

datatype api_answer = ApiRejects string | ApiAnswer nat "string + file_data option"

text \<open>
  The manifest of a CurseForge pack, as the code reads it: the mod loaders (none when
  \<^verbatim>\<open>minecraft\<close> or the list is missing; \<open>ml_primary\<close> says whether \<^verbatim>\<open>primary\<close> is truthy),
  the version, and the files; \<open>ce_required\<close> is \<open>Some False\<close> when \<^verbatim>\<open>required\<close> is
  \<^verbatim>\<open>false\<close>. Project and file ids are whole numbers.
\<close>

record ModLoader =
  ml_id :: string
  ml_primary :: bool

record CurseforgeFileEntry =
  ce_projectID :: int
  ce_fileID :: int
  ce_required :: "bool option"

record CurseforgeManifest =
  cm_modLoaders :: "ModLoader list"
  cm_version :: "string option"
  cm_files :: "CurseforgeFileEntry list"
  cm_overrides :: "string option"

record CurseforgePackInfo =
  pi_name :: "string option"
  pi_fileName :: "string option"
  pi_downloadUrl :: string

text \<open>
  What the processing of a CurseForge job meets outside the process: what a Modrinth job
  meets too (the clock, \<^verbatim>\<open>mkdir -p\<close>, the fetch of a URL, \<^verbatim>\<open>unzip\<close>, the overrides
  directory and \<^verbatim>\<open>cp\<close>), the environment variables, the answer of the API about the
  pack and about the file of a project, the manifest read from the archive (or the error
  of reading it), and the message of the \<^verbatim>\<open>TypeError\<close> that \<^verbatim>\<open>path.join\<close> throws
  for an argument that is no string.
\<close>

record curseforge_world =
  cw_common :: modrinth_world
  cw_env :: environ
  cw_pack :: api_answer
  cw_file :: "int \<Rightarrow> int \<Rightarrow> api_answer"
  cw_manifest :: "string + CurseforgeManifest"
  cw_join_error :: string

text \<open>\<^verbatim>\<open>curseforgeRequest\<close>, followed by the \<^verbatim>\<open>?.data\<close> of its two callers.\<close>

definition curseforgeRequest :: "curseforge_world \<Rightarrow> api_answer \<Rightarrow> string + file_data option" where
  "curseforgeRequest w answer =
     (if falsy (cw_env w ''CURSEFORGE_API_KEY'') then Inl ''CURSEFORGE_API_KEY is not configured''
      else (case answer of
              ApiRejects m \<Rightarrow> Inl m
            | ApiAnswer st body \<Rightarrow>
                if \<not> response_ok st
                then Inl (''CurseForge API request failed ('' @ string_of_nat st @ '')'')
                else body))"

definition fetchCurseforgePack :: "curseforge_world \<Rightarrow> string + CurseforgePackInfo" where
  "fetchCurseforgePack w =
     (case curseforgeRequest w (cw_pack w) of
        Inl e \<Rightarrow> Inl e
      | Inr fileData \<Rightarrow>
          if fileData = None \<or> falsy (fd_downloadUrl (the fileData))
          then Inl ''CurseForge file metadata is missing a download URL''
          else Inr \<lparr>pi_name = or_else (fd_displayName (the fileData)) (fd_fileName (the fileData)),
                    pi_fileName = fd_fileName (the fileData),
                    pi_downloadUrl = the (fd_downloadUrl (the fileData))\<rparr>)"

definition determineLoaderFromModLoaders :: "ModLoader list \<Rightarrow> loader option" where
  "determineLoaderFromModLoaders modLoaders =
     (if modLoaders = [] then None
      else (let loaderEntry = (case find ml_primary modLoaders of
                                 Some l \<Rightarrow> l
                               | None \<Rightarrow> hd modLoaders);
                ident = toLowerCase (ml_id loaderEntry)
            in if includes_str ident ''neoforge'' then Some NEOFORGE
               else if includes_str ident ''forge'' then Some FORGE
               else if includes_str ident ''fabric'' then Some FABRIC
               else None))"

text \<open>
  The loop of \<^verbatim>\<open>installCurseforgeFiles\<close> from the entry with index \<open>index\<close> on: the values
  the job takes, one for each entry that is not skipped, and the number of files
  installed or the error thrown.
\<close>

fun curseforge_loop ::
    "curseforge_world \<Rightarrow> nat \<Rightarrow> nat \<Rightarrow> CurseforgeFileEntry list \<Rightarrow> ModpackJob \<Rightarrow> nat \<Rightarrow>
       ModpackJob list \<times> (string + nat)" where
  "curseforge_loop w totalCount index [] job installed = ([], Inr installed)"
| "curseforge_loop w totalCount index (entry # rest) job installed =
     (if ce_required entry = Some False
      then curseforge_loop w totalCount (index + 1) rest job installed
      else (let job1 = job\<lparr>m_progress := Some \<lparr>phase = ''Installing mods'',
                              currentFile = Some (''Project '' @ string_of_int (ce_projectID entry)),
                              currentIndex = Some (index + 1),
                              totalFiles = Some totalCount,
                              progress_note = None\<rparr>,
                            m_updatedAt := mw_now (cw_common w)\<rparr>
            in case curseforgeRequest w (cw_file w (ce_projectID entry) (ce_fileID entry)) of
                 Inl e \<Rightarrow> ([job1], Inl e)
               | Inr fileData \<Rightarrow>
                   if fileData = None \<or> falsy (fd_downloadUrl (the fileData))
                   then ([job1], Inl (''CurseForge file '' @ string_of_int (ce_projectID entry) @ ''/'' @
                                      string_of_int (ce_fileID entry) @ '' is missing a download URL''))
                   else (let targetName =
                               (if falsy (fd_fileName (the fileData))
                                then string_of_int (ce_projectID entry) @ ''-'' @
                                     string_of_int (ce_fileID entry) @ ''.jar''
                                else the (fd_fileName (the fileData)));
                             destination = posix_join ''/data/mods'' targetName
                         in case downloadFileToPath (cw_common w) (the (fd_downloadUrl (the fileData)))
                                   destination of
                              Inl e \<Rightarrow> ([job1], Inl e)
                            | Inr buffer \<Rightarrow>
                                (case curseforge_loop w totalCount (index + 1) rest job1 (installed + 1) of
                                   (snaps, r) \<Rightarrow> (job1 # snaps, r)))))"

definition installCurseforgeFiles ::
    "curseforge_world \<Rightarrow> CurseforgeManifest \<Rightarrow> ModpackJob \<Rightarrow>
       ModpackJob list \<times> (string + nat \<times> loader option \<times> string option)" where
  "installCurseforgeFiles w manifest job =
     (case curseforge_loop w (length (cm_files manifest)) 0 (cm_files manifest) job 0 of
        (snaps, Inl e) \<Rightarrow> (snaps, Inl e)
      | (snaps, Inr installed) \<Rightarrow>
          (snaps, Inr (installed, determineLoaderFromModLoaders (cm_modLoaders manifest),
                       cm_version manifest)))"

text \<open>
  \<^verbatim>\<open>path.join(tempDir, fileName)\<close> for the name of the pack file, which may be empty.
\<close>

definition archive_path :: "string \<Rightarrow> string \<Rightarrow> string" where
  "archive_path tempDir fileName =
     (if fileName = [] then posix_normalize tempDir else posix_join tempDir fileName)"

text \<open>
  \<^verbatim>\<open>processCurseforgeJob\<close>, as \<^verbatim>\<open>processModrinthJob\<close> above: the values the job takes
  and whether the promise resolves or rejects with an error.
\<close>

definition processCurseforgeJob ::
    "curseforge_world \<Rightarrow> CurseforgeInstallPayload \<Rightarrow> ModpackJob \<Rightarrow> ModpackJob list \<times> (string + unit)" where
  "processCurseforgeJob w request job =
     (let tempDir = ''/tmp/curseforge-'' @ m_id job
      in case ensureDirectory (cw_common w) tempDir of
           Inl e \<Rightarrow> ([], Inl e)
         | Inr _ \<Rightarrow>
     (let j1 = job\<lparr>m_status := MDownloading,
                   m_progress := Some (progress_of ''Resolving CurseForge metadata''),
                   m_updatedAt := mw_now (cw_common w)\<rparr>
      in case fetchCurseforgePack w of
           Inl e \<Rightarrow> ([j1], Inl e)
         | Inr packInfo \<Rightarrow>
     (case pi_fileName packInfo of
        None \<Rightarrow> ([j1], Inl (cw_join_error w))
      | Some fileName \<Rightarrow>
     (let archivePath = archive_path tempDir fileName;
          j2 = j1\<lparr>m_progress := Some ((progress_of ''Downloading pack archive'')
                       \<lparr>progress_note := pi_name packInfo\<rparr>)\<rparr>
      in case downloadFileToPath (cw_common w) (pi_downloadUrl packInfo) archivePath of
           Inl e \<Rightarrow> ([j1, j2], Inl e)
         | Inr archiveBuffer \<Rightarrow>
     (let j3 = j2\<lparr>m_progress := Some (progress_of ''Extracting pack archive'')\<rparr>
      in case extractArchive (cw_common w) of
           Inl e \<Rightarrow> ([j1, j2, j3], Inl e)
         | Inr _ \<Rightarrow>
     (case cw_manifest w of
        Inl e \<Rightarrow> ([j1, j2, j3], Inl e)
      | Inr manifest \<Rightarrow>
     (let j4 = j3\<lparr>m_progress := Some (progress_of ''Preparing filesystem for install'')\<rparr>
      in case resetModsDirectory (cw_common w) of
           Inl e \<Rightarrow> ([j1, j2, j3, j4], Inl e)
         | Inr _ \<Rightarrow>
     (case applyOverrides (cw_common w) of
        Inl e \<Rightarrow> ([j1, j2, j3, j4], Inl e)
      | Inr applied \<Rightarrow>
     (let j5 = j4\<lparr>m_status := MInstalling\<rparr>
      in case installCurseforgeFiles w manifest j5 of
           (snaps, Inl e) \<Rightarrow> ([j1, j2, j3, j4, j5] @ snaps, Inl e)
         | (snaps, Inr (installedCount, ld, version)) \<Rightarrow>
             ([j1, j2, j3, j4, j5] @ snaps @
              [(last (j5 # snaps))
                 \<lparr>m_status := MCompleted,
                  m_progress := Some ((progress_of ''completed'')
                     \<lparr>progress_note := Some ''Modpack installation finished''\<rparr>),
                  m_result := Some \<lparr>r_loader = ld, minecraftVersion = version,
                     profileSuggestion = recommendProfile ld version,
                     packName = pi_name packInfo,
                     filesInstalled = installedCount,
                     overridesApplied = applied,
                     metadata = [(''curseforgeProjectId'', MetaNumber (projectId request)),
                                 (''curseforgeFileId'', MetaNumber (fileId request))]\<rparr>\<rparr>],
              Inr ()))))))))))"

text \<open>
  The job as \<^verbatim>\<open>handleCurseforgeInstall\<close> runs it: the processing, and the \<^verbatim>\<open>.catch\<close>
  that marks the job failed when the processing rejects.
\<close>

definition run_curseforge_job ::
    "curseforge_world \<Rightarrow> CurseforgeInstallPayload \<Rightarrow> ModpackJob \<Rightarrow> ModpackJob list" where
  "run_curseforge_job w request job =
     (case processCurseforgeJob w request job of
        (snaps, Inr _) \<Rightarrow> snaps
      | (snaps, Inl e) \<Rightarrow>
          snaps @ [(last (job # snaps))
                     \<lparr>m_status := MFailed, m_error := Some e,
                      m_progress := Some ((progress_of ''failed'')\<lparr>progress_note := Some e\<rparr>),
                      m_updatedAt := mw_now (cw_common w)\<rparr>])"

subsection \<open>Notions the statements about installs use\<close>

text \<open>
  A supplied digest agrees with the computed one, or none is supplied; the two digests
  \<^verbatim>\<open>verifyHash\<close> looks at agree.
\<close>

definition digest_ok :: "string option \<Rightarrow> bytes \<Rightarrow> bool" where
  "digest_ok supplied digest = (falsy supplied \<or> bufferToHex digest = toLowerCase (the supplied))"

definition hashes_ok :: "modrinth_world \<Rightarrow> bytes \<Rightarrow> (string \<rightharpoonup> string) option \<Rightarrow> bool" where
  "hashes_ok w buffer hashes =
     (case hashes of
        None \<Rightarrow> True
      | Some h \<Rightarrow> digest_ok (h ''sha1'') (mw_sha1 w buffer) \<and> digest_ok (h ''sha512'') (mw_sha512 w buffer))"

text \<open>
  An entry the loop installs (one not marked unsupported on the server), and what it
  takes for the loop to get past the entry at position \<open>index\<close>: a safe path, a download
  URL, a download that succeeds, and bytes that pass \<^verbatim>\<open>verifyHash\<close>.
\<close>

definition installed_entry :: "ModrinthFileEntry \<Rightarrow> bool" where
  "installed_entry fileEntry = (fe_env_server fileEntry \<noteq> Some ''unsupported'')"

definition entry_input :: "nat \<Rightarrow> ModrinthFileEntry \<Rightarrow> string" where
  "entry_input index fileEntry =
     replace_backslashes
       (if falsy (fe_path fileEntry) then ''mods/file-'' @ string_of_nat index @ ''.jar''
        else the (fe_path fileEntry))"

definition entry_verified :: "modrinth_world \<Rightarrow> nat \<Rightarrow> ModrinthFileEntry \<Rightarrow> bool" where
  "entry_verified w index fileEntry =
     (case sanitizeRelativePath (entry_input index fileEntry) of
        Inl e \<Rightarrow> False
      | Inr relPath \<Rightarrow>
          fe_downloads fileEntry \<noteq> [] \<and> hd (fe_downloads fileEntry) \<noteq> [] \<and>
          (case downloadFileToPath w (hd (fe_downloads fileEntry)) (posix_join ''/data'' relPath) of
             Inl e \<Rightarrow> False
           | Inr buffer \<Rightarrow> hashes_ok w buffer (fe_hashes fileEntry)))"

text \<open>
  A value the job takes before the loop over the files: it is downloading, and has the
  result and the error of the job at the start.
\<close>

definition early_job :: "ModpackJob \<Rightarrow> ModpackJob \<Rightarrow> bool" where
  "early_job job j = (m_status j = MDownloading \<and> m_result j = m_result job \<and> m_error j = m_error job)"

text \<open>
  The stages of \<^verbatim>\<open>processModrinthJob\<close> before the loop over the files all succeed, so
  that the job gets to \<^verbatim>\<open>installModrinthFiles\<close>.
\<close>

definition install_reached :: "modrinth_world \<Rightarrow> ModpackJob \<Rightarrow> bool" where
  "install_reached w job =
     (let tempDir = ''/tmp/modpack-'' @ m_id job
      in \<not> isl (ensureDirectory w tempDir) \<and> \<not> isl (mw_resolve w)
         \<and> \<not> isl (downloadFileToPath w (downloadUrl (projr (mw_resolve w)))
                     (posix_join tempDir ''pack.mrpack''))
         \<and> \<not> isl (extractArchive w) \<and> \<not> isl (mw_manifest w)
         \<and> \<not> isl (resetModsDirectory w) \<and> \<not> isl (applyOverrides w))"

text \<open>
  A world to try the pipeline on. Its digest stands in for those of the platform;
  nothing proved below depends on what the digests are. Every fetch delivers the same
  twelve bytes, and the manifest has one file, whose only supplied hash is a
  \<^verbatim>\<open>sha256\<close> that is no hexadecimal string at all.
\<close>

definition demo_digest :: "bytes \<Rightarrow> bytes" where
  "demo_digest buffer = [of_nat (length buffer)]"

definition demo_entry :: ModrinthFileEntry where
  "demo_entry = \<lparr>fe_path = Some ''mods/a.jar'', fe_downloads = [''https://cdn.example/a.jar''],
     fe_hashes = Some [''sha256'' \<mapsto> ''zz''], fe_env_server = None\<rparr>"

definition demo_manifest :: ModrinthManifest where
  "demo_manifest = \<lparr>mf_name = Some ''Demo'', mf_dependencies = None, mf_files = [demo_entry],
     mf_overrides = None\<rparr>"

definition demo_modrinth_world :: modrinth_world where
  "demo_modrinth_world = \<lparr>mw_now = 1762056000000, mw_mkdir = (\<lambda>path. (0, [])),
     mw_resolve = Inr \<lparr>downloadUrl = ''https://cdn.example/pack.mrpack'', res_packName = ''Demo'',
                       res_projectId = None, res_versionId = None\<rparr>,
     mw_fetch = (\<lambda>link. Response 200 ''OK'' (Inr [1, 2, 3, 4, 5, 6, 7, 8, 9, 10, 11, 12])),
     mw_unzip = (0, []),
     mw_manifest = Inr demo_manifest, mw_overrides_exist = False, mw_cp = (0, []),
     mw_sha1 = demo_digest, mw_sha512 = demo_digest\<rparr>"

text \<open>
  The same world with two files in the manifest: one whose \<^verbatim>\<open>sha1\<close> is the digest of
  the delivered bytes, written in upper case, and one whose \<^verbatim>\<open>sha1\<close> is not.
\<close>

definition sound_entry :: ModrinthFileEntry where
  "sound_entry = \<lparr>fe_path = Some ''mods/b.jar'', fe_downloads = [''https://cdn.example/b.jar''],
     fe_hashes = Some [''sha1'' \<mapsto> ''0C''], fe_env_server = None\<rparr>"

definition tampered_entry :: ModrinthFileEntry where
  "tampered_entry = \<lparr>fe_path = Some ''mods/c.jar'', fe_downloads = [''https://cdn.example/c.jar''],
     fe_hashes = Some [''sha1'' \<mapsto> ''00''], fe_env_server = None\<rparr>"

definition tampered_world :: modrinth_world where
  "tampered_world = demo_modrinth_world
     \<lparr>mw_manifest := Inr (demo_manifest\<lparr>mf_files := [sound_entry, tampered_entry]\<rparr>)\<rparr>"

definition demo_install :: ModpackJob where
  "demo_install = queued_job (generateJobId Modrinth ''mhicl2x0'' ''k3j9zq'') Modrinth 1762056000000"

text \<open>
  A CurseForge pack of one file in the same world, the same with the API refusing the
  request for the pack, and a Modrinth job started at 1762056000000, which is
  \<^verbatim>\<open>mhh6nb40\<close> in base 36, as it is once its run in the world above has finished.
\<close>

definition demo_curseforge_world :: curseforge_world where
  "demo_curseforge_world = \<lparr>cw_common = demo_modrinth_world,
     cw_env = [''CURSEFORGE_API_KEY'' \<mapsto> ''key''],
     cw_pack = ApiAnswer 200 (Inr (Some \<lparr>fd_downloadUrl = Some ''https://cdn.example/pack.zip'',
                 fd_displayName = Some ''Demo'', fd_fileName = Some ''pack.zip''\<rparr>)),
     cw_file = (\<lambda>project file. ApiAnswer 200 (Inr (Some \<lparr>fd_downloadUrl = Some ''https://cdn.example/m.jar'',
                 fd_displayName = None, fd_fileName = Some ''m.jar''\<rparr>))),
     cw_manifest = Inr \<lparr>cm_modLoaders = [\<lparr>ml_id = ''forge-47.2.0'', ml_primary = True\<rparr>],
                        cm_version = Some ''1.20.1'',
                        cm_files = [\<lparr>ce_projectID = 238222, ce_fileID = 4712345,
                                     ce_required = Some True\<rparr>],
                        cm_overrides = Some ''overrides''\<rparr>,
     cw_join_error = ''The path argument must be of type string''\<rparr>"

definition refused_world :: curseforge_world where
  "refused_world = demo_curseforge_world\<lparr>cw_pack := ApiAnswer 403 (Inr None)\<rparr>"

definition demo_payload :: CurseforgeInstallPayload where
  "demo_payload = \<lparr>projectId = Finite 238222 0, fileId = Finite 4712345 0\<rparr>"

definition demo_curseforge_install :: ModpackJob where
  "demo_curseforge_install =
     queued_job (generateJobId Curseforge ''mhicl2x0'' ''k3j9zq'') Curseforge 1762056000000"

definition first_install :: ModpackJob where
  "first_install = queued_job (generateJobId Modrinth ''mhh6nb40'' ''k3j9zq'') Modrinth 1762056000000"

definition finished_install :: ModpackJob where
  "finished_install = last (first_install # run_modrinth_job demo_modrinth_world first_install)"

definition demo_backup_world :: backup_world where
  "demo_backup_world = \<lparr>bw_env = demo_env, bw_now = 1762056000000, bw_tar_exit = 0,
     bw_tar_stderr = [], bw_tar_stdout = [], bw_archive_size = Some 3, bw_upload = Inr (),
     bw_completed = 1762056009000\<rparr>"

text \<open>A server with one backup job under way, to try the handlers on.\<close>

definition keyed_env :: environ where
  "keyed_env = [''MAINTENANCE_MODE'' \<mapsto> ''TRUE'', ''CURSEFORGE_API_KEY'' \<mapsto> ''key'']"

definition demo_job :: backup_job where
  "demo_job = \<lparr>b_id = ''b1'', b_directory = ''/data/world'', b_status = BRunning,
     b_startedAt = 1762056000000, b_completedAt = None, b_result = None, b_error = None\<rparr>"

definition demo_server :: FileServer where
  "demo_server = \<lparr>requestCount = 7, backupCount = 1, restoreCount = 0, activeRestores = 0,
     backupJobs = [''b1'' \<mapsto> demo_job], modpackJobs = Map.empty, managedRoots = [''/data'']\<rparr>"

text \<open>The same server with that finished job in its registry of installs.\<close>

definition finished_server :: FileServer where
  "finished_server = demo_server
     \<lparr>modpackJobs := [generateJobId Modrinth ''mhh6nb40'' ''k3j9zq'' \<mapsto> finished_install]\<rparr>"

chapter \<open>Verification\<close>

section \<open>Decimal strings\<close>

lemma digit_char_cases:
  assumes "n < 10" and "P 9" "P 8" "P 7" "P 6" "P 5" "P 4" "P 3" "P 2" "P 1" "P 0"
  shows "P (n::nat)"
proof -
  from assms(1) have "n = 9 \<or> n = 8 \<or> n = 7 \<or> n = 6 \<or> n = 5 \<or> n = 4 \<or> n = 3 \<or> n = 2 \<or> n = 1 \<or> n = 0"
    by presburger
  then show ?thesis using assms(2-) by (elim disjE) simp_all
qed

lemma of_char_digit_char: "n < 10 \<Longrightarrow> of_char (digit_char n) = 48 + n"
  by (erule digit_char_cases) (simp_all add: digit_char_def)

lemma digit_char_less: "a < 10 \<Longrightarrow> b < 10 \<Longrightarrow> digit_char a < digit_char b \<longleftrightarrow> a < b"
  by (simp add: less_char_def of_char_digit_char)

lemma digit_char_inj: "a < 10 \<Longrightarrow> b < 10 \<Longrightarrow> digit_char a = digit_char b \<longleftrightarrow> a = b"
  by (metis add_left_cancel of_char_digit_char)

lemma length_dec [simp]: "length (dec w n) = w"
  by (induction w arbitrary: n) auto

lemma dec_zero: "dec w 0 = replicate w CHR ''0''"
  by (induction w) (auto simp: digit_char_def replicate_append_same)

lemma length_string_of_nat: "n < 10 ^ w \<Longrightarrow> 0 < w \<Longrightarrow> length (string_of_nat n) \<le> w"
proof (induction n arbitrary: w rule: string_of_nat.induct)
  case (1 n)
  show ?case
  proof (cases "n < 10")
    case True
    then show ?thesis using "1.prems" by (simp add: string_of_nat.simps [of n])
  next
    case False
    then obtain v where w: "w = Suc v" using "1.prems" by (cases w) auto
    from False "1.prems" w have "0 < v" by (cases v) auto
    moreover from "1.prems" w have "n div 10 < 10 ^ v"
      by (simp add: less_mult_imp_div_less mult.commute)
    ultimately have "length (string_of_nat (n div 10)) \<le> v"
      using "1.IH" [OF False] by simp
    then show ?thesis using False w by (simp add: string_of_nat.simps [of n])
  qed
qed

lemma padStart_string_of_nat:
  "n < 10 ^ w \<Longrightarrow> 0 < w \<Longrightarrow> padStart w CHR ''0'' (string_of_nat n) = dec w n"
proof (induction n arbitrary: w rule: string_of_nat.induct)
  case (1 n)
  from "1.prems" obtain v where w: "w = Suc v" by (cases w) auto
  show ?case
  proof (cases "n < 10")
    case True
    then show ?thesis using w
      by (simp add: string_of_nat.simps [of n] padStart_def dec_zero)
  next
    case False
    from False "1.prems" w have v: "0 < v" by (cases v) auto
    from "1.prems" w have d: "n div 10 < 10 ^ v"
      by (simp add: less_mult_imp_div_less mult.commute)
    have ih: "padStart v CHR ''0'' (string_of_nat (n div 10)) = dec v (n div 10)"
      using "1.IH" [OF False d v] .
    have "length (string_of_nat (n div 10)) \<le> v" using length_string_of_nat [OF d v] .
    then have "padStart w CHR ''0'' (string_of_nat n)
        = padStart v CHR ''0'' (string_of_nat (n div 10)) @ [digit_char (n mod 10)]"
      using False w by (simp add: string_of_nat.simps [of n] padStart_def)
    then show ?thesis using ih w by simp
  qed
qed

lemma less_snoc_same_length:
  fixes xs ys :: "'a::linorder list"
  assumes "length xs = length ys"
  shows "xs @ [x] < ys @ [y] \<longleftrightarrow> xs < ys \<or> xs = ys \<and> x < y"
  using assms
  by (induction xs ys rule: list_induct2) auto

lemma dec_less: "a < b \<Longrightarrow> b < 10 ^ w \<Longrightarrow> dec w a < dec w b"
proof (induction w arbitrary: a b)
  case 0
  then show ?case by simp
next
  case (Suc w)
  have b: "b div 10 < 10 ^ w" using Suc.prems by (simp add: less_mult_imp_div_less mult.commute)
  have le: "a div 10 \<le> b div 10" using Suc.prems by (simp add: div_le_mono)
  show ?case
  proof (cases "a div 10 < b div 10")
    case True
    then have "dec w (a div 10) < dec w (b div 10)" using Suc.IH b by simp
    then show ?thesis by (simp add: less_snoc_same_length)
  next
    case False
    with le have eq: "a div 10 = b div 10" by simp
    have "a mod 10 < b mod 10"
      using Suc.prems(1) eq by (metis div_mult_mod_eq nat_add_left_cancel_less)
    then show ?thesis using eq by (simp add: less_snoc_same_length digit_char_less)
  qed
qed

lemma less_same_length_append:
  fixes xs ys :: "'a::linorder list"
  assumes "length xs = length ys" "xs < ys"
  shows "p @ xs @ u < p @ ys @ v"
proof -
  have "xs @ u < ys @ v"
    using assms by (induction xs ys rule: list_induct2) auto
  then show ?thesis by (induction p) auto
qed

section \<open>The key scheme: newest first\<close>

text \<open>The calendar agrees with the two dates the code names: the epoch and 2125-01-01.\<close>

lemma civil_epoch: "civil_from_days 0 = (1970, 1, 1)"
  apply (simp add: civil_from_days_def)
  apply (simp add: civil_of_doe_def)
  apply (simp add: civil_of_yoe_def)
  apply (simp add: civil_of_doy_def)
  apply (simp add: civil_of_mp_def)
  done

lemma civil_max_epoch:
  "civil_from_days (MAX_EPOCH_SECONDS div 86400) = (2125, 1, 1) \<and> MAX_EPOCH_SECONDS mod 86400 = 0"
  apply (simp add: civil_from_days_def MAX_EPOCH_SECONDS_def)
  apply (simp add: civil_of_doe_def)
  apply (simp add: civil_of_yoe_def)
  apply (simp add: civil_of_doy_def)
  apply (simp add: civil_of_mp_def)
  done

lemma REV_SECONDS_WIDTH_eq: "REV_SECONDS_WIDTH = 10"
  by (simp add: REV_SECONDS_WIDTH_def string_of_int_def MAX_EPOCH_SECONDS_def string_of_nat.simps)

lemma reversePart_dec:
  assumes "0 \<le> r" "r \<le> MAX_EPOCH_SECONDS"
  shows "padStart REV_SECONDS_WIDTH CHR ''0'' (string_of_int r) = dec 10 (nat r)"
proof -
  have "nat r < 10 ^ 10" using assms by (simp add: MAX_EPOCH_SECONDS_def)
  then show ?thesis using assms(1)
    by (simp add: REV_SECONDS_WIDTH_eq string_of_int_def padStart_string_of_nat)
qed

text \<open>
  C1, as the claim states it, fails: \<^verbatim>\<open>generateBackupKey\<close> takes a \<^verbatim>\<open>Date\<close>, whose
  resolution is the millisecond, and keeps whole seconds only. Two dates within one
  second, here 0 ms and 1 ms after the epoch, give the same key, not a greater one.
\<close>

theorem generateBackupKey_same_second_counterexample:
  "(0::int) < 1 \<and> \<not> generateBackupKey ''world'' 1 < generateBackupKey ''world'' 0"
  by (simp add: generateBackupKey_def formatUTCDateYYYYMMDDHH_def getUTCFullYear_def
      getUTCMonth_def getUTCDate_def getUTCHours_def utc_days_def)

lemma reverse_order_strict:
  assumes "0 \<le> t1" and "t1 div 1000 < t2 div 1000" and "t2 div 1000 \<le> MAX_EPOCH_SECONDS"
  shows "generateBackupKey d t2 < generateBackupKey d t1"
proof -
  let ?r1 = "MAX_EPOCH_SECONDS - t1 div 1000" and ?r2 = "MAX_EPOCH_SECONDS - t2 div 1000"
  have s1: "0 \<le> t1 div 1000" using assms(1) by simp
  have r: "0 \<le> ?r2" "?r2 < ?r1" "?r1 \<le> MAX_EPOCH_SECONDS" using assms s1 by simp_all
  have p1: "padStart REV_SECONDS_WIDTH CHR ''0'' (string_of_int ?r1) = dec 10 (nat ?r1)"
    using r by (intro reversePart_dec) simp_all
  have p2: "padStart REV_SECONDS_WIDTH CHR ''0'' (string_of_int ?r2) = dec 10 (nat ?r2)"
    using r by (intro reversePart_dec) simp_all
  have "nat ?r2 < nat ?r1" "nat ?r1 < 10 ^ 10" using r by (simp_all add: MAX_EPOCH_SECONDS_def)
  then have lt: "dec 10 (nat ?r2) < dec 10 (nat ?r1)" by (rule dec_less)
  have "''backups/'' @ dec 10 (nat ?r2) @ (''_'' @ formatUTCDateYYYYMMDDHH t2 @ ''_'' @ d @ ''.tar.gz'')
      < ''backups/'' @ dec 10 (nat ?r1) @ (''_'' @ formatUTCDateYYYYMMDDHH t1 @ ''_'' @ d @ ''.tar.gz'')"
    by (rule less_same_length_append) (simp_all add: lt)
  then show ?thesis
    unfolding generateBackupKey_def Let_def p1 p2 by simp
qed

lemma same_second_same_key:
  assumes "t1 div 1000 = t2 div 1000"
  shows "generateBackupKey d t1 = generateBackupKey d t2"
proof -
  have days: "t div 86400000 = t div 1000 div 86400" for t :: int
    using zdiv_zmult2_eq [of 86400 t 1000] by simp
  have hours: "t div 3600000 = t div 1000 div 3600" for t :: int
    using zdiv_zmult2_eq [of 3600 t 1000] by simp
  have "utc_days t1 = utc_days t2" using assms by (simp add: utc_days_def days)
  moreover have "getUTCHours t1 = getUTCHours t2" using assms by (simp add: getUTCHours_def hours)
  ultimately have "formatUTCDateYYYYMMDDHH t1 = formatUTCDateYYYYMMDDHH t2"
    by (simp add: formatUTCDateYYYYMMDDHH_def getUTCFullYear_def getUTCMonth_def getUTCDate_def)
  then show ?thesis using assms by (simp add: generateBackupKey_def)
qed

text \<open>
  C1, amended: for every directory name and any two dates from the Unix epoch up to
  \<^verbatim>\<open>MAX_EPOCH_SECONDS\<close> that fall into different seconds, the key of the earlier date
  is lexicographically greater than the key of the later one: ascending order of the
  keys of one directory is descending order of their epoch seconds. Two dates within
  the same second give the same key.
\<close>

theorem generateBackupKey_reverse_order:
  "(0 \<le> t1 \<and> t1 div 1000 < t2 div 1000 \<and> t2 div 1000 \<le> MAX_EPOCH_SECONDS \<longrightarrow>
      generateBackupKey d t2 < generateBackupKey d t1)
   \<and> (t1 div 1000 = t2 div 1000 \<longrightarrow> generateBackupKey d t1 = generateBackupKey d t2)"
  using reverse_order_strict [of t1 t2 d] same_second_same_key [of t1 t2 d] by blast

theorem generateBackupKey_reverse_order_witness:
  "(0::int) \<le> 0 \<and> (0::int) div 1000 < 1762056000000 div 1000
     \<and> (1762056000000::int) div 1000 \<le> MAX_EPOCH_SECONDS
     \<and> generateBackupKey ''world'' 1762056000000 < generateBackupKey ''world'' 0
     \<and> (1762056000000::int) div 1000 = 1762056000999 div 1000
     \<and> generateBackupKey ''world'' 1762056000000 = generateBackupKey ''world'' 1762056000999"
proof -
  have h1: "(0::int) \<le> 0" by simp
  have h2: "(0::int) div 1000 < 1762056000000 div 1000" by simp
  have h3: "(1762056000000::int) div 1000 \<le> MAX_EPOCH_SECONDS"
    by (simp add: MAX_EPOCH_SECONDS_def)
  have h4: "(1762056000000::int) div 1000 = 1762056000999 div 1000" by simp
  from generateBackupKey_reverse_order [of 0 1762056000000 "''world''"] h1 h2 h3
  have a: "generateBackupKey ''world'' 1762056000000 < generateBackupKey ''world'' 0" by blast
  from generateBackupKey_reverse_order [of 1762056000000 1762056000999 "''world''"] h4
  have b: "generateBackupKey ''world'' 1762056000000 = generateBackupKey ''world'' 1762056000999"
    by blast
  from h1 h2 h3 a h4 b show ?thesis by blast
qed

section \<open>The chunked transfer engine: retries\<close>

lemma attempt_range_failure:
  "transport_failure (fetch s e j) \<Longrightarrow>
     attempt_range fetch s e j = ([RangeRequest s e], Inl (failure_message (fetch s e j)))"
  by (cases "fetch s e j" rule: transport_failure.cases) (auto simp: attempt_range_def)

lemma attempt_range_delivered:
  "delivered (fetch s e j) = Some d \<Longrightarrow>
     attempt_range fetch s e j = (RangeRequest s e # size_warning s e d, Inr d)"
  by (cases "fetch s e j" rule: transport_failure.cases)
    (auto simp: attempt_range_def size_warning_def split: if_splits)

lemma failure_or_delivered: "transport_failure r \<longleftrightarrow> delivered r = None"
  by (cases r rule: transport_failure.cases) auto

lemma loop_delivered:
  assumes "a \<le> k" "k \<le> MAX_RETRIES"
    and "\<forall>j. a \<le> j \<and> j < k \<longrightarrow> transport_failure (fetch s e j)"
    and "delivered (fetch s e k) = Some d"
  shows "downloadRange_loop fetch s e p t a le
           = (failed_tries s e a k @ RangeRequest s e # size_warning s e d, Inr d)"
  using assms
proof (induction "k - a" arbitrary: a le)
  case 0
  then have "a = k" by simp
  then show ?case using "0.prems"
    by (simp add: downloadRange_loop.simps [of _ _ _ _ _ k] attempt_range_delivered failed_tries_def)
next
  case (Suc n)
  then have lt: "a < k" and f: "transport_failure (fetch s e a)" by auto
  have ih: "downloadRange_loop fetch s e p t (a + 1) (Some (failure_message (fetch s e a)))
      = (failed_tries s e (a + 1) k @ RangeRequest s e # size_warning s e d, Inr d)"
    using Suc.hyps(1) [of "a + 1"] Suc.hyps(2) Suc.prems lt by auto
  have "failed_tries s e a k
      = [RangeRequest s e, Delay (RETRY_DELAY_MS * 2 ^ (a - 1))] @ failed_tries s e (a + 1) k"
    using lt by (simp add: failed_tries_def upt_rec [of a k])
  then show ?case using lt Suc.prems(2) ih
    by (simp add: downloadRange_loop.simps [of _ _ _ _ _ a] attempt_range_failure [of fetch s e a, OF f])
qed

lemma loop_exhausted:
  assumes "a \<le> MAX_RETRIES"
    and "\<forall>j. a \<le> j \<and> j \<le> MAX_RETRIES \<longrightarrow> transport_failure (fetch s e j)"
  shows "downloadRange_loop fetch s e p t a le
           = (failed_tries s e a MAX_RETRIES @ [RangeRequest s e],
              Inl (exhausted_message p t (failure_message (fetch s e MAX_RETRIES))))"
  using assms
proof (induction "MAX_RETRIES - a" arbitrary: a le)
  case 0
  then have a: "a = MAX_RETRIES" by simp
  have f: "transport_failure (fetch s e a)" using "0.prems" by simp
  have "downloadRange_loop fetch s e p t (MAX_RETRIES + 1) (Some m)
      = ([], Inl (''Failed to download part '' @ string_of_nat p @ ''/'' @ string_of_nat t @
            '' after '' @ string_of_nat MAX_RETRIES @ '' attempts: '' @ m))" for m
    by (subst downloadRange_loop.simps) simp
  moreover have "attempt_range fetch s e MAX_RETRIES
      = ([RangeRequest s e], Inl (failure_message (fetch s e MAX_RETRIES)))"
    using attempt_range_failure [of fetch s e a, OF f] a by simp
  ultimately show ?case unfolding a
    by (simp add: downloadRange_loop.simps [of _ _ _ _ _ MAX_RETRIES]
        failed_tries_def exhausted_message_def)
next
  case (Suc n)
  then have lt: "a < MAX_RETRIES" and f: "transport_failure (fetch s e a)" by auto
  have ih: "downloadRange_loop fetch s e p t (a + 1) (Some (failure_message (fetch s e a)))
      = (failed_tries s e (a + 1) MAX_RETRIES @ [RangeRequest s e],
         Inl (exhausted_message p t (failure_message (fetch s e MAX_RETRIES))))"
    using Suc.hyps(1) [of "a + 1"] Suc.hyps(2) Suc.prems lt by auto
  have "failed_tries s e a MAX_RETRIES
      = [RangeRequest s e, Delay (RETRY_DELAY_MS * 2 ^ (a - 1))] @ failed_tries s e (a + 1) MAX_RETRIES"
    using lt by (simp add: failed_tries_def upt_rec [of a MAX_RETRIES])
  then show ?case using lt ih
    by (simp add: downloadRange_loop.simps [of _ _ _ _ _ a] attempt_range_failure [of fetch s e a, OF f])
qed

lemma exhausts_iff:
  "exhausts fetch task \<longleftrightarrow>
     (\<forall>j. 1 \<le> j \<and> j \<le> MAX_RETRIES \<longrightarrow> transport_failure (fetch (t_start task) (t_end task) j))"
  by (auto simp: exhausts_def list_all_iff)

lemma retry_cases:
  obtains (delivered) k d where "1 \<le> k" "k \<le> MAX_RETRIES"
      "\<forall>j. 1 \<le> j \<and> j < k \<longrightarrow> transport_failure (fetch s e j)" "delivered (fetch s e k) = Some d"
  | (exhausted) "\<forall>j. 1 \<le> j \<and> j \<le> MAX_RETRIES \<longrightarrow> transport_failure (fetch s e j)"
proof (cases "\<forall>j. 1 \<le> j \<and> j \<le> MAX_RETRIES \<longrightarrow> transport_failure (fetch s e j)")
  case True
  then show ?thesis by (rule exhausted)
next
  case False
  define Q where "Q j \<longleftrightarrow> 1 \<le> j \<and> j \<le> MAX_RETRIES \<and> \<not> transport_failure (fetch s e j)" for j
  from False have ex: "\<exists>j. Q j" by (auto simp: Q_def)
  define k where "k = (LEAST j. Q j)"
  have k: "Q k" unfolding k_def using ex by (metis LeastI)
  have least: "\<And>j. j < k \<Longrightarrow> \<not> Q j" unfolding k_def by (rule not_less_Least)
  from k obtain d where d: "delivered (fetch s e k) = Some d"
    by (auto simp: Q_def failure_or_delivered)
  have "\<forall>j. 1 \<le> j \<and> j < k \<longrightarrow> transport_failure (fetch s e j)"
    using least k by (auto simp: Q_def)
  with k d show ?thesis by (intro delivered [of k d]) (auto simp: Q_def)
qed

lemma retry_delivered:
  assumes "1 \<le> k" "k \<le> MAX_RETRIES"
    and "\<forall>j. 1 \<le> j \<and> j < k \<longrightarrow> transport_failure (fetch s e j)"
    and "delivered (fetch s e k) = Some d"
  shows "downloadRangeWithRetry fetch s e p t
           = (failed_tries s e 1 k @ RangeRequest s e # size_warning s e d, Inr d)"
  unfolding downloadRangeWithRetry_def using assms by (rule loop_delivered)

lemma retry_exhausted:
  assumes "\<forall>j. 1 \<le> j \<and> j \<le> MAX_RETRIES \<longrightarrow> transport_failure (fetch s e j)"
  shows "downloadRangeWithRetry fetch s e p t
           = (failed_tries s e 1 MAX_RETRIES @ [RangeRequest s e],
              Inl (exhausted_message p t (failure_message (fetch s e MAX_RETRIES))))"
  unfolding downloadRangeWithRetry_def
  by (rule loop_exhausted) (use assms in \<open>simp_all add: MAX_RETRIES_def\<close>)

lemma count_requests_failed_tries:
  "length (filter (\<lambda>ev. ev = RangeRequest s e) (failed_tries s e a k)) = k - a"
  unfolding failed_tries_def by (induction k) (auto simp: Suc_diff_le)

lemma count_requests_size_warning:
  "filter (\<lambda>ev. ev = RangeRequest s e) (size_warning s e d) = []"
  by (simp add: size_warning_def)

lemma retry_request_count:
  "length (filter (\<lambda>ev. ev = RangeRequest s e) (fst (downloadRangeWithRetry fetch s e p t))) \<le> MAX_RETRIES"
proof (cases rule: retry_cases [of fetch s e])
  case (delivered k d)
  from retry_delivered [where fetch = fetch and s = s and e = e and p = p and t = t, OF this]
    delivered(1,2) show ?thesis
    by (simp add: count_requests_failed_tries count_requests_size_warning)
next
  case exhausted
  from retry_exhausted [where fetch = fetch and s = s and e = e and p = p and t = t, OF this]
  show ?thesis
    by (simp add: count_requests_failed_tries MAX_RETRIES_def)
qed

lemma downloadPart_exhausts:
  assumes "exhausts fetch task"
  shows "\<exists>evs. downloadPart fetch n task files = (evs, Inl (part_error fetch n task))"
proof -
  from assms have "\<forall>j. 1 \<le> j \<and> j \<le> MAX_RETRIES
      \<longrightarrow> transport_failure (fetch (t_start task) (t_end task) j)"
    by (simp add: exhausts_iff)
  from retry_exhausted [where fetch = fetch and s = "t_start task" and e = "t_end task"
      and p = "t_partNumber task" and t = n, OF this]
  show ?thesis
    by (simp add: downloadPart_def part_error_def)
qed

lemma downloadPart_delivers:
  assumes "\<not> exhausts fetch task"
  shows "\<exists>evs d. downloadPart fetch n task files = (evs, Inr (Mapping.update (t_tempFile task) d files))
           \<and> (\<exists>k. delivered (fetch (t_start task) (t_end task) k) = Some d)"
proof (cases rule: retry_cases [of fetch "t_start task" "t_end task"])
  case (delivered k d)
  from retry_delivered [where fetch = fetch and s = "t_start task" and e = "t_end task"
      and p = "t_partNumber task" and t = n, OF this] delivered(4)
  show ?thesis
    by (auto simp: downloadPart_def)
next
  case exhausted
  with assms show ?thesis by (simp add: exhausts_iff)
qed

lemma find_append_cases:
  "find P (xs @ ys) = (case find P xs of None \<Rightarrow> find P ys | Some x \<Rightarrow> Some x)"
  by (induction xs) auto

lemma run_batch_errors:
  "fst (snd (run_batch fetch n ts files)) = map (part_error fetch n) (filter (exhausts fetch) ts)"
proof (induction ts arbitrary: files)
  case Nil
  then show ?case by simp
next
  case (Cons t ts)
  show ?case
  proof (cases "exhausts fetch t")
    case True
    from downloadPart_exhausts [OF True, of n files] obtain evs where
      dp: "downloadPart fetch n t files = (evs, Inl (part_error fetch n t))" by blast
    obtain evs' errs' files' where
      rb: "run_batch fetch n ts files = (evs', errs', files')"
      by (cases "run_batch fetch n ts files") auto
    have "errs' = map (part_error fetch n) (filter (exhausts fetch) ts)"
      using Cons.IH [of files] unfolding rb fst_conv snd_conv .
    moreover have "run_batch fetch n (t # ts) files = (evs @ evs', part_error fetch n t # errs', files')"
      by (simp add: dp rb)
    ultimately show ?thesis using True by simp
  next
    case False
    from downloadPart_delivers [OF False, of n files] obtain evs d where
      dp: "downloadPart fetch n t files = (evs, Inr (Mapping.update (t_tempFile t) d files))" by blast
    obtain evs' errs' files' where
      rb: "run_batch fetch n ts (Mapping.update (t_tempFile t) d files) = (evs', errs', files')"
      by (cases "run_batch fetch n ts (Mapping.update (t_tempFile t) d files)") auto
    have "errs' = map (part_error fetch n) (filter (exhausts fetch) ts)"
      using Cons.IH [of "Mapping.update (t_tempFile t) d files"] unfolding rb fst_conv snd_conv .
    moreover have "run_batch fetch n (t # ts) files = (evs @ evs', errs', files')"
      by (simp add: dp rb)
    ultimately show ?thesis using False by simp
  qed
qed

lemma find_None_filter: "find P xs = None \<Longrightarrow> filter P xs = []"
  by (induction xs) (auto split: if_splits)

lemma find_Some_filter: "find P xs = Some x \<Longrightarrow> x \<in> set (filter P xs)"
  by (induction xs) (auto split: if_splits)

lemma run_batch_files:
  assumes "serves obj fetch" "find (exhausts fetch) ts = None"
  shows "snd (snd (run_batch fetch n ts files)) = store_parts obj ts files"
  using assms(2)
proof (induction ts arbitrary: files)
  case Nil
  then show ?case by (simp add: store_parts_def)
next
  case (Cons t ts)
  then have ne: "\<not> exhausts fetch t" and rest: "find (exhausts fetch) ts = None"
    by (auto split: if_splits)
  from downloadPart_delivers [OF ne, of n files] obtain evs d k where
    dp: "downloadPart fetch n t files = (evs, Inr (Mapping.update (t_tempFile t) d files))"
    and "delivered (fetch (t_start t) (t_end t) k) = Some d" by blast
  with assms(1) have d: "d = byte_range obj (t_start t) (t_end t)" by (auto simp: serves_def)
  obtain evs' err' files' where
    rb: "run_batch fetch n ts (Mapping.update (t_tempFile t) d files) = (evs', err', files')"
    by (cases "run_batch fetch n ts (Mapping.update (t_tempFile t) d files)") auto
  have "files' = store_parts obj ts (Mapping.update (t_tempFile t) d files)"
    using Cons.IH [OF rest, of "Mapping.update (t_tempFile t) d files"] unfolding rb fst_conv snd_conv .
  moreover have "run_batch fetch n (t # ts) files = (evs @ evs', err', files')"
    by (simp add: dp rb)
  ultimately show ?case by (simp add: store_parts_def d)
qed

lemma download_batches_error:
  assumes "find (exhausts fetch) ts = Some first"
  shows "\<exists>evs k. first \<in> set (take MAX_CONCURRENT_DOWNLOADS (drop (k * MAX_CONCURRENT_DOWNLOADS) ts))
           \<and> download_batches fetch settle n ts files
               = (evs, Inl (first_rejection settle
                              (take MAX_CONCURRENT_DOWNLOADS (drop (k * MAX_CONCURRENT_DOWNLOADS) ts))
                              (map (part_error fetch n)
                                 (filter (exhausts fetch)
                                    (take MAX_CONCURRENT_DOWNLOADS
                                       (drop (k * MAX_CONCURRENT_DOWNLOADS) ts))))))"
  using assms
proof (induction fetch settle n ts files rule: download_batches.induct)
  case (1 fetch settle n tasks files)
  let ?b = "take MAX_CONCURRENT_DOWNLOADS tasks" and ?r = "drop MAX_CONCURRENT_DOWNLOADS tasks"
  from "1.prems" have ne: "tasks \<noteq> []" by auto
  obtain evs errs files1 where rb: "run_batch fetch n ?b files = (evs, errs, files1)"
    by (cases "run_batch fetch n ?b files") auto
  have errs: "errs = map (part_error fetch n) (filter (exhausts fetch) ?b)"
    using run_batch_errors [of fetch n ?b files] rb by simp
  have split: "find (exhausts fetch) tasks
      = (case find (exhausts fetch) ?b of None \<Rightarrow> find (exhausts fetch) ?r | Some x \<Rightarrow> Some x)"
    using find_append_cases [of "exhausts fetch" ?b ?r] by simp
  show ?case
  proof (cases "find (exhausts fetch) ?b")
    case None
    then have e: "errs = []" using errs by (simp add: find_None_filter)
    from None split "1.prems" have "find (exhausts fetch) ?r = Some first" by simp
    from "1.IH" [OF ne rb [symmetric] refl e this] obtain evs' k where
      m: "first \<in> set (take MAX_CONCURRENT_DOWNLOADS (drop (k * MAX_CONCURRENT_DOWNLOADS) ?r))"
      and d: "download_batches fetch settle n ?r files1
               = (evs', Inl (first_rejection settle
                              (take MAX_CONCURRENT_DOWNLOADS (drop (k * MAX_CONCURRENT_DOWNLOADS) ?r))
                              (map (part_error fetch n)
                                 (filter (exhausts fetch)
                                    (take MAX_CONCURRENT_DOWNLOADS
                                       (drop (k * MAX_CONCURRENT_DOWNLOADS) ?r))))))"
      by blast
    have dd: "drop (k * MAX_CONCURRENT_DOWNLOADS) ?r = drop (Suc k * MAX_CONCURRENT_DOWNLOADS) tasks"
      by (simp add: add.commute)
    have "download_batches fetch settle n tasks files
        = (evs @ evs', Inl (first_rejection settle
                              (take MAX_CONCURRENT_DOWNLOADS (drop (Suc k * MAX_CONCURRENT_DOWNLOADS) tasks))
                              (map (part_error fetch n)
                                 (filter (exhausts fetch)
                                    (take MAX_CONCURRENT_DOWNLOADS
                                       (drop (Suc k * MAX_CONCURRENT_DOWNLOADS) tasks))))))"
      using ne rb e d unfolding dd by (subst download_batches.simps) simp
    moreover from m have "first \<in> set (take MAX_CONCURRENT_DOWNLOADS
                                          (drop (Suc k * MAX_CONCURRENT_DOWNLOADS) tasks))"
      unfolding dd .
    ultimately show ?thesis by blast
  next
    case (Some x)
    with split "1.prems" have x: "x = first" by simp
    from find_Some_filter [OF Some] x have f: "first \<in> set (filter (exhausts fetch) ?b)" by simp
    then have "filter (exhausts fetch) ?b \<noteq> []" by (cases "filter (exhausts fetch) ?b") auto
    then obtain e es where c: "errs = e # es" using errs by (cases errs) auto
    have "download_batches fetch settle n tasks files
        = (evs, Inl (first_rejection settle ?b (map (part_error fetch n) (filter (exhausts fetch) ?b))))"
      using ne rb c errs by (subst download_batches.simps) simp
    moreover from f have "first \<in> set ?b" by simp
    ultimately have "first \<in> set (take MAX_CONCURRENT_DOWNLOADS (drop (0 * MAX_CONCURRENT_DOWNLOADS) tasks))
        \<and> download_batches fetch settle n tasks files
        = (evs, Inl (first_rejection settle
                       (take MAX_CONCURRENT_DOWNLOADS (drop (0 * MAX_CONCURRENT_DOWNLOADS) tasks))
                       (map (part_error fetch n)
                          (filter (exhausts fetch)
                             (take MAX_CONCURRENT_DOWNLOADS (drop (0 * MAX_CONCURRENT_DOWNLOADS) tasks))))))"
      by simp
    then show ?thesis by blast
  qed
qed

lemma download_batches_files:
  assumes "serves obj fetch" "find (exhausts fetch) ts = None"
  shows "\<exists>evs. download_batches fetch settle n ts files = (evs, Inr (store_parts obj ts files))"
  using assms
proof (induction fetch settle n ts files rule: download_batches.induct)
  case (1 fetch settle n tasks files)
  let ?b = "take MAX_CONCURRENT_DOWNLOADS tasks" and ?r = "drop MAX_CONCURRENT_DOWNLOADS tasks"
  show ?case
  proof (cases "tasks = []")
    case True
    then show ?thesis by (subst download_batches.simps) (simp add: store_parts_def)
  next
    case ne: False
    obtain evs err files1 where rb: "run_batch fetch n ?b files = (evs, err, files1)"
      by (cases "run_batch fetch n ?b files") auto
    have split: "find (exhausts fetch) tasks
        = (case find (exhausts fetch) ?b of None \<Rightarrow> find (exhausts fetch) ?r | Some x \<Rightarrow> Some x)"
      using find_append_cases [of "exhausts fetch" ?b ?r] by simp
    with "1.prems" have b: "find (exhausts fetch) ?b = None" and r: "find (exhausts fetch) ?r = None"
      by (auto split: option.splits)
    have e: "err = []" using run_batch_errors [of fetch n ?b files] rb b by (simp add: find_None_filter)
    have f1: "files1 = store_parts obj ?b files"
      using run_batch_files [OF "1.prems"(1) b, of n files] rb by simp
    from "1.IH" [OF ne rb [symmetric] refl e "1.prems"(1) r] obtain evs' where
      "download_batches fetch settle n ?r files1 = (evs', Inr (store_parts obj ?r files1))" by auto
    moreover have "store_parts obj ?r files1 = store_parts obj tasks files"
    proof -
      have "store_parts obj tasks files = store_parts obj (?b @ ?r) files" by simp
      also have "\<dots> = store_parts obj ?r (store_parts obj ?b files)"
        unfolding store_parts_def by (simp only: fold_append comp_apply)
      finally show ?thesis unfolding f1 by simp
    qed
    ultimately show ?thesis using ne rb e by (subst download_batches.simps) simp
  qed
qed

lemma string_of_nat_nonempty: "string_of_nat n \<noteq> []"
  by (subst string_of_nat.simps) simp

lemma string_of_nat_inj: "string_of_nat n = string_of_nat m \<Longrightarrow> n = m"
proof (induction n arbitrary: m rule: string_of_nat.induct)
  case (1 n)
  show ?case
  proof (cases "n < 10")
    case n: True
    show ?thesis
    proof (cases "m < 10")
      case True
      with n "1.prems" show ?thesis
        by (simp add: string_of_nat.simps [of n] string_of_nat.simps [of m] digit_char_inj)
    next
      case False
      with n "1.prems" string_of_nat_nonempty [of "m div 10"] show ?thesis
        by (simp add: string_of_nat.simps [of n] string_of_nat.simps [of m])
    qed
  next
    case n: False
    show ?thesis
    proof (cases "m < 10")
      case True
      with n "1.prems" string_of_nat_nonempty [of "n div 10"] show ?thesis
        by (simp add: string_of_nat.simps [of n] string_of_nat.simps [of m])
    next
      case False
      with n "1.prems" have "string_of_nat (n div 10) = string_of_nat (m div 10)"
        and "digit_char (n mod 10) = digit_char (m mod 10)"
        by (simp_all add: string_of_nat.simps [of n] string_of_nat.simps [of m])
      then have "n div 10 = m div 10" and "n mod 10 = m mod 10"
        using "1.IH" [OF n] by (simp_all add: digit_char_inj)
      then show ?thesis by (metis div_mult_mod_eq)
    qed
  qed
qed

lemma part_name_inj: "part_name dest i = part_name dest j \<longleftrightarrow> i = j"
  by (auto simp: part_name_def dest: string_of_nat_inj)

lemma part_name_neq_dest: "part_name dest i \<noteq> dest"
  by (simp add: part_name_def)

lemma fold_upd_other:
  "x \<notin> k ` set ts \<Longrightarrow>
     Mapping.lookup (fold (\<lambda>t. Mapping.update (k t) (v t)) ts f0) x = Mapping.lookup f0 x"
  by (induction ts arbitrary: f0) (auto simp: Mapping.lookup_update')

lemma fold_upd_lookup:
  "distinct (map k ts) \<Longrightarrow> t \<in> set ts \<Longrightarrow>
     Mapping.lookup (fold (\<lambda>t. Mapping.update (k t) (v t)) ts f0) (k t) = Some (v t)"
proof (induction ts arbitrary: f0)
  case Nil
  then show ?case by simp
next
  case (Cons a ts)
  show ?case
  proof (cases "t = a")
    case True
    with Cons.prems(1) show ?thesis by (simp add: fold_upd_other Mapping.lookup_update')
  next
    case False
    with Cons show ?thesis by auto
  qed
qed

lemma tempFile_downloadTasks:
  "map t_tempFile (downloadTasks dest S) = map (part_name dest) [0..<numParts_of S]"
  by (simp add: downloadTasks_def comp_def)

lemma distinct_tempFiles: "distinct (map t_tempFile (downloadTasks dest S))"
  unfolding tempFile_downloadTasks by (simp add: distinct_map inj_on_def part_name_inj)

lemma store_parts_lookup:
  assumes "i < numParts_of (length obj)"
  shows "Mapping.lookup (store_parts obj (downloadTasks dest (length obj)) files) (part_name dest i)
           = Some (chunk_of obj i)"
proof -
  let ?ts = "downloadTasks dest (length obj)"
  let ?t = "?ts ! i"
  have len: "length ?ts = numParts_of (length obj)" by (simp add: downloadTasks_def)
  have t: "?t \<in> set ?ts" using assms len by simp
  have ti: "t_tempFile ?t = part_name dest i" "t_start ?t = i * DOWNLOAD_CHUNK_SIZE"
    "t_end ?t = min (i * DOWNLOAD_CHUNK_SIZE + DOWNLOAD_CHUNK_SIZE - 1) (length obj - 1)"
    using assms by (simp_all add: downloadTasks_def)
  from fold_upd_lookup [OF distinct_tempFiles t, of "\<lambda>t. byte_range obj (t_start t) (t_end t)" files]
  show ?thesis by (simp add: store_parts_def ti chunk_of_def)
qed

lemma merge_parts_reads:
  "distinct ixs \<Longrightarrow> \<forall>i\<in>set ixs. Mapping.lookup files (part_name dest i) = Some (c i) \<Longrightarrow>
     \<exists>files'. merge_parts dest ixs files w = Inr (files', w @ concat (map c ixs))"
proof (induction ixs arbitrary: files w)
  case Nil
  then show ?case by simp
next
  case (Cons i ixs)
  have "\<forall>j\<in>set ixs. Mapping.lookup (Mapping.delete (part_name dest i) files) (part_name dest j)
      = Some (c j)"
  proof
    fix j assume j: "j \<in> set ixs"
    then have "j \<noteq> i" using Cons.prems(1) by auto
    then have "part_name dest i \<noteq> part_name dest j" by (simp add: part_name_inj)
    then show "Mapping.lookup (Mapping.delete (part_name dest i) files) (part_name dest j) = Some (c j)"
      using Cons.prems(2) j by simp
  qed
  from Cons.IH [OF _ this, of "w @ c i"] Cons.prems obtain files' where
    "merge_parts dest ixs (Mapping.delete (part_name dest i) files) (w @ c i)
       = Inr (files', (w @ c i) @ concat (map c ixs))" by auto
  then show ?case using Cons.prems(2) by (simp add: Let_def)
qed

lemma CHUNK_pos: "0 < DOWNLOAD_CHUNK_SIZE"
  by (simp add: DOWNLOAD_CHUNK_SIZE_def)

lemma numParts_cover: "length obj \<le> numParts_of (length obj) * DOWNLOAD_CHUNK_SIZE"
proof -
  let ?C = DOWNLOAD_CHUNK_SIZE and ?S = "length obj"
  have "?S + ?C - 1 < ((?S + ?C - 1) div ?C) * ?C + ?C"
    using CHUNK_pos by (metis div_mult_mod_eq mod_less_divisor nat_add_left_cancel_less)
  then show ?thesis unfolding numParts_of_def using CHUNK_pos by linarith
qed

lemma numParts_tight: "i < numParts_of S \<Longrightarrow> i * DOWNLOAD_CHUNK_SIZE < S"
proof -
  let ?C = DOWNLOAD_CHUNK_SIZE
  assume "i < numParts_of S"
  then have "Suc i \<le> (S + ?C - 1) div ?C" by (simp add: numParts_of_def)
  then have "Suc i * ?C \<le> S + ?C - 1"
    using CHUNK_pos by (simp add: less_eq_div_iff_mult_less_eq)
  then show ?thesis using CHUNK_pos by simp
qed

lemma chunk_of_eq:
  assumes "i < numParts_of (length obj)"
  shows "chunk_of obj i = take DOWNLOAD_CHUNK_SIZE (drop (i * DOWNLOAD_CHUNK_SIZE) obj)"
proof -
  let ?C = DOWNLOAD_CHUNK_SIZE and ?S = "length obj"
  have lt: "i * ?C < ?S" using assms by (rule numParts_tight)
  show ?thesis
  proof (cases "i * ?C + ?C - 1 \<le> ?S - 1")
    case True
    then show ?thesis using CHUNK_pos by (simp add: chunk_of_def byte_range_def min_def)
  next
    case False
    then have "min (i * ?C + ?C - 1) (?S - 1) + 1 - i * ?C = ?S - i * ?C" using lt by simp
    moreover have "?S - i * ?C \<le> ?C" using False by simp
    ultimately show ?thesis by (simp add: chunk_of_def byte_range_def)
  qed
qed

lemma concat_chunks_take:
  "concat (map (\<lambda>i. take c (drop (i * c) xs)) [0..<n]) = take (n * c) xs"
proof (induction n)
  case 0
  then show ?case by simp
next
  case (Suc n)
  have "take (n * c) xs @ take c (drop (n * c) xs) = take (n * c + c) xs"
    by (simp add: take_add)
  with Suc show ?case by (simp add: add.commute)
qed

lemma concat_chunks: "concat (map (chunk_of obj) [0..<numParts_of (length obj)]) = obj"
proof -
  have eq: "map (chunk_of obj) [0..<numParts_of (length obj)]
      = map (\<lambda>i. take DOWNLOAD_CHUNK_SIZE (drop (i * DOWNLOAD_CHUNK_SIZE) obj)) [0..<numParts_of (length obj)]"
    by (rule map_cong) (simp_all add: chunk_of_eq)
  show ?thesis unfolding eq concat_chunks_take using numParts_cover [of obj] by simp
qed

lemma length_downloadTasks [simp]: "length (downloadTasks dest S) = numParts_of S"
  by (simp add: downloadTasks_def)

lemma downloadLargeFile_delivers:
  assumes "serves obj fetch" "find (exhausts fetch) (downloadTasks dest (length obj)) = None"
  shows "\<exists>evs files'. downloadLargeFile fetch settle key dest (length obj) files = (evs, Inr files')
           \<and> Mapping.lookup files' dest = Some obj"
proof -
  let ?S = "length obj"
  let ?ts = "downloadTasks dest ?S"
  let ?n = "numParts_of ?S"
  from download_batches_files [OF assms, of settle ?n files] obtain evs where
    b: "download_batches fetch settle ?n ?ts files = (evs, Inr (store_parts obj ?ts files))" by blast
  have "\<forall>i\<in>set [0..<?n]. Mapping.lookup (store_parts obj ?ts files) (part_name dest i)
      = Some (chunk_of obj i)"
    by (simp add: store_parts_lookup)
  from merge_parts_reads [OF distinct_upt this, of "[]"] obtain files2 where
    "merge_parts dest [0..<?n] (store_parts obj ?ts files) []
       = Inr (files2, [] @ concat (map (chunk_of obj) [0..<?n]))" by blast
  then have m: "merge_parts dest [0..<?n] (store_parts obj ?ts files) [] = Inr (files2, obj)"
    by (simp add: concat_chunks)
  have "downloadLargeFile fetch settle key dest ?S files = (evs, Inr (Mapping.update dest obj files2))"
    by (simp add: downloadLargeFile_def b m)
  then show ?thesis by simp
qed

lemma downloadLargeFile_fails:
  assumes "find (exhausts fetch) (downloadTasks dest S) = Some first"
  shows "\<exists>evs k. first \<in> set (take MAX_CONCURRENT_DOWNLOADS
                                  (drop (k * MAX_CONCURRENT_DOWNLOADS) (downloadTasks dest S)))
           \<and> downloadLargeFile fetch settle key dest S files
               = (evs, Inl (first_rejection settle
                              (take MAX_CONCURRENT_DOWNLOADS
                                 (drop (k * MAX_CONCURRENT_DOWNLOADS) (downloadTasks dest S)))
                              (map (part_error fetch (numParts_of S))
                                 (filter (exhausts fetch)
                                    (take MAX_CONCURRENT_DOWNLOADS
                                       (drop (k * MAX_CONCURRENT_DOWNLOADS) (downloadTasks dest S)))))))"
proof -
  from download_batches_error [OF assms, of settle "numParts_of S" files] obtain evs k where
    "first \<in> set (take MAX_CONCURRENT_DOWNLOADS
                     (drop (k * MAX_CONCURRENT_DOWNLOADS) (downloadTasks dest S)))"
    and "download_batches fetch settle (numParts_of S) (downloadTasks dest S) files
               = (evs, Inl (first_rejection settle
                              (take MAX_CONCURRENT_DOWNLOADS
                                 (drop (k * MAX_CONCURRENT_DOWNLOADS) (downloadTasks dest S)))
                              (map (part_error fetch (numParts_of S))
                                 (filter (exhausts fetch)
                                    (take MAX_CONCURRENT_DOWNLOADS
                                       (drop (k * MAX_CONCURRENT_DOWNLOADS) (downloadTasks dest S)))))))"
    by blast
  then show ?thesis by (auto simp: downloadLargeFile_def)
qed

lemma first_rejection_part:
  assumes "task0 \<in> set (filter P batch)"
  shows "filter P batch ! (settle batch mod length (filter P batch)) \<in> set (filter P batch)
    \<and> first_rejection settle batch (map f (filter P batch))
        = f (filter P batch ! (settle batch mod length (filter P batch)))"
proof -
  from assms have "0 < length (filter P batch)" by (cases "filter P batch") auto
  then have lt: "settle batch mod length (filter P batch) < length (filter P batch)" by simp
  then have "filter P batch ! (settle batch mod length (filter P batch)) \<in> set (filter P batch)"
    by (rule nth_mem)
  moreover have "first_rejection settle batch (map f (filter P batch))
        = f (filter P batch ! (settle batch mod length (filter P batch)))"
    using lt by (simp add: first_rejection_def)
  ultimately show ?thesis by (rule conjI)
qed

lemma tasks_chunks:
  "map (\<lambda>t. byte_range obj (t_start t) (t_end t)) (downloadTasks dest (length obj))
     = map (chunk_of obj) [0..<numParts_of (length obj)]"
  by (simp add: downloadTasks_def chunk_of_def comp_def)

lemma task_fields:
  assumes "i < numParts_of S"
  shows "t_partNumber (downloadTasks dest S ! i) = i + 1"
    and "t_start (downloadTasks dest S ! i) = i * DOWNLOAD_CHUNK_SIZE"
    and "Suc (t_end (downloadTasks dest S ! i)) = min ((i + 1) * DOWNLOAD_CHUNK_SIZE) S"
    and "t_tempFile (downloadTasks dest S ! i) = part_name dest i"
proof -
  have "i * DOWNLOAD_CHUNK_SIZE < S" using assms by (rule numParts_tight)
  then have "Suc (min (i * DOWNLOAD_CHUNK_SIZE + DOWNLOAD_CHUNK_SIZE - 1) (S - 1))
      = min (i * DOWNLOAD_CHUNK_SIZE + DOWNLOAD_CHUNK_SIZE) S"
    using CHUNK_pos by linarith
  then show "Suc (t_end (downloadTasks dest S ! i)) = min ((i + 1) * DOWNLOAD_CHUNK_SIZE) S"
    using assms by (simp add: downloadTasks_def add.commute)
qed (use assms in \<open>simp_all add: downloadTasks_def\<close>)

text \<open>
  C2. Against a store that answers every successful range request with the bytes asked
  for, and for an object of any size \<open>S\<close>, so for every \<open>S\<close> from
  \<^verbatim>\<open>LARGE_FILE_THRESHOLD\<close> on, at it and below it: the tasks of
  \<^verbatim>\<open>downloadLargeFile\<close> are the least number \<open>n\<close> of chunks that cover \<open>S\<close> bytes
  (\<open>(n - 1) * CHUNK < S \<le> n * CHUNK\<close>, that is \<open>n = ceil (S / CHUNK)\<close>); part \<open>i\<close> (numbered
  \<open>i + 1\<close>) covers the bytes from \<open>i * CHUNK\<close> up to, not including,
  \<open>min ((i + 1) * CHUNK) S\<close>, so the parts are contiguous and disjoint and the last may be
  shorter; their ranges concatenated in ascending order are the object; the download
  succeeds when no part uses up its tries; and whenever it succeeds, the destination
  file holds exactly the bytes of the object, which is what the single fetch of the
  simple path writes.
\<close>

theorem downloadLargeFile_roundtrip:
  assumes "serves obj fetch"
  shows "length obj \<le> length (downloadTasks dest (length obj)) * DOWNLOAD_CHUNK_SIZE
    \<and> (\<forall>i < length (downloadTasks dest (length obj)).
          i * DOWNLOAD_CHUNK_SIZE < length obj
        \<and> t_partNumber (downloadTasks dest (length obj) ! i) = i + 1
        \<and> t_start (downloadTasks dest (length obj) ! i) = i * DOWNLOAD_CHUNK_SIZE
        \<and> Suc (t_end (downloadTasks dest (length obj) ! i))
            = min ((i + 1) * DOWNLOAD_CHUNK_SIZE) (length obj))
    \<and> concat (map (\<lambda>t. byte_range obj (t_start t) (t_end t)) (downloadTasks dest (length obj))) = obj
    \<and> (find (exhausts fetch) (downloadTasks dest (length obj)) = None \<longrightarrow>
          (\<exists>evs files'. downloadLargeFile fetch settle key dest (length obj) files = (evs, Inr files')))
    \<and> (\<forall>evs files'. downloadLargeFile fetch settle key dest (length obj) files = (evs, Inr files') \<longrightarrow>
          Mapping.lookup files' dest = Some obj)"
proof (intro conjI allI impI)
  show "length obj \<le> length (downloadTasks dest (length obj)) * DOWNLOAD_CHUNK_SIZE"
    using numParts_cover [of obj] by simp
next
  fix i assume "i < length (downloadTasks dest (length obj))"
  then have i: "i < numParts_of (length obj)" by simp
  from i show "i * DOWNLOAD_CHUNK_SIZE < length obj" by (rule numParts_tight)
  from i show "t_partNumber (downloadTasks dest (length obj) ! i) = i + 1" by (rule task_fields)
  from i show "t_start (downloadTasks dest (length obj) ! i) = i * DOWNLOAD_CHUNK_SIZE"
    by (rule task_fields)
  from i show "Suc (t_end (downloadTasks dest (length obj) ! i))
      = min ((i + 1) * DOWNLOAD_CHUNK_SIZE) (length obj)" by (rule task_fields)
next
  show "concat (map (\<lambda>t. byte_range obj (t_start t) (t_end t)) (downloadTasks dest (length obj))) = obj"
    unfolding tasks_chunks by (rule concat_chunks)
next
  assume "find (exhausts fetch) (downloadTasks dest (length obj)) = None"
  from downloadLargeFile_delivers [OF assms this, of settle key files]
  show "\<exists>evs files'. downloadLargeFile fetch settle key dest (length obj) files = (evs, Inr files')"
    by blast
next
  fix evs files'
  assume ok: "downloadLargeFile fetch settle key dest (length obj) files = (evs, Inr files')"
  show "Mapping.lookup files' dest = Some obj"
  proof (cases "find (exhausts fetch) (downloadTasks dest (length obj))")
    case None
    from downloadLargeFile_delivers [OF assms None, of settle key files] ok show ?thesis by auto
  next
    case (Some task)
    from downloadLargeFile_fails [OF Some, of settle key files] ok show ?thesis by auto
  qed
qed

lemma serves_honest_store: "serves obj (honest_store obj)"
  by (simp add: serves_def honest_store_def response_ok_def)

lemma honest_store_never_exhausts: "find (exhausts (honest_store obj)) ts = None"
  by (auto simp: find_None_iff exhausts_iff honest_store_def response_ok_def MAX_RETRIES_def
      intro!: exI [of _ 1])

text \<open>
  C3. For every behaviour of the store: if the tries before the \<open>k\<close>-th (\<open>k\<close> at most
  \<^verbatim>\<open>MAX_RETRIES\<close>) fail at the transport level and the \<open>k\<close>-th delivers a body, the part
  download returns that body, whatever its length, after exactly \<open>k\<close> requests with
  the pause \<open>RETRY_DELAY_MS * 2 ^ (j - 1)\<close> after the failed try \<open>j\<close>, and a body of the
  wrong length adds a warning only; if all \<^verbatim>\<open>MAX_RETRIES\<close> tries fail, there are
  \<^verbatim>\<open>MAX_RETRIES\<close> requests, no pause after the last, and the error names the part and
  the number of parts; never more than \<^verbatim>\<open>MAX_RETRIES\<close> requests are sent; and when some
  part uses up its tries, the whole download fails with the error of a part that used up
  its tries, namely the one of the first batch with such a part that the race of the
  batch makes the first to reject, which is that part itself when it is the only one of
  its batch.
\<close>

theorem downloadRangeWithRetry_contract:
  "(\<forall>k d. 1 \<le> k \<and> k \<le> MAX_RETRIES
         \<and> (\<forall>j. 1 \<le> j \<and> j < k \<longrightarrow> transport_failure (fetch s e j))
         \<and> delivered (fetch s e k) = Some d \<longrightarrow>
       downloadRangeWithRetry fetch s e p t
         = (failed_tries s e 1 k @ RangeRequest s e # size_warning s e d, Inr d))
   \<and> ((\<forall>j. 1 \<le> j \<and> j \<le> MAX_RETRIES \<longrightarrow> transport_failure (fetch s e j)) \<longrightarrow>
       downloadRangeWithRetry fetch s e p t
         = (failed_tries s e 1 MAX_RETRIES @ [RangeRequest s e],
            Inl (exhausted_message p t (failure_message (fetch s e MAX_RETRIES)))))
   \<and> length (filter (\<lambda>ev. ev = RangeRequest s e) (fst (downloadRangeWithRetry fetch s e p t)))
       \<le> MAX_RETRIES
   \<and> (\<forall>first. find (exhausts fetch) (downloadTasks dest S) = Some first \<longrightarrow>
        (\<exists>evs k task.
            first \<in> set (take MAX_CONCURRENT_DOWNLOADS
                           (drop (k * MAX_CONCURRENT_DOWNLOADS) (downloadTasks dest S)))
          \<and> task \<in> set (take MAX_CONCURRENT_DOWNLOADS
                           (drop (k * MAX_CONCURRENT_DOWNLOADS) (downloadTasks dest S)))
          \<and> exhausts fetch task
          \<and> task = filter (exhausts fetch)
                     (take MAX_CONCURRENT_DOWNLOADS
                        (drop (k * MAX_CONCURRENT_DOWNLOADS) (downloadTasks dest S)))
                   ! (settle (take MAX_CONCURRENT_DOWNLOADS
                                (drop (k * MAX_CONCURRENT_DOWNLOADS) (downloadTasks dest S)))
                      mod length (filter (exhausts fetch)
                                    (take MAX_CONCURRENT_DOWNLOADS
                                       (drop (k * MAX_CONCURRENT_DOWNLOADS) (downloadTasks dest S)))))
          \<and> (filter (exhausts fetch)
                (take MAX_CONCURRENT_DOWNLOADS
                   (drop (k * MAX_CONCURRENT_DOWNLOADS) (downloadTasks dest S))) = [first]
              \<longrightarrow> task = first)
          \<and> downloadLargeFile fetch settle key dest S files
              = (evs, Inl (exhausted_message (t_partNumber task) (numParts_of S)
                             (failure_message (fetch (t_start task) (t_end task) MAX_RETRIES))))))"
proof (intro conjI allI impI)
  fix k d
  assume "1 \<le> k \<and> k \<le> MAX_RETRIES
         \<and> (\<forall>j. 1 \<le> j \<and> j < k \<longrightarrow> transport_failure (fetch s e j))
         \<and> delivered (fetch s e k) = Some d"
  then show "downloadRangeWithRetry fetch s e p t
         = (failed_tries s e 1 k @ RangeRequest s e # size_warning s e d, Inr d)"
    by (intro retry_delivered) auto
next
  assume "\<forall>j. 1 \<le> j \<and> j \<le> MAX_RETRIES \<longrightarrow> transport_failure (fetch s e j)"
  then show "downloadRangeWithRetry fetch s e p t
         = (failed_tries s e 1 MAX_RETRIES @ [RangeRequest s e],
            Inl (exhausted_message p t (failure_message (fetch s e MAX_RETRIES))))"
    by (rule retry_exhausted)
next
  show "length (filter (\<lambda>ev. ev = RangeRequest s e) (fst (downloadRangeWithRetry fetch s e p t)))
       \<le> MAX_RETRIES" by (rule retry_request_count)
next
  fix first assume f: "find (exhausts fetch) (downloadTasks dest S) = Some first"
  from downloadLargeFile_fails [OF f, of settle key files] obtain evs k where
    m: "first \<in> set (take MAX_CONCURRENT_DOWNLOADS
                        (drop (k * MAX_CONCURRENT_DOWNLOADS) (downloadTasks dest S)))"
    and d: "downloadLargeFile fetch settle key dest S files
               = (evs, Inl (first_rejection settle
                              (take MAX_CONCURRENT_DOWNLOADS
                                 (drop (k * MAX_CONCURRENT_DOWNLOADS) (downloadTasks dest S)))
                              (map (part_error fetch (numParts_of S))
                                 (filter (exhausts fetch)
                                    (take MAX_CONCURRENT_DOWNLOADS
                                       (drop (k * MAX_CONCURRENT_DOWNLOADS) (downloadTasks dest S)))))))"
    by blast
  let ?b = "take MAX_CONCURRENT_DOWNLOADS (drop (k * MAX_CONCURRENT_DOWNLOADS) (downloadTasks dest S))"
  let ?task = "filter (exhausts fetch) ?b ! (settle ?b mod length (filter (exhausts fetch) ?b))"
  from find_Some_filter [OF f] have "exhausts fetch first" by simp
  with m have "first \<in> set (filter (exhausts fetch) ?b)" by simp
  note fr = first_rejection_part [OF this, of settle "part_error fetch (numParts_of S)"]
  from fr have t: "?task \<in> set ?b" "exhausts fetch ?task" by simp_all
  have one: "filter (exhausts fetch) ?b = [first] \<longrightarrow> ?task = first" by simp
  from d fr have "downloadLargeFile fetch settle key dest S files
      = (evs, Inl (exhausted_message (t_partNumber ?task) (numParts_of S)
                     (failure_message (fetch (t_start ?task) (t_end ?task) MAX_RETRIES))))"
    by (simp add: part_error_def)
  with m t one
  show "\<exists>evs k task.
            first \<in> set (take MAX_CONCURRENT_DOWNLOADS
                           (drop (k * MAX_CONCURRENT_DOWNLOADS) (downloadTasks dest S)))
          \<and> task \<in> set (take MAX_CONCURRENT_DOWNLOADS
                           (drop (k * MAX_CONCURRENT_DOWNLOADS) (downloadTasks dest S)))
          \<and> exhausts fetch task
          \<and> task = filter (exhausts fetch)
                     (take MAX_CONCURRENT_DOWNLOADS
                        (drop (k * MAX_CONCURRENT_DOWNLOADS) (downloadTasks dest S)))
                   ! (settle (take MAX_CONCURRENT_DOWNLOADS
                                (drop (k * MAX_CONCURRENT_DOWNLOADS) (downloadTasks dest S)))
                      mod length (filter (exhausts fetch)
                                    (take MAX_CONCURRENT_DOWNLOADS
                                       (drop (k * MAX_CONCURRENT_DOWNLOADS) (downloadTasks dest S)))))
          \<and> (filter (exhausts fetch)
                (take MAX_CONCURRENT_DOWNLOADS
                   (drop (k * MAX_CONCURRENT_DOWNLOADS) (downloadTasks dest S))) = [first]
              \<longrightarrow> task = first)
          \<and> downloadLargeFile fetch settle key dest S files
              = (evs, Inl (exhausted_message (t_partNumber task) (numParts_of S)
                             (failure_message (fetch (t_start task) (t_end task) MAX_RETRIES))))"
    by blast
qed

lemma failed_tries_all: "failed_tries s e 1 MAX_RETRIES
    = [RangeRequest s e, Delay 1000, RangeRequest s e, Delay 2000]"
  by (simp add: failed_tries_def MAX_RETRIES_def RETRY_DELAY_MS_def upt_rec)

lemma exhausted_message_3: "exhausted_message 2 3 m = ''Failed to download part 2/3 after 3 attempts: '' @ m"
  by (simp add: exhausted_message_def MAX_RETRIES_def string_of_nat.simps digit_char_def)

theorem downloadLargeFile_roundtrip_witness:
  "serves (replicate 104857600 0) (honest_store (replicate 104857600 0))
   \<and> LARGE_FILE_THRESHOLD \<le> length (replicate 104857600 (0::byte))
   \<and> find (exhausts (honest_store (replicate 104857600 0)))
        (downloadTasks ''/tmp/restore.tar.gz'' (length (replicate 104857600 (0::byte)))) = None
   \<and> (\<exists>evs files'.
         downloadLargeFile (honest_store (replicate 104857600 0)) (\<lambda>batch. 0) ''backups/k'' ''/tmp/restore.tar.gz''
           (length (replicate 104857600 (0::byte))) Mapping.empty = (evs, Inr files')
       \<and> Mapping.lookup files' ''/tmp/restore.tar.gz'' = Some (replicate 104857600 0))"
proof -
  let ?obj = "replicate 104857600 (0::byte)"
  have h: "serves ?obj (honest_store ?obj)" by (rule serves_honest_store)
  have n: "find (exhausts (honest_store ?obj)) (downloadTasks ''/tmp/restore.tar.gz'' (length ?obj)) = None"
    by (rule honest_store_never_exhausts)
  have t: "LARGE_FILE_THRESHOLD \<le> length ?obj" by (simp add: LARGE_FILE_THRESHOLD_def)
  note r = downloadLargeFile_roundtrip [OF h, where dest = "''/tmp/restore.tar.gz''"
      and settle = "\<lambda>batch. 0" and key = "''backups/k''" and files = Mapping.empty]
  from r n obtain evs files' where
    d: "downloadLargeFile (honest_store ?obj) (\<lambda>batch. 0) ''backups/k'' ''/tmp/restore.tar.gz'' (length ?obj)
          Mapping.empty = (evs, Inr files')" by blast
  with r have "Mapping.lookup files' ''/tmp/restore.tar.gz'' = Some ?obj" by blast
  with h t n d show ?thesis by blast
qed

lemma dead_tasks:
  "downloadTasks ''/tmp/r'' 104857600
     = [\<lparr>t_partNumber = 1, t_start = 0, t_end = 52428799, t_tempFile = part_name ''/tmp/r'' 0\<rparr>,
        \<lparr>t_partNumber = 2, t_start = 52428800, t_end = 104857599, t_tempFile = part_name ''/tmp/r'' 1\<rparr>]"
  by (simp add: downloadTasks_def numParts_of_def DOWNLOAD_CHUNK_SIZE_def upt_rec)

lemma dead_store_exhausts: "exhausts dead_store task"
  by (simp add: exhausts_def dead_store_def list_all_iff)

lemma exhausted_message_2: "exhausted_message 2 2 m = ''Failed to download part 2/2 after 3 attempts: '' @ m"
  by (simp add: exhausted_message_def MAX_RETRIES_def string_of_nat.simps digit_char_def)

lemma dead_download:
  assumes "\<exists>evs k task.
            first \<in> set (take MAX_CONCURRENT_DOWNLOADS
                           (drop (k * MAX_CONCURRENT_DOWNLOADS) (downloadTasks ''/tmp/r'' 104857600)))
          \<and> task = filter (exhausts dead_store)
                     (take MAX_CONCURRENT_DOWNLOADS
                        (drop (k * MAX_CONCURRENT_DOWNLOADS) (downloadTasks ''/tmp/r'' 104857600)))
                   ! ((\<lambda>batch. 1) (take MAX_CONCURRENT_DOWNLOADS
                                (drop (k * MAX_CONCURRENT_DOWNLOADS) (downloadTasks ''/tmp/r'' 104857600)))
                      mod length (filter (exhausts dead_store)
                                    (take MAX_CONCURRENT_DOWNLOADS
                                       (drop (k * MAX_CONCURRENT_DOWNLOADS) (downloadTasks ''/tmp/r'' 104857600)))))
          \<and> r = (evs, Inl (exhausted_message (t_partNumber task) (numParts_of 104857600)
                             (failure_message (dead_store (t_start task) (t_end task) MAX_RETRIES))))"
  shows "\<exists>evs. r = (evs, Inl ''Failed to download part 2/2 after 3 attempts: ECONNRESET'')"
proof -
  from assms obtain evs k task where
    m: "first \<in> set (take MAX_CONCURRENT_DOWNLOADS
                           (drop (k * MAX_CONCURRENT_DOWNLOADS) (downloadTasks ''/tmp/r'' 104857600)))"
    and t: "task = filter (exhausts dead_store)
                     (take MAX_CONCURRENT_DOWNLOADS
                        (drop (k * MAX_CONCURRENT_DOWNLOADS) (downloadTasks ''/tmp/r'' 104857600)))
                   ! (1 mod length (filter (exhausts dead_store)
                                    (take MAX_CONCURRENT_DOWNLOADS
                                       (drop (k * MAX_CONCURRENT_DOWNLOADS) (downloadTasks ''/tmp/r'' 104857600)))))"
    and r: "r = (evs, Inl (exhausted_message (t_partNumber task) (numParts_of 104857600)
                             (failure_message (dead_store (t_start task) (t_end task) MAX_RETRIES))))"
    by auto
  have k: "k = 0"
  proof (rule ccontr)
    assume "k \<noteq> 0"
    then have "2 \<le> k * MAX_CONCURRENT_DOWNLOADS" by (cases k) (simp_all add: MAX_CONCURRENT_DOWNLOADS_def)
    then have "drop (k * MAX_CONCURRENT_DOWNLOADS) (downloadTasks ''/tmp/r'' 104857600) = []"
      by (simp add: dead_tasks)
    with m show False by simp
  qed
  have "task = \<lparr>t_partNumber = 2, t_start = 52428800, t_end = 104857599,
                 t_tempFile = part_name ''/tmp/r'' 1\<rparr>"
    unfolding t k by (simp add: dead_tasks MAX_CONCURRENT_DOWNLOADS_def dead_store_exhausts)
  then show ?thesis unfolding r
    by (simp add: numParts_of_def DOWNLOAD_CHUNK_SIZE_def exhausted_message_2 dead_store_def)
qed

lemma dead_store_fails: "transport_failure (dead_store s e j)"
  by (simp add: dead_store_def)

theorem downloadRangeWithRetry_contract_witness:
  "transport_failure (flaky_store 0 9 1) \<and> transport_failure (flaky_store 0 9 2)
   \<and> delivered (flaky_store 0 9 3) = Some [1, 2, 3]
   \<and> downloadRangeWithRetry flaky_store 0 9 1 2
       = ([RangeRequest 0 9, Delay 1000, RangeRequest 0 9, Delay 2000, RangeRequest 0 9,
           Warning ''Size mismatch! Expected 10, got 3''],
          Inr [1, 2, 3])
   \<and> transport_failure (dead_store 0 9 1) \<and> transport_failure (dead_store 0 9 2)
   \<and> transport_failure (dead_store 0 9 3)
   \<and> downloadRangeWithRetry dead_store 0 9 2 3
       = ([RangeRequest 0 9, Delay 1000, RangeRequest 0 9, Delay 2000, RangeRequest 0 9],
          Inl ''Failed to download part 2/3 after 3 attempts: ECONNRESET'')
   \<and> find (exhausts dead_store) (downloadTasks ''/tmp/r'' 104857600)
       = Some \<lparr>t_partNumber = 1, t_start = 0, t_end = 52428799, t_tempFile = part_name ''/tmp/r'' 0\<rparr>
   \<and> (\<exists>evs. downloadLargeFile dead_store (\<lambda>batch. 1) ''backups/k'' ''/tmp/r'' 104857600 Mapping.empty
          = (evs, Inl ''Failed to download part 2/2 after 3 attempts: ECONNRESET''))"
proof -
  have f: "\<forall>j. 1 \<le> j \<and> j < 3 \<longrightarrow> transport_failure (flaky_store 0 9 j)"
  proof (intro allI impI)
    fix j :: nat assume "1 \<le> j \<and> j < 3"
    then have "j = 1 \<or> j = 2" by arith
    then show "transport_failure (flaky_store 0 9 j)"
      by (auto simp: flaky_store_def response_ok_def)
  qed
  have d: "delivered (flaky_store 0 9 3) = Some [1, 2, 3]"
    by (simp add: flaky_store_def response_ok_def)
  have k: "(1::nat) \<le> 3 \<and> 3 \<le> MAX_RETRIES" by (simp add: MAX_RETRIES_def)
  have "downloadRangeWithRetry flaky_store 0 9 1 2
      = (failed_tries 0 9 1 3 @ RangeRequest 0 9 # size_warning 0 9 [1, 2, 3], Inr [1, 2, 3])"
    using downloadRangeWithRetry_contract [of flaky_store 0 9 1 2] k f d by blast
  moreover have "failed_tries 0 9 1 3 = [RangeRequest 0 9, Delay 1000, RangeRequest 0 9, Delay 2000]"
    by (simp add: failed_tries_def RETRY_DELAY_MS_def upt_rec)
  moreover have "size_warning 0 9 [1, 2, 3] = [Warning ''Size mismatch! Expected 10, got 3'']"
    by (simp add: size_warning_def string_of_int_def string_of_nat.simps digit_char_def)
  ultimately have a: "downloadRangeWithRetry flaky_store 0 9 1 2
       = ([RangeRequest 0 9, Delay 1000, RangeRequest 0 9, Delay 2000, RangeRequest 0 9,
           Warning ''Size mismatch! Expected 10, got 3''],
          Inr [1, 2, 3])" by simp
  note dead = downloadRangeWithRetry_contract [where fetch = dead_store and s = 0 and e = 9
      and p = 2 and t = 3 and dest = "''/tmp/r''" and S = 104857600 and settle = "\<lambda>batch. 1"
      and key = "''backups/k''" and files = Mapping.empty]
  have "downloadRangeWithRetry dead_store 0 9 2 3
      = (failed_tries 0 9 1 MAX_RETRIES @ [RangeRequest 0 9],
         Inl (exhausted_message 2 3 (failure_message (dead_store 0 9 MAX_RETRIES))))"
    using dead dead_store_fails by blast
  then have b: "downloadRangeWithRetry dead_store 0 9 2 3
       = ([RangeRequest 0 9, Delay 1000, RangeRequest 0 9, Delay 2000, RangeRequest 0 9],
          Inl ''Failed to download part 2/3 after 3 attempts: ECONNRESET'')"
    unfolding failed_tries_all exhausted_message_3 by (simp add: dead_store_def)
  have first: "find (exhausts dead_store) (downloadTasks ''/tmp/r'' 104857600)
       = Some \<lparr>t_partNumber = 1, t_start = 0, t_end = 52428799, t_tempFile = part_name ''/tmp/r'' 0\<rparr>"
    by (simp add: dead_tasks dead_store_exhausts)
  from dead first
  have "\<exists>evs k task.
            \<lparr>t_partNumber = 1, t_start = 0, t_end = 52428799, t_tempFile = part_name ''/tmp/r'' 0\<rparr>
              \<in> set (take MAX_CONCURRENT_DOWNLOADS
                           (drop (k * MAX_CONCURRENT_DOWNLOADS) (downloadTasks ''/tmp/r'' 104857600)))
          \<and> task = filter (exhausts dead_store)
                     (take MAX_CONCURRENT_DOWNLOADS
                        (drop (k * MAX_CONCURRENT_DOWNLOADS) (downloadTasks ''/tmp/r'' 104857600)))
                   ! (1 mod length (filter (exhausts dead_store)
                                    (take MAX_CONCURRENT_DOWNLOADS
                                       (drop (k * MAX_CONCURRENT_DOWNLOADS) (downloadTasks ''/tmp/r'' 104857600)))))
          \<and> downloadLargeFile dead_store (\<lambda>batch. 1) ''backups/k'' ''/tmp/r'' 104857600 Mapping.empty
              = (evs, Inl (exhausted_message (t_partNumber task) (numParts_of 104857600)
                             (failure_message (dead_store (t_start task) (t_end task) MAX_RETRIES))))"
    by blast
  then have c: "\<exists>evs. downloadLargeFile dead_store (\<lambda>batch. 1) ''backups/k'' ''/tmp/r'' 104857600
        Mapping.empty = (evs, Inl ''Failed to download part 2/2 after 3 attempts: ECONNRESET'')"
    by (rule dead_download)
  show ?thesis using f d a b first c dead_store_fails by simp
qed

section \<open>Background backups: a second trigger\<close>

text \<open>
  C8. Starting a backup under an id that is in the registry returns the fields of the
  entry as they are, leaves the server (the registry with it) as it was and starts no
  \<^verbatim>\<open>executeBackupJob\<close>; so after any first trigger, every further trigger with the
  same id changes nothing and starts nothing.
\<close>

theorem handleBackgroundBackupStart_idempotent:
  "(backupJobs srv ident = Some existing \<longrightarrow>
      handleBackgroundBackupStart w srv now pathname ident
        = (jsonResponse (JObj [
             (''id'', JStr (b_id existing)),
             (''directory'', JStr (b_directory existing)),
             (''status'', JStr (backup_status_string (b_status existing))),
             (''startedAt'', JNum (int (b_startedAt existing))),
             (''completedAt'', opt_num (b_completedAt existing))]) 200,
           srv, None))
   \<and> (\<forall>reply0 srv1 started. handleBackgroundBackupStart w srv now pathname ident = (reply0, srv1, started) \<longrightarrow>
         snd (handleBackgroundBackupStart w' srv1 now' pathname' ident) = (srv1, None))"
  by (auto simp: handleBackgroundBackupStart_def Let_def split: option.splits)

theorem handleBackgroundBackupStart_idempotent_witness:
  "backupJobs demo_server ''b1'' = Some demo_job
   \<and> handleBackgroundBackupStart demo_backup_world demo_server 1762056009999 ''/data/other'' ''b1''
       = (jsonResponse (JObj [
            (''id'', JStr ''b1''),
            (''directory'', JStr ''/data/world''),
            (''status'', JStr ''running''),
            (''startedAt'', JNum 1762056000000),
            (''completedAt'', JNull)]) 200,
          demo_server, None)"
proof -
  have h: "backupJobs demo_server ''b1'' = Some demo_job" by (simp add: demo_server_def)
  from handleBackgroundBackupStart_idempotent
    [where srv = demo_server and ident = "''b1''" and existing = demo_job and w = demo_backup_world
       and now = 1762056009999 and pathname = "''/data/other''"] h
  have "handleBackgroundBackupStart demo_backup_world demo_server 1762056009999 ''/data/other'' ''b1''
        = (jsonResponse (JObj [
             (''id'', JStr (b_id demo_job)),
             (''directory'', JStr (b_directory demo_job)),
             (''status'', JStr (backup_status_string (b_status demo_job))),
             (''startedAt'', JNum (int (b_startedAt demo_job))),
             (''completedAt'', opt_num (b_completedAt demo_job))]) 200,
           demo_server, None)" by blast
  then show ?thesis using h by (simp add: demo_job_def opt_num_def)
qed

section \<open>Restore: the classes of its errors\<close>

lemma restore_download_writes:
  assumes "restore_download w key tempFile fileSize = (evs, Inr files1)"
  shows "\<exists>written. Mapping.lookup files1 tempFile = Some written"
proof (cases "fileSize \<ge> LARGE_FILE_THRESHOLD")
  case True
  with assms show ?thesis
    by (auto simp: restore_download_def downloadLargeFile_def Let_def
        split: prod.splits sum.splits)
next
  case False
  with assms show ?thesis
    by (auto simp: restore_download_def split: sum.splits)
qed

lemma code_jsonResponse [simp]: "code (jsonResponse d st) = st"
  by (simp add: jsonResponse_def)

lemma restore_extract_cases:
  "(\<exists>evs d. restore_extract w directory key tempFile fileSize written = (evs, Inr d) \<and> code d = 200)
   \<or> (\<exists>evs m. restore_extract w directory key tempFile fileSize written = (evs, Inl m))"
  by (simp add: restore_extract_def Let_def)

lemma createS3Client_demo: "createS3Client demo_env ''data'' = Inr ()"
  by (simp add: createS3Client_def demo_env_def falsy_def)

lemma createS3Client_empty: "createS3Client Map.empty ''data'' = Inl ''Missing AWS credentials in environment''"
  by (simp add: createS3Client_def falsy_def)

lemma traversal_key: "includes_str ''../etc/passwd'' ''..''"
  by (simp add: startsWith_def)

lemma good_key: "\<not> includes_str ''backups/k.tar.gz'' ''..'' \<and> startsWith ''backups/k.tar.gz'' ''backups/''"
  by (simp add: startsWith_def)

lemma restore_body_downloaded:
  assumes "createS3Client (rw_env w) ''data'' = Inr ()"
    and "\<not> includes_str key ''..''" and "startsWith key ''backups/''"
    and "rw_head w = HeadResponse st cl" and "response_ok st"
    and "restore_download w key (restore_tempFile w) (probed_size cl) = (evs, Inr files1)"
  shows "\<exists>written. Mapping.lookup files1 (restore_tempFile w) = Some written
    \<and> restore_body w pathname key
      = (case restore_extract w (normalize_directory pathname) key (restore_tempFile w)
               (probed_size cl) written of
           (evs', r) \<Rightarrow> (HeadRequest (headUrl_of (rw_env w) key) # evs @ evs', r))"
proof -
  from restore_download_writes [OF assms(6)] obtain written where
    wr: "Mapping.lookup files1 (restore_tempFile w) = Some written" by blast
  have "restore_body w pathname key
      = (case restore_extract w (normalize_directory pathname) key (restore_tempFile w)
               (probed_size cl) written of
           (evs', r) \<Rightarrow> (HeadRequest (headUrl_of (rw_env w) key) # evs @ evs', r))"
    using assms wr by (simp add: restore_body_def Let_def)
  with wr show ?thesis by blast
qed

text \<open>
  C4, as the claim states it, fails twice. Every answer of the \<^verbatim>\<open>HEAD\<close> probe that is
  not 2xx gives 404: with the store answering 503 to the probe of a well-formed key the
  reply is 404, not 500, so 404 does not tell an absent object from a failure of the
  store. And the credentials are checked before the key: without them the key
  \<^verbatim>\<open>../etc/passwd\<close> gets 500, not 400.
\<close>

theorem handleRestore_error_classes_counterexample:
  "code (fst (handleRestore (demo_world\<lparr>rw_head := HeadResponse 503 None\<rparr>) demo_server
            ''/data/world'' ''backups/k.tar.gz'')) = 404
   \<and> code (fst (handleRestore (demo_world\<lparr>rw_env := Map.empty\<rparr>) demo_server
            ''/data/world'' ''../etc/passwd'')) = 500"
  using good_key
  by (simp add: handleRestore_def restore_body_def demo_world_def createS3Client_demo
      createS3Client_empty response_ok_def)

text \<open>
  C4, amended. When the storage credentials are configured, every key that contains
  \<^verbatim>\<open>..\<close> or does not start with \<^verbatim>\<open>backups/\<close> is rejected with 400 and no event at
  all, so before any network call; for a well-formed key, every answer of the probe
  whose status is not 2xx, an absent object among them, gives 404. Every other failure
  gives the generic 500 with the message of the error: missing credentials (whatever
  the key is, and before any event), a probe that rejects, a download that fails, a
  parent directory that cannot be made and an extraction that fails; when none of
  these happens the reply is the 200 of a finished restore.
\<close>

theorem handleRestore_error_classes:
  "(createS3Client (rw_env w) ''data'' = Inr ()
      \<and> (includes_str key ''..'' \<or> \<not> startsWith key ''backups/'') \<longrightarrow>
        fst (handleRestore w srv pathname key)
          = jsonResponse (JObj [(''error'', JStr ''Invalid backup filename'')]) 400
      \<and> fst (snd (handleRestore w srv pathname key)) = [])
   \<and> (createS3Client (rw_env w) ''data'' = Inr ()
      \<and> \<not> includes_str key ''..'' \<and> startsWith key ''backups/''
      \<and> rw_head w = HeadResponse st cl \<and> \<not> response_ok st \<longrightarrow>
        fst (handleRestore w srv pathname key)
          = jsonResponse (JObj [(''error'', JStr (''Backup not found: '' @ key))]) 404)
   \<and> (\<forall>e. createS3Client (rw_env w) ''data'' = Inl e \<longrightarrow>
        fst (handleRestore w srv pathname key)
          = jsonResponse (JObj [(''error'', JStr (''Restore failed: '' @ e))]) 500
        \<and> fst (snd (handleRestore w srv pathname key)) = [])
   \<and> (\<forall>m. createS3Client (rw_env w) ''data'' = Inr ()
      \<and> \<not> includes_str key ''..'' \<and> startsWith key ''backups/''
      \<and> rw_head w = HeadError m \<longrightarrow>
        fst (handleRestore w srv pathname key)
          = jsonResponse (JObj [(''error'', JStr (''Restore failed: '' @ m))]) 500)
   \<and> (\<forall>evs e. createS3Client (rw_env w) ''data'' = Inr ()
      \<and> \<not> includes_str key ''..'' \<and> startsWith key ''backups/''
      \<and> rw_head w = HeadResponse st cl \<and> response_ok st
      \<and> restore_download w key (restore_tempFile w) (probed_size cl) = (evs, Inl e) \<longrightarrow>
        fst (handleRestore w srv pathname key)
          = jsonResponse (JObj [(''error'', JStr (''Restore failed: '' @ e))]) 500)
   \<and> (\<forall>evs files1. createS3Client (rw_env w) ''data'' = Inr ()
      \<and> \<not> includes_str key ''..'' \<and> startsWith key ''backups/''
      \<and> rw_head w = HeadResponse st cl \<and> response_ok st
      \<and> restore_download w key (restore_tempFile w) (probed_size cl) = (evs, Inr files1) \<longrightarrow>
        (fst (rw_mkdir w) \<noteq> 0 \<longrightarrow>
           fst (handleRestore w srv pathname key)
             = jsonResponse (JObj [(''error'', JStr (''Restore failed: Failed to create directory '' @
                 parentDir_of (normalize_directory pathname) @ '': '' @ snd (rw_mkdir w)))]) 500)
        \<and> (fst (rw_mkdir w) = 0 \<and> fst (rw_tar w) \<noteq> 0 \<longrightarrow>
           fst (handleRestore w srv pathname key)
             = jsonResponse (JObj [(''error'', JStr (''Restore failed: tar extraction failed with exit code '' @
                 string_of_int (fst (rw_tar w)) @ '': '' @ snd (rw_tar w)))]) 500)
        \<and> (fst (rw_mkdir w) = 0 \<and> fst (rw_tar w) = 0 \<longrightarrow>
           code (fst (handleRestore w srv pathname key)) = 200))"
proof (intro conjI impI allI)
  assume "createS3Client (rw_env w) ''data'' = Inr ()
      \<and> (includes_str key ''..'' \<or> \<not> startsWith key ''backups/'')"
  then show "fst (handleRestore w srv pathname key)
          = jsonResponse (JObj [(''error'', JStr ''Invalid backup filename'')]) 400"
    and "fst (snd (handleRestore w srv pathname key)) = []"
    by (auto simp: handleRestore_def restore_body_def)
next
  assume "createS3Client (rw_env w) ''data'' = Inr ()
      \<and> \<not> includes_str key ''..'' \<and> startsWith key ''backups/''
      \<and> rw_head w = HeadResponse st cl \<and> \<not> response_ok st"
  then show "fst (handleRestore w srv pathname key)
          = jsonResponse (JObj [(''error'', JStr (''Backup not found: '' @ key))]) 404"
    by (simp add: handleRestore_def restore_body_def)
next
  fix e assume "createS3Client (rw_env w) ''data'' = Inl e"
  then show "fst (handleRestore w srv pathname key)
          = jsonResponse (JObj [(''error'', JStr (''Restore failed: '' @ e))]) 500"
    and "fst (snd (handleRestore w srv pathname key)) = []"
    by (simp_all add: handleRestore_def restore_body_def)
next
  fix m assume "createS3Client (rw_env w) ''data'' = Inr ()
      \<and> \<not> includes_str key ''..'' \<and> startsWith key ''backups/''
      \<and> rw_head w = HeadError m"
  then show "fst (handleRestore w srv pathname key)
          = jsonResponse (JObj [(''error'', JStr (''Restore failed: '' @ m))]) 500"
    by (simp add: handleRestore_def restore_body_def)
next
  fix evs e assume "createS3Client (rw_env w) ''data'' = Inr ()
      \<and> \<not> includes_str key ''..'' \<and> startsWith key ''backups/''
      \<and> rw_head w = HeadResponse st cl \<and> response_ok st
      \<and> restore_download w key (restore_tempFile w) (probed_size cl) = (evs, Inl e)"
  then show "fst (handleRestore w srv pathname key)
          = jsonResponse (JObj [(''error'', JStr (''Restore failed: '' @ e))]) 500"
    by (simp add: handleRestore_def restore_body_def)
next
  fix evs files1 assume a: "createS3Client (rw_env w) ''data'' = Inr ()
      \<and> \<not> includes_str key ''..'' \<and> startsWith key ''backups/''
      \<and> rw_head w = HeadResponse st cl \<and> response_ok st
      \<and> restore_download w key (restore_tempFile w) (probed_size cl) = (evs, Inr files1)"
  from a have a1: "createS3Client (rw_env w) ''data'' = Inr ()"
    and a2: "\<not> includes_str key ''..''" and a3: "startsWith key ''backups/''"
    and a4: "rw_head w = HeadResponse st cl" and a5: "response_ok st"
    and a6: "restore_download w key (restore_tempFile w) (probed_size cl) = (evs, Inr files1)"
    by blast+
  from restore_body_downloaded [OF a1 a2 a3 a4 a5 a6, of pathname]
  obtain written where body: "restore_body w pathname key
      = (case restore_extract w (normalize_directory pathname) key (restore_tempFile w)
               (probed_size cl) written of
           (evs', r) \<Rightarrow> (HeadRequest (headUrl_of (rw_env w) key) # evs @ evs', r))" by blast
  {
    assume "fst (rw_mkdir w) \<noteq> 0"
    then show "fst (handleRestore w srv pathname key)
             = jsonResponse (JObj [(''error'', JStr (''Restore failed: Failed to create directory '' @
                 parentDir_of (normalize_directory pathname) @ '': '' @ snd (rw_mkdir w)))]) 500"
      by (simp add: handleRestore_def body restore_extract_def Let_def)
  }
  {
    assume "fst (rw_mkdir w) = 0 \<and> fst (rw_tar w) \<noteq> 0"
    then show "fst (handleRestore w srv pathname key)
             = jsonResponse (JObj [(''error'', JStr (''Restore failed: tar extraction failed with exit code '' @
                 string_of_int (fst (rw_tar w)) @ '': '' @ snd (rw_tar w)))]) 500"
      by (simp add: handleRestore_def body restore_extract_def Let_def)
  }
  {
    assume "fst (rw_mkdir w) = 0 \<and> fst (rw_tar w) = 0"
    then show "code (fst (handleRestore w srv pathname key)) = 200"
      by (simp add: handleRestore_def body restore_extract_def Let_def)
  }
qed

lemma not_found_status: "\<not> response_ok 404" "response_ok 200"
  by (simp_all add: response_ok_def)

theorem handleRestore_error_classes_witness:
  "createS3Client (rw_env demo_world) ''data'' = Inr ()
   \<and> includes_str ''../etc/passwd'' ''..''
   \<and> fst (handleRestore demo_world demo_server ''/data/world'' ''../etc/passwd'')
       = jsonResponse (JObj [(''error'', JStr ''Invalid backup filename'')]) 400
   \<and> fst (snd (handleRestore demo_world demo_server ''/data/world'' ''../etc/passwd'')) = []
   \<and> \<not> includes_str ''backups/k.tar.gz'' ''..'' \<and> startsWith ''backups/k.tar.gz'' ''backups/''
   \<and> \<not> response_ok 404
   \<and> fst (handleRestore (demo_world\<lparr>rw_head := HeadResponse 404 None\<rparr>) demo_server
            ''/data/world'' ''backups/k.tar.gz'')
       = jsonResponse (JObj [(''error'', JStr ''Backup not found: backups/k.tar.gz'')]) 404
   \<and> createS3Client (rw_env (demo_world\<lparr>rw_env := Map.empty\<rparr>)) ''data''
       = Inl ''Missing AWS credentials in environment''
   \<and> fst (handleRestore (demo_world\<lparr>rw_env := Map.empty\<rparr>) demo_server
            ''/data/world'' ''backups/k.tar.gz'')
       = jsonResponse (JObj [(''error'',
           JStr ''Restore failed: Missing AWS credentials in environment'')]) 500
   \<and> fst (handleRestore (demo_world\<lparr>rw_head := HeadError ''ECONNREFUSED''\<rparr>) demo_server
            ''/data/world'' ''backups/k.tar.gz'')
       = jsonResponse (JObj [(''error'', JStr ''Restore failed: ECONNREFUSED'')]) 500
   \<and> restore_download (demo_world\<lparr>rw_file := Inl ''socket hang up''\<rparr>) ''backups/k.tar.gz''
        (restore_tempFile (demo_world\<lparr>rw_file := Inl ''socket hang up''\<rparr>)) (probed_size (Some 5))
       = ([FullRequest ''backups/k.tar.gz''], Inl ''socket hang up'')
   \<and> fst (handleRestore (demo_world\<lparr>rw_file := Inl ''socket hang up''\<rparr>) demo_server
            ''/data/world'' ''backups/k.tar.gz'')
       = jsonResponse (JObj [(''error'', JStr ''Restore failed: socket hang up'')]) 500
   \<and> fst (handleRestore (demo_world\<lparr>rw_mkdir := (1, ''Permission denied'')\<rparr>) demo_server
            ''/data/world'' ''backups/k.tar.gz'')
       = jsonResponse (JObj [(''error'',
           JStr ''Restore failed: Failed to create directory /data: Permission denied'')]) 500
   \<and> fst (handleRestore (demo_world\<lparr>rw_tar := (2, ''not in gzip format'')\<rparr>) demo_server
            ''/data/world'' ''backups/k.tar.gz'')
       = jsonResponse (JObj [(''error'',
           JStr ''Restore failed: tar extraction failed with exit code 2: not in gzip format'')]) 500
   \<and> code (fst (handleRestore demo_world demo_server ''/data/world'' ''backups/k.tar.gz'')) = 200"
proof -
  note t = handleRestore_error_classes [where srv = demo_server and pathname = "''/data/world''"]
  note k = conjunct1 [OF good_key] conjunct2 [OF good_key]
  have c: "createS3Client (rw_env demo_world) ''data'' = Inr ()"
    by (simp add: demo_world_def createS3Client_demo)
  have i1: "fst (handleRestore demo_world demo_server ''/data/world'' ''../etc/passwd'')
       = jsonResponse (JObj [(''error'', JStr ''Invalid backup filename'')]) 400
     \<and> fst (snd (handleRestore demo_world demo_server ''/data/world'' ''../etc/passwd'')) = []"
    using t [where w = demo_world and key = "''../etc/passwd''"] c traversal_key by blast
  have c2: "createS3Client (rw_env (demo_world\<lparr>rw_head := HeadResponse 404 None\<rparr>)) ''data'' = Inr ()"
    and h2: "rw_head (demo_world\<lparr>rw_head := HeadResponse 404 None\<rparr>) = HeadResponse 404 None"
    using c by simp_all
  have "fst (handleRestore (demo_world\<lparr>rw_head := HeadResponse 404 None\<rparr>) demo_server
            ''/data/world'' ''backups/k.tar.gz'')
       = jsonResponse (JObj [(''error'', JStr (''Backup not found: '' @ ''backups/k.tar.gz''))]) 404"
    using t [where w = "demo_world\<lparr>rw_head := HeadResponse 404 None\<rparr>"
        and key = "''backups/k.tar.gz''" and st = 404 and cl = None] c2 h2 k not_found_status(1)
    by blast
  then have i2: "fst (handleRestore (demo_world\<lparr>rw_head := HeadResponse 404 None\<rparr>) demo_server
            ''/data/world'' ''backups/k.tar.gz'')
       = jsonResponse (JObj [(''error'', JStr ''Backup not found: backups/k.tar.gz'')]) 404"
    by simp
  have c3: "createS3Client (rw_env (demo_world\<lparr>rw_env := Map.empty\<rparr>)) ''data''
       = Inl ''Missing AWS credentials in environment''"
    by (simp add: createS3Client_empty)
  have "fst (handleRestore (demo_world\<lparr>rw_env := Map.empty\<rparr>) demo_server
            ''/data/world'' ''backups/k.tar.gz'')
       = jsonResponse (JObj [(''error'',
           JStr (''Restore failed: '' @ ''Missing AWS credentials in environment''))]) 500"
    using t [where w = "demo_world\<lparr>rw_env := Map.empty\<rparr>" and key = "''backups/k.tar.gz''"] c3
    by blast
  then have i3: "fst (handleRestore (demo_world\<lparr>rw_env := Map.empty\<rparr>) demo_server
            ''/data/world'' ''backups/k.tar.gz'')
       = jsonResponse (JObj [(''error'',
           JStr ''Restore failed: Missing AWS credentials in environment'')]) 500"
    by simp
  have c4: "createS3Client (rw_env (demo_world\<lparr>rw_head := HeadError ''ECONNREFUSED''\<rparr>)) ''data'' = Inr ()"
    and h4: "rw_head (demo_world\<lparr>rw_head := HeadError ''ECONNREFUSED''\<rparr>) = HeadError ''ECONNREFUSED''"
    using c by simp_all
  have "fst (handleRestore (demo_world\<lparr>rw_head := HeadError ''ECONNREFUSED''\<rparr>) demo_server
            ''/data/world'' ''backups/k.tar.gz'')
       = jsonResponse (JObj [(''error'', JStr (''Restore failed: '' @ ''ECONNREFUSED''))]) 500"
    using t [where w = "demo_world\<lparr>rw_head := HeadError ''ECONNREFUSED''\<rparr>"
        and key = "''backups/k.tar.gz''"] c4 h4 k
    by blast
  then have i4: "fst (handleRestore (demo_world\<lparr>rw_head := HeadError ''ECONNREFUSED''\<rparr>) demo_server
            ''/data/world'' ''backups/k.tar.gz'')
       = jsonResponse (JObj [(''error'', JStr ''Restore failed: ECONNREFUSED'')]) 500"
    by simp
  have c5: "createS3Client (rw_env (demo_world\<lparr>rw_file := Inl ''socket hang up''\<rparr>)) ''data'' = Inr ()"
    and h5: "rw_head (demo_world\<lparr>rw_file := Inl ''socket hang up''\<rparr>) = HeadResponse 200 (Some 5)"
    using c by (simp_all add: demo_world_def)
  have d5: "restore_download (demo_world\<lparr>rw_file := Inl ''socket hang up''\<rparr>) ''backups/k.tar.gz''
        (restore_tempFile (demo_world\<lparr>rw_file := Inl ''socket hang up''\<rparr>)) (probed_size (Some 5))
       = ([FullRequest ''backups/k.tar.gz''], Inl ''socket hang up'')"
    by (simp add: restore_download_def LARGE_FILE_THRESHOLD_def probed_size_def)
  have "fst (handleRestore (demo_world\<lparr>rw_file := Inl ''socket hang up''\<rparr>) demo_server
            ''/data/world'' ''backups/k.tar.gz'')
       = jsonResponse (JObj [(''error'', JStr (''Restore failed: '' @ ''socket hang up''))]) 500"
    using t [where w = "demo_world\<lparr>rw_file := Inl ''socket hang up''\<rparr>"
        and key = "''backups/k.tar.gz''" and st = 200 and cl = "Some 5"] c5 h5 k not_found_status(2) d5
    by blast
  then have i5: "fst (handleRestore (demo_world\<lparr>rw_file := Inl ''socket hang up''\<rparr>) demo_server
            ''/data/world'' ''backups/k.tar.gz'')
       = jsonResponse (JObj [(''error'', JStr ''Restore failed: socket hang up'')]) 500"
    by simp
  have c6: "createS3Client (rw_env (demo_world\<lparr>rw_mkdir := (1, ''Permission denied'')\<rparr>)) ''data'' = Inr ()"
    and h6: "rw_head (demo_world\<lparr>rw_mkdir := (1, ''Permission denied'')\<rparr>) = HeadResponse 200 (Some 5)"
    and m6: "fst (rw_mkdir (demo_world\<lparr>rw_mkdir := (1, ''Permission denied'')\<rparr>)) \<noteq> 0"
    using c by (simp_all add: demo_world_def)
  have d6: "restore_download (demo_world\<lparr>rw_mkdir := (1, ''Permission denied'')\<rparr>) ''backups/k.tar.gz''
        (restore_tempFile (demo_world\<lparr>rw_mkdir := (1, ''Permission denied'')\<rparr>)) (probed_size (Some 5))
       = ([FullRequest ''backups/k.tar.gz''],
          Inr (Mapping.update (restore_tempFile (demo_world\<lparr>rw_mkdir := (1, ''Permission denied'')\<rparr>))
                 [1, 2, 3] Mapping.empty))"
    by (simp add: restore_download_def LARGE_FILE_THRESHOLD_def probed_size_def demo_world_def)
  have "fst (handleRestore (demo_world\<lparr>rw_mkdir := (1, ''Permission denied'')\<rparr>) demo_server
            ''/data/world'' ''backups/k.tar.gz'')
       = jsonResponse (JObj [(''error'', JStr (''Restore failed: Failed to create directory '' @
                 parentDir_of (normalize_directory ''/data/world'') @ '': '' @
                 snd (rw_mkdir (demo_world\<lparr>rw_mkdir := (1, ''Permission denied'')\<rparr>))))]) 500"
    using t [where w = "demo_world\<lparr>rw_mkdir := (1, ''Permission denied'')\<rparr>"
        and key = "''backups/k.tar.gz''" and st = 200 and cl = "Some 5"] c6 h6 k not_found_status(2) d6 m6
    by blast
  then have i6: "fst (handleRestore (demo_world\<lparr>rw_mkdir := (1, ''Permission denied'')\<rparr>) demo_server
            ''/data/world'' ''backups/k.tar.gz'')
       = jsonResponse (JObj [(''error'',
           JStr ''Restore failed: Failed to create directory /data: Permission denied'')]) 500"
    by (simp add: parentDir_of_def normalize_directory_def startsWith_def)
  have c7: "createS3Client (rw_env (demo_world\<lparr>rw_tar := (2, ''not in gzip format'')\<rparr>)) ''data'' = Inr ()"
    and h7: "rw_head (demo_world\<lparr>rw_tar := (2, ''not in gzip format'')\<rparr>) = HeadResponse 200 (Some 5)"
    and m7: "fst (rw_mkdir (demo_world\<lparr>rw_tar := (2, ''not in gzip format'')\<rparr>)) = 0
           \<and> fst (rw_tar (demo_world\<lparr>rw_tar := (2, ''not in gzip format'')\<rparr>)) \<noteq> 0"
    using c by (simp_all add: demo_world_def)
  have d7: "restore_download (demo_world\<lparr>rw_tar := (2, ''not in gzip format'')\<rparr>) ''backups/k.tar.gz''
        (restore_tempFile (demo_world\<lparr>rw_tar := (2, ''not in gzip format'')\<rparr>)) (probed_size (Some 5))
       = ([FullRequest ''backups/k.tar.gz''],
          Inr (Mapping.update (restore_tempFile (demo_world\<lparr>rw_tar := (2, ''not in gzip format'')\<rparr>))
                 [1, 2, 3] Mapping.empty))"
    by (simp add: restore_download_def LARGE_FILE_THRESHOLD_def probed_size_def demo_world_def)
  have "fst (handleRestore (demo_world\<lparr>rw_tar := (2, ''not in gzip format'')\<rparr>) demo_server
            ''/data/world'' ''backups/k.tar.gz'')
       = jsonResponse (JObj [(''error'', JStr (''Restore failed: tar extraction failed with exit code '' @
                 string_of_int (fst (rw_tar (demo_world\<lparr>rw_tar := (2, ''not in gzip format'')\<rparr>))) @ '': '' @
                 snd (rw_tar (demo_world\<lparr>rw_tar := (2, ''not in gzip format'')\<rparr>))))]) 500"
    using t [where w = "demo_world\<lparr>rw_tar := (2, ''not in gzip format'')\<rparr>"
        and key = "''backups/k.tar.gz''" and st = 200 and cl = "Some 5"] c7 h7 k not_found_status(2) d7 m7
    by blast
  then have i7: "fst (handleRestore (demo_world\<lparr>rw_tar := (2, ''not in gzip format'')\<rparr>) demo_server
            ''/data/world'' ''backups/k.tar.gz'')
       = jsonResponse (JObj [(''error'',
           JStr ''Restore failed: tar extraction failed with exit code 2: not in gzip format'')]) 500"
    by (simp add: string_of_int_def string_of_nat.simps digit_char_def)
  have h8: "rw_head demo_world = HeadResponse 200 (Some 5)"
    and m8: "fst (rw_mkdir demo_world) = 0 \<and> fst (rw_tar demo_world) = 0"
    by (simp_all add: demo_world_def)
  have d8: "restore_download demo_world ''backups/k.tar.gz''
        (restore_tempFile demo_world) (probed_size (Some 5))
       = ([FullRequest ''backups/k.tar.gz''],
          Inr (Mapping.update (restore_tempFile demo_world) [1, 2, 3] Mapping.empty))"
    by (simp add: restore_download_def LARGE_FILE_THRESHOLD_def probed_size_def demo_world_def)
  have i8: "code (fst (handleRestore demo_world demo_server ''/data/world'' ''backups/k.tar.gz'')) = 200"
    using t [where w = demo_world and key = "''backups/k.tar.gz''" and st = 200 and cl = "Some 5"]
      c h8 k not_found_status(2) d8 m8
    by blast
  show ?thesis
    using c traversal_key i1 k not_found_status(1) i2 c3 i3 i4 d5 i5 i6 i7 i8 by simp
qed

section \<open>Restore: a size mismatch is not fatal\<close>

text \<open>
  C9. For every restore whose download completes, whatever the size of the written
  file and the probed size are: the file is there; once the parent directory is
  ensured, \<^verbatim>\<open>tar\<close> is run on it; if \<^verbatim>\<open>tar\<close> exits with 0 the reply is the success
  result whose size is the length of the written file; if it does not, the reply is the
  500 of the extraction failure; if the parent directory cannot be made, the reply is
  the 500 of that failure; and a mismatch of the sizes only adds a warning to the log.
\<close>

theorem handleRestore_size_mismatch_not_fatal:
  assumes "createS3Client (rw_env w) ''data'' = Inr ()"
    and "\<not> includes_str key ''..''" and "startsWith key ''backups/''"
    and "rw_head w = HeadResponse st cl" and "response_ok st"
    and "restore_download w key (restore_tempFile w)
           (probed_size cl) = (evs, Inr files1)"
  shows "\<exists>written. Mapping.lookup files1 (restore_tempFile w) = Some written
    \<and> (fst (rw_mkdir w) = 0 \<longrightarrow>
          Spawn (tar_extract_args (restore_tempFile w)
                   (parentDir_of (normalize_directory pathname)))
            \<in> set (fst (snd (handleRestore w srv pathname key))))
    \<and> (fst (rw_mkdir w) = 0 \<and> fst (rw_tar w) = 0 \<longrightarrow>
          fst (handleRestore w srv pathname key)
            = jsonResponse (JObj [
                (''success'', JBool True),
                (''restored_from'', JStr key),
                (''restored_to'', JStr (normalize_directory pathname)),
                (''size'', JNum (int (length written))),
                (''note'', JStr ''complete restore'')]) 200)
    \<and> (fst (rw_mkdir w) = 0 \<and> fst (rw_tar w) \<noteq> 0 \<longrightarrow>
          fst (handleRestore w srv pathname key)
            = jsonResponse (JObj [(''error'', JStr (''Restore failed: tar extraction failed with exit code '' @
                string_of_int (fst (rw_tar w)) @ '': '' @ snd (rw_tar w)))]) 500)
    \<and> (fst (rw_mkdir w) \<noteq> 0 \<longrightarrow>
          fst (handleRestore w srv pathname key)
            = jsonResponse (JObj [(''error'', JStr (''Restore failed: Failed to create directory '' @
                parentDir_of (normalize_directory pathname) @ '': '' @ snd (rw_mkdir w)))]) 500)
    \<and> (length written \<noteq> (probed_size cl) \<longrightarrow>
          Warning (''WARNING: Downloaded size ('' @ string_of_nat (length written) @
                   '') does not match expected size ('' @
                   string_of_nat (probed_size cl) @ '')'')
            \<in> set (fst (snd (handleRestore w srv pathname key))))"
proof -
  let ?tmp = "restore_tempFile w"
  from restore_download_writes [OF assms(6)] obtain written where
    wr: "Mapping.lookup files1 ?tmp = Some written" by blast
  have body: "restore_body w pathname key
      = (case restore_extract w (normalize_directory pathname) key ?tmp
               (probed_size cl) written of
           (evs', r) \<Rightarrow> (HeadRequest (headUrl_of (rw_env w) key) # evs @ evs', r))"
    using assms wr by (simp add: restore_body_def Let_def)
  show ?thesis
    apply (rule exI [of _ written])
    apply (simp add: wr handleRestore_def body restore_extract_def Let_def)
    done
qed

theorem handleRestore_size_mismatch_not_fatal_witness:
  "createS3Client (rw_env demo_world) ''data'' = Inr ()
   \<and> \<not> includes_str ''backups/k.tar.gz'' ''..'' \<and> startsWith ''backups/k.tar.gz'' ''backups/''
   \<and> rw_head demo_world = HeadResponse 200 (Some 5) \<and> response_ok 200
   \<and> restore_download demo_world ''backups/k.tar.gz'' (restore_tempFile demo_world) (probed_size (Some 5))
        = ([FullRequest ''backups/k.tar.gz''],
           Inr (Mapping.update (restore_tempFile demo_world) [1, 2, 3] Mapping.empty))
   \<and> fst (rw_mkdir demo_world) = 0 \<and> fst (rw_tar demo_world) = 0
   \<and> fst (handleRestore demo_world demo_server ''/data/world'' ''backups/k.tar.gz'')
       = jsonResponse (JObj [
           (''success'', JBool True),
           (''restored_from'', JStr ''backups/k.tar.gz''),
           (''restored_to'', JStr ''/data/world''),
           (''size'', JNum 3),
           (''note'', JStr ''complete restore'')]) 200"
proof -
  let ?tmp = "restore_tempFile demo_world"
  let ?files1 = "Mapping.update ?tmp [1, 2, 3] Mapping.empty :: fs"
  have c: "createS3Client (rw_env demo_world) ''data'' = Inr ()"
    by (simp add: demo_world_def createS3Client_demo)
  have h: "rw_head demo_world = HeadResponse 200 (Some 5)" by (simp add: demo_world_def)
  have o: "response_ok 200" by (simp add: response_ok_def)
  have d: "restore_download demo_world ''backups/k.tar.gz'' ?tmp (probed_size (Some 5))
      = ([FullRequest ''backups/k.tar.gz''], Inr ?files1)"
    by (simp add: restore_download_def LARGE_FILE_THRESHOLD_def demo_world_def probed_size_def)
  have x: "fst (rw_mkdir demo_world) = 0" "fst (rw_tar demo_world) = 0" by (simp_all add: demo_world_def)
  from handleRestore_size_mismatch_not_fatal
    [OF c conjunct1 [OF good_key] conjunct2 [OF good_key] h o d, of "''/data/world''" demo_server] x
  obtain written where "Mapping.lookup ?files1 ?tmp = Some written"
    and r: "fst (handleRestore demo_world demo_server ''/data/world'' ''backups/k.tar.gz'')
            = jsonResponse (JObj [
                (''success'', JBool True),
                (''restored_from'', JStr ''backups/k.tar.gz''),
                (''restored_to'', JStr (normalize_directory ''/data/world'')),
                (''size'', JNum (int (length written))),
                (''note'', JStr ''complete restore'')]) 200" by blast
  then have "written = [1, 2, 3]" by simp
  with r have "fst (handleRestore demo_world demo_server ''/data/world'' ''backups/k.tar.gz'')
       = jsonResponse (JObj [
           (''success'', JBool True),
           (''restored_from'', JStr ''backups/k.tar.gz''),
           (''restored_to'', JStr ''/data/world''),
           (''size'', JNum 3),
           (''note'', JStr ''complete restore'')]) 200"
    by (simp add: normalize_directory_def startsWith_def)
  with c h o d x good_key show ?thesis by simp
qed

section \<open>Managed paths: beneath a root or rejected\<close>

lemma startsWith_prefix: "startsWith s p \<longleftrightarrow> prefix p s"
  unfolding startsWith_def by (metis append_eq_conv_conj prefix_def take_is_prefix)

lemma split_on_no_separator: "seg \<in> set (split_on c s) \<Longrightarrow> c \<notin> set seg"
proof (induction s arbitrary: seg)
  case Nil
  then show ?case by simp
next
  case (Cons x xs)
  show ?case
  proof (cases "x = c")
    case True
    with Cons show ?thesis by auto
  next
    case False
    with Cons show ?thesis by (cases "split_on c xs") auto
  qed
qed

lemma normalizeSegments_clean:
  "\<forall>s\<in>set segs. CHR ''/'' \<notin> set s \<Longrightarrow> list_all clean_segment res \<Longrightarrow>
     list_all clean_segment (normalizeSegments False segs res)"
proof (induction segs arbitrary: res)
  case Nil
  then show ?case by (simp add: list_all_iff)
next
  case (Cons seg segs)
  then have rest: "\<forall>s\<in>set segs. CHR ''/'' \<notin> set s" and seg: "CHR ''/'' \<notin> set seg" by simp_all
  show ?case
  proof (cases "seg = [] \<or> seg = ''.''")
    case True
    then show ?thesis using Cons.IH [OF rest Cons.prems(2)] by auto
  next
    case plain: False
    show ?thesis
    proof (cases "seg = ''..''")
      case True
      show ?thesis
      proof (cases res)
        case Nil
        with True plain show ?thesis using Cons.IH [OF rest, of "[]"] by simp
      next
        case (Cons lastSeg others)
        with Cons.prems(2) have "clean_segment lastSeg" and o: "list_all clean_segment others"
          by simp_all
        then have "lastSeg \<noteq> ''..''" by (simp add: clean_segment_def)
        note this o
        with True plain Cons show ?thesis using Cons.IH [OF rest, of others] by simp
      qed
    next
      case False
      with plain seg have "clean_segment seg" by (simp add: clean_segment_def)
      with Cons.prems(2) have "list_all clean_segment (seg # res)" by simp
      from Cons.IH [OF rest this] plain False show ?thesis by simp
    qed
  qed
qed

lemma resolved_segments_clean: "list_all clean_segment (resolved_segments c)"
  unfolding resolved_segments_def
  by (rule normalizeSegments_clean) (auto dest: split_on_no_separator)

lemma join_slash_Cons: "join_slash (s # ss) = s @ seg_tail ss"
  by (cases ss) (simp_all add: seg_tail_def)

lemma seg_tail_shape: "seg_tail ss = [] \<or> hd (seg_tail ss) = CHR ''/''"
  by (simp add: seg_tail_def)

lemma slash_split_eq:
  assumes "CHR ''/'' \<notin> set r" "CHR ''/'' \<notin> set s"
    and "x = [] \<or> hd x = CHR ''/''" "y = [] \<or> hd y = CHR ''/''"
  shows "r @ x = s @ y \<longleftrightarrow> r = s \<and> x = y"
  using assms(1,2)
proof (induction r arbitrary: s)
  case Nil
  show ?case
  proof (cases s)
    case Nil
    then show ?thesis by simp
  next
    case (Cons b s')
    with Nil.prems have "b \<noteq> CHR ''/''" by auto
    with Cons assms(3) show ?thesis by (cases x) auto
  qed
next
  case (Cons a r)
  show ?case
  proof (cases s)
    case Nil
    from Cons.prems have "a \<noteq> CHR ''/''" by auto
    with Nil assms(4) show ?thesis by (cases y) auto
  next
    case s: (Cons b s')
    with Cons.prems have "CHR ''/'' \<notin> set r" "CHR ''/'' \<notin> set s'" by auto
    from Cons.IH [OF this] s show ?thesis by auto
  qed
qed

lemma slash_split_prefix:
  assumes "CHR ''/'' \<notin> set r" "CHR ''/'' \<notin> set s"
    and "y = [] \<or> hd y = CHR ''/''"
  shows "prefix (r @ CHR ''/'' # x) (s @ y) \<longleftrightarrow> r = s \<and> prefix (CHR ''/'' # x) y"
  using assms(1,2)
proof (induction r arbitrary: s)
  case Nil
  show ?case
  proof (cases s)
    case Nil
    then show ?thesis by simp
  next
    case (Cons b s')
    with Nil.prems have "b \<noteq> CHR ''/''" by auto
    with Cons show ?thesis by auto
  qed
next
  case (Cons a r)
  show ?case
  proof (cases s)
    case Nil
    from Cons.prems have "a \<noteq> CHR ''/''" by auto
    with Nil assms(3) show ?thesis by (cases y) auto
  next
    case s: (Cons b s')
    with Cons.prems have "CHR ''/'' \<notin> set r" "CHR ''/'' \<notin> set s'" by auto
    from Cons.IH [OF this] s show ?thesis by auto
  qed
qed

lemma clean_no_slash: "clean_segment s \<Longrightarrow> CHR ''/'' \<notin> set s"
  by (simp add: clean_segment_def)

lemma join_prefix_iff:
  assumes "list_all clean_segment rs" "list_all clean_segment ss" "rs \<noteq> []"
  shows "(join_slash ss = join_slash rs \<or> prefix (join_slash rs @ ''/'') (join_slash ss))
           \<longleftrightarrow> prefix rs ss"
  using assms
proof (induction rs arbitrary: ss)
  case Nil
  then show ?case by simp
next
  case (Cons r rs')
  then have r: "clean_segment r" and rs': "list_all clean_segment rs'" by simp_all
  show ?case
  proof (cases ss)
    case Nil
    from r have "join_slash (r # rs') \<noteq> []"
      by (simp add: join_slash_Cons clean_segment_def)
    with Nil show ?thesis by auto
  next
    case ss: (Cons s ss')
    with Cons.prems have s: "clean_segment s" and ss': "list_all clean_segment ss'" by simp_all
    note nr = clean_no_slash [OF r] and ns = clean_no_slash [OF s]
    have eq: "join_slash (s # ss') = join_slash (r # rs') \<longleftrightarrow> s = r \<and> seg_tail ss' = seg_tail rs'"
      unfolding join_slash_Cons
      using slash_split_eq [OF ns nr seg_tail_shape seg_tail_shape] .
    show ?thesis
    proof (cases "rs' = []")
      case True
      have "prefix (join_slash (r # rs') @ ''/'') (join_slash (s # ss'))
          \<longleftrightarrow> r = s \<and> prefix ''/'' (seg_tail ss')"
        unfolding join_slash_Cons using True
          slash_split_prefix [OF nr ns seg_tail_shape, of "[]" ss'] by (simp add: seg_tail_def)
      moreover have "prefix ''/'' (seg_tail ss') \<longleftrightarrow> ss' \<noteq> []" by (simp add: seg_tail_def)
      moreover have "seg_tail ss' = seg_tail rs' \<longleftrightarrow> ss' = []" using True by (simp add: seg_tail_def)
      ultimately show ?thesis using eq ss True by auto
    next
      case False
      have "prefix (join_slash (r # rs') @ ''/'') (join_slash (s # ss'))
          \<longleftrightarrow> r = s \<and> prefix (CHR ''/'' # join_slash rs' @ ''/'') (seg_tail ss')"
        unfolding join_slash_Cons using False
          slash_split_prefix [OF nr ns seg_tail_shape, of "join_slash rs' @ ''/''" ss']
        by (simp add: seg_tail_def)
      moreover have "prefix (CHR ''/'' # join_slash rs' @ ''/'') (seg_tail ss')
          \<longleftrightarrow> ss' \<noteq> [] \<and> prefix (join_slash rs' @ ''/'') (join_slash ss')"
        by (simp add: seg_tail_def)
      moreover have "seg_tail ss' = seg_tail rs' \<longleftrightarrow> ss' \<noteq> [] \<and> join_slash ss' = join_slash rs'"
        using False by (auto simp: seg_tail_def)
      moreover note Cons.IH [OF rs' ss' False]
      moreover have "prefix rs' ss' \<Longrightarrow> ss' \<noteq> []" using False by auto
      ultimately show ?thesis using eq ss by auto
    qed
  qed
qed

lemma under_root_prefix:
  assumes "list_all clean_segment rs" "list_all clean_segment ss"
  shows "under_root (abs_path ss) (abs_path rs) \<longleftrightarrow> prefix rs ss"
proof (cases "rs = []")
  case True
  then show ?thesis by (simp add: under_root_def abs_path_def)
next
  case False
  then obtain r rs' where rs: "rs = r # rs'" by (cases rs) auto
  with assms(1) have "join_slash rs \<noteq> []"
    by (simp add: join_slash_Cons clean_segment_def)
  then have "abs_path rs \<noteq> ''/''" by (simp add: abs_path_def)
  then show ?thesis using join_prefix_iff [OF assms False]
    by (auto simp: under_root_def abs_path_def startsWith_prefix)
qed

lemma find_map: "find P (map f xs) = map_option f (find (P \<circ> f) xs)"
  by (induction xs) auto

lemma find_roots:
  assumes "\<forall>rs\<in>set rss. list_all clean_segment rs" "list_all clean_segment ss"
  shows "find (under_root (abs_path ss)) (map abs_path rss)
           = map_option abs_path (find (\<lambda>rs. prefix rs ss) rss)"
proof -
  have "find (under_root (abs_path ss) \<circ> abs_path) rss = find (\<lambda>rs. prefix rs ss) rss"
    using assms(1) by (intro find_cong) (auto simp: under_root_prefix [OF _ assms(2)])
  then show ?thesis by (simp add: find_map)
qed

lemma trim_nonempty: "trim p \<noteq> [] \<Longrightarrow> p \<noteq> []"
  by (auto simp: trim_def)

lemma resolveManagedPath_absolute:
  assumes "trim p \<noteq> []"
  shows "resolveManagedPath roots (Some p) fb
    = (case find (under_root (abs_path (resolved_segments (trim p)))) roots of
         Some root \<Rightarrow> Inr \<lparr>mp_absolute = abs_path (resolved_segments (trim p)), mp_root = root,
                            mp_parent = computeParent root (abs_path (resolved_segments (trim p)))\<rparr>
       | None \<Rightarrow> Inl ''Path is outside managed roots'')"
  using assms trim_nonempty [OF assms]
  by (auto simp: resolveManagedPath_def falsy_def posix_resolve_root_def abs_path_def
      resolved_segments_def Let_def split: option.splits)

lemma outside_statuses:
  "read_error_status ''Path is outside managed roots'' = 403"
  "write_error_status ''Path is outside managed roots'' = 403"
  by (simp_all add: read_error_status_def write_error_status_def startsWith_def)

lemma maintenance_enabled: "isMaintenanceModeEnabled env \<Longrightarrow> ensureMaintenanceModeEnabled env = Inr ()"
  by (simp add: ensureMaintenanceModeEnabled_def)

lemma gateway_rejects_outside:
  assumes "resolveManagedPath roots (Some p) False = Inl ''Path is outside managed roots''"
    and "resolveManagedPath roots (Some p) True = Inl ''Path is outside managed roots''"
    and "trim p \<noteq> []"
  shows "handleReadFile roots io files (Some p) = Json (error_reply ''Path is outside managed roots'' 403)"
    and "handleListFiles roots readdir (Some p) = error_reply ''Path is outside managed roots'' 403"
    and "isMaintenanceModeEnabled env \<Longrightarrow>
           handleWriteFile env roots io files (Some p) buffer
             = (error_reply ''Path is outside managed roots'' 403, files)"
    and "isMaintenanceModeEnabled env \<Longrightarrow>
           handleDeletePath env roots io files (Some p)
             = (error_reply ''Path is outside managed roots'' 403, files)"
    and "isMaintenanceModeEnabled env \<Longrightarrow>
           handleCreateDirectory env roots io files (Some p)
             = (error_reply ''Path is outside managed roots'' 403, files)"
  using assms trim_nonempty [OF assms(3)]
  by (simp_all add: handleReadFile_def handleListFiles_def handleWriteFile_def handleDeletePath_def
      handleCreateDirectory_def maintenance_enabled message_or_def outside_statuses falsy_def)

text \<open>
  C5. For every path that is not blank and every list of managed roots that are
  normalised absolute paths, \<^verbatim>\<open>/\<close> (no segment) and \<^verbatim>\<open>/data\<close> among them:
  \<^verbatim>\<open>resolveManagedPath\<close> accepts the path exactly when the segments of its normalised
  absolute resolution start with the segments of a root, so when it is that root or
  lies beneath it; it then returns the resolution and the first such root; the root
  \<^verbatim>\<open>/\<close> accepts every path. Every other path, which is every path that leaves all
  roots once its \<^verbatim>\<open>..\<close> segments are resolved, is rejected with "Path is outside managed
  roots", and the gateway answers 403: the reading handlers always, the mutating ones
  when maintenance mode is on.
\<close>

theorem resolveManagedPath_accepts_iff_beneath:
  assumes "trim p \<noteq> []" and "\<forall>rs\<in>set rss. list_all clean_segment rs"
  shows "resolveManagedPath (map abs_path rss) (Some p) fb
    = (case find (\<lambda>rs. prefix rs (resolved_segments (trim p))) rss of
         Some rs \<Rightarrow> Inr \<lparr>mp_absolute = abs_path (resolved_segments (trim p)), mp_root = abs_path rs,
                          mp_parent = computeParent (abs_path rs) (abs_path (resolved_segments (trim p)))\<rparr>
       | None \<Rightarrow> Inl ''Path is outside managed roots'')
    \<and> list_all clean_segment (resolved_segments (trim p))
    \<and> abs_path [] = ''/'' \<and> abs_path [''data''] = ''/data''
    \<and> (find (\<lambda>rs. prefix rs (resolved_segments (trim p))) rss = None \<longrightarrow>
          handleReadFile (map abs_path rss) io files (Some p)
            = Json (error_reply ''Path is outside managed roots'' 403)
        \<and> handleListFiles (map abs_path rss) readdir (Some p)
            = error_reply ''Path is outside managed roots'' 403
        \<and> (isMaintenanceModeEnabled env \<longrightarrow>
              handleWriteFile env (map abs_path rss) io files (Some p) buffer
                = (error_reply ''Path is outside managed roots'' 403, files)
            \<and> handleDeletePath env (map abs_path rss) io files (Some p)
                = (error_reply ''Path is outside managed roots'' 403, files)
            \<and> handleCreateDirectory env (map abs_path rss) io files (Some p)
                = (error_reply ''Path is outside managed roots'' 403, files)))"
proof -
  let ?segs = "resolved_segments (trim p)"
  have res: "resolveManagedPath (map abs_path rss) (Some p) b
    = (case find (\<lambda>rs. prefix rs ?segs) rss of
         Some rs \<Rightarrow> Inr \<lparr>mp_absolute = abs_path ?segs, mp_root = abs_path rs,
                          mp_parent = computeParent (abs_path rs) (abs_path ?segs)\<rparr>
       | None \<Rightarrow> Inl ''Path is outside managed roots'')" for b
    using find_roots [OF assms(2) resolved_segments_clean, of "trim p"]
    by (simp add: resolveManagedPath_absolute [OF assms(1)] split: option.splits)
  have out: "resolveManagedPath (map abs_path rss) (Some p) b = Inl ''Path is outside managed roots''"
    if "find (\<lambda>rs. prefix rs ?segs) rss = None" for b
    using that by (simp add: res)
  show ?thesis
  proof (intro conjI impI)
    show "resolveManagedPath (map abs_path rss) (Some p) fb
      = (case find (\<lambda>rs. prefix rs ?segs) rss of
           Some rs \<Rightarrow> Inr \<lparr>mp_absolute = abs_path ?segs, mp_root = abs_path rs,
                            mp_parent = computeParent (abs_path rs) (abs_path ?segs)\<rparr>
         | None \<Rightarrow> Inl ''Path is outside managed roots'')" by (rule res)
    show "list_all clean_segment ?segs" by (rule resolved_segments_clean)
    show "abs_path [] = ''/''" "abs_path [''data''] = ''/data''" by (simp_all add: abs_path_def)
  next
    assume n: "find (\<lambda>rs. prefix rs ?segs) rss = None"
    note g = gateway_rejects_outside [OF out [OF n] out [OF n] assms(1)]
    show "handleReadFile (map abs_path rss) io files (Some p)
            = Json (error_reply ''Path is outside managed roots'' 403)" by (rule g)
    show "handleListFiles (map abs_path rss) readdir (Some p)
            = error_reply ''Path is outside managed roots'' 403" by (rule g)
    assume m: "isMaintenanceModeEnabled env"
    show "handleWriteFile env (map abs_path rss) io files (Some p) buffer
                = (error_reply ''Path is outside managed roots'' 403, files)" using m by (rule g)
    show "handleDeletePath env (map abs_path rss) io files (Some p)
                = (error_reply ''Path is outside managed roots'' 403, files)" using m by (rule g)
    show "handleCreateDirectory env (map abs_path rss) io files (Some p)
                = (error_reply ''Path is outside managed roots'' 403, files)" using m by (rule g)
  qed
qed

lemma trim_escape: "trim ''/data/../etc/passwd'' = ''/data/../etc/passwd''"
  by (simp add: trim_def is_space_def)

lemma segments_escape: "resolved_segments ''/data/../etc/passwd'' = [''etc'', ''passwd'']"
  by (simp add: resolved_segments_def startsWith_def posix_normalize_def)

lemma trim_beneath: "trim '' /data/world/../mods/ '' = ''/data/world/../mods/''"
  by (simp add: trim_def is_space_def)

lemma segments_beneath: "resolved_segments ''/data/world/../mods/'' = [''data'', ''mods'']"
  by (simp add: resolved_segments_def startsWith_def posix_normalize_def)

theorem resolveManagedPath_accepts_iff_beneath_witness:
  "trim ''/data/../etc/passwd'' \<noteq> [] \<and> trim '' /data/world/../mods/ '' \<noteq> []
   \<and> list_all clean_segment [''data'']
   \<and> resolveManagedPath [''/data''] (Some ''/data/../etc/passwd'') False
       = Inl ''Path is outside managed roots''
   \<and> resolveManagedPath [''/''] (Some ''/data/../etc/passwd'') False
       = Inr \<lparr>mp_absolute = ''/etc/passwd'', mp_root = ''/'', mp_parent = Some ''/etc''\<rparr>
   \<and> resolveManagedPath [''/data''] (Some '' /data/world/../mods/ '') False
       = Inr \<lparr>mp_absolute = ''/data/mods'', mp_root = ''/data'', mp_parent = Some ''/data''\<rparr>"
proof -
  have t1: "trim ''/data/../etc/passwd'' \<noteq> []" by (simp add: trim_escape)
  have t2: "trim '' /data/world/../mods/ '' \<noteq> []" by (simp add: trim_beneath)
  have c: "list_all clean_segment [''data'']" by (simp add: clean_segment_def)
  have c1: "\<forall>rs\<in>set [[''data'']]. list_all clean_segment rs" using c by simp
  have c0: "\<forall>rs\<in>set [[]]. list_all clean_segment rs" by simp
  have "resolveManagedPath [''/data''] (Some ''/data/../etc/passwd'') False
       = Inl ''Path is outside managed roots''"
    using resolveManagedPath_accepts_iff_beneath [OF t1 c1, of False]
    by (simp add: trim_escape segments_escape abs_path_def)
  moreover have "resolveManagedPath [''/''] (Some ''/data/../etc/passwd'') False
       = Inr \<lparr>mp_absolute = ''/etc/passwd'', mp_root = ''/'', mp_parent = Some ''/etc''\<rparr>"
    using resolveManagedPath_accepts_iff_beneath [OF t1 c0, of False]
    by (simp add: trim_escape segments_escape abs_path_def computeParent_def posix_dirname_def
        startsWith_def)
  moreover have "resolveManagedPath [''/data''] (Some '' /data/world/../mods/ '') False
       = Inr \<lparr>mp_absolute = ''/data/mods'', mp_root = ''/data'', mp_parent = Some ''/data''\<rparr>"
    using resolveManagedPath_accepts_iff_beneath [OF t2 c1, of False]
    by (simp add: trim_beneath segments_beneath abs_path_def computeParent_def posix_dirname_def
        startsWith_def)
  ultimately show ?thesis using t1 t2 c by simp
qed

section \<open>The maintenance gate\<close>

text \<open>
  The message of \<^verbatim>\<open>ensureMaintenanceModeEnabled\<close> has the word the handlers look for,
  so they answer it with status 400.
\<close>
lemma maintenance_message_mentions: "includes_str maintenance_message ''maintenance''"
  by (simp add: maintenance_message_def startsWith_def)

lemma maintenance_status: "write_error_status maintenance_message = 400"
  by (simp add: write_error_status_def maintenance_message_mentions)

lemma maintenance_message_or: "message_or maintenance_message fallback = maintenance_message"
  by (simp add: message_or_def maintenance_message_def)

lemma maintenance_disabled:
  "\<not> isMaintenanceModeEnabled env \<Longrightarrow> ensureMaintenanceModeEnabled env = Inl maintenance_message"
  by (simp add: ensureMaintenanceModeEnabled_def)

lemma code_error_reply [simp]: "code (error_reply m st) = st"
  by (simp add: error_reply_def jsonResponse_def)

text \<open>
  C6, as the claim states it, fails for the package-install handlers: they read and
  check the body of the request before they look at the maintenance flag. With the flag
  unset, a Modrinth install request whose body is no JSON is answered
  \<^verbatim>\<open>Invalid JSON body\<close>, which is not the maintenance-required error.
\<close>

theorem maintenance_gate_counterexample:
  "\<not> isMaintenanceModeEnabled Map.empty
   \<and> fst (handleModrinthInstall Map.empty demo_server None ''mhicl2x0'' ''k3j9zq'' 1762056000000)
       = error_reply ''Invalid JSON body'' 400
   \<and> error_reply ''Invalid JSON body'' 400 \<noteq> error_reply maintenance_message 400"
  by (simp add: isMaintenanceModeEnabled_def or_else_def falsy_def toLowerCase_def
      handleModrinthInstall_def error_reply_def jsonResponse_def maintenance_message_def)

text \<open>
  C6, amended. With the maintenance flag not enabled, writing a file, deleting a path
  and creating a directory are answered with the maintenance-required error (status
  400) and leave the files as they are, whatever the path and the other inputs are: the
  check comes before the validation of the path. The two install handlers then answer
  with status 400, register no job and start none; the error is the maintenance-required
  one when the body of the request is valid, since they check the body first. With the
  flag enabled the operations go on: a write and a delete of a path beneath a root
  succeed (the file system raising no error), so does the creation of a directory, and a
  valid Modrinth request registers a pending job under the generated id and starts it;
  so does a valid CurseForge request when the API key is configured, and without the
  key it is answered with the error of the missing key.
\<close>

theorem maintenance_gate:
  "(\<not> isMaintenanceModeEnabled env \<longrightarrow>
      handleWriteFile env roots io files rawPath buffer = (error_reply maintenance_message 400, files)
    \<and> handleDeletePath env roots io files rawPath = (error_reply maintenance_message 400, files)
    \<and> handleCreateDirectory env roots io files bodyPath = (error_reply maintenance_message 400, files)
    \<and> code (fst (handleModrinthInstall env srv mbody stamp random now)) = 400
    \<and> snd (handleModrinthInstall env srv mbody stamp random now) = (srv, None)
    \<and> code (fst (handleCurseforgeInstall env srv cbody stamp random now)) = 400
    \<and> snd (handleCurseforgeInstall env srv cbody stamp random now) = (srv, None)
    \<and> (\<forall>parsed link. mbody = Some parsed \<and> url parsed = Some link \<and> trim link \<noteq> [] \<longrightarrow>
          fst (handleModrinthInstall env srv mbody stamp random now)
            = error_reply maintenance_message 400)
    \<and> (\<forall>parsed. cbody = Some parsed \<and> isFinite (projectId parsed) \<and> isFinite (fileId parsed) \<longrightarrow>
          fst (handleCurseforgeInstall env srv cbody stamp random now)
            = error_reply maintenance_message 400))
  \<and> (isMaintenanceModeEnabled env \<longrightarrow>
      (\<forall>target. resolveManagedPath roots rawPath False = Inr target \<and> io = None \<longrightarrow>
          handleWriteFile env roots io files rawPath buffer
            = (success_reply (mp_absolute target), Mapping.update (mp_absolute target) buffer files)
        \<and> handleDeletePath env roots io files rawPath
            = (success_reply (mp_absolute target),
               Mapping.filter (\<lambda>path content. \<not> below (mp_absolute target) path) files))
    \<and> (\<forall>target dir. bodyPath = Some dir \<and> trim dir \<noteq> []
            \<and> resolveManagedPath roots bodyPath False = Inr target \<and> io = None \<longrightarrow>
          handleCreateDirectory env roots io files bodyPath = (success_reply (mp_absolute target), files))
    \<and> (\<forall>parsed link. mbody = Some parsed \<and> url parsed = Some link \<and> trim link \<noteq> [] \<longrightarrow>
          handleModrinthInstall env srv mbody stamp random now
            = (jsonResponse (JObj [(''id'', JStr (generateJobId Modrinth stamp random)),
                                   (''status'', JStr ''pending'')]) 200,
               srv\<lparr>modpackJobs := (modpackJobs srv)(generateJobId Modrinth stamp random \<mapsto>
                      queued_job (generateJobId Modrinth stamp random) Modrinth now)\<rparr>,
               Some (queued_job (generateJobId Modrinth stamp random) Modrinth now)))
    \<and> (\<forall>parsed. cbody = Some parsed \<and> isFinite (projectId parsed) \<and> isFinite (fileId parsed)
            \<and> \<not> falsy (env ''CURSEFORGE_API_KEY'') \<longrightarrow>
          handleCurseforgeInstall env srv cbody stamp random now
            = (jsonResponse (JObj [(''id'', JStr (generateJobId Curseforge stamp random)),
                                   (''status'', JStr ''pending'')]) 200,
               srv\<lparr>modpackJobs := (modpackJobs srv)(generateJobId Curseforge stamp random \<mapsto>
                      queued_job (generateJobId Curseforge stamp random) Curseforge now)\<rparr>,
               Some (queued_job (generateJobId Curseforge stamp random) Curseforge now)))
    \<and> (\<forall>parsed. cbody = Some parsed \<and> isFinite (projectId parsed) \<and> isFinite (fileId parsed)
            \<and> falsy (env ''CURSEFORGE_API_KEY'') \<longrightarrow>
          handleCurseforgeInstall env srv cbody stamp random now
            = (error_reply ''CURSEFORGE_API_KEY is not configured on the container'' 400,
               srv, None)))"
proof (intro conjI impI allI)
  assume off: "\<not> isMaintenanceModeEnabled env"
  note e = maintenance_disabled [OF off]
  show "handleWriteFile env roots io files rawPath buffer = (error_reply maintenance_message 400, files)"
    by (simp add: handleWriteFile_def e maintenance_message_or maintenance_status)
  show "handleDeletePath env roots io files rawPath = (error_reply maintenance_message 400, files)"
    by (simp add: handleDeletePath_def e maintenance_message_or maintenance_status)
  show "handleCreateDirectory env roots io files bodyPath = (error_reply maintenance_message 400, files)"
    by (simp add: handleCreateDirectory_def e maintenance_message_or maintenance_status)
  show "code (fst (handleModrinthInstall env srv mbody stamp random now)) = 400"
    by (simp add: handleModrinthInstall_def e Let_def split: option.splits)
  show "snd (handleModrinthInstall env srv mbody stamp random now) = (srv, None)"
    by (simp add: handleModrinthInstall_def e Let_def split: option.splits)
  show "code (fst (handleCurseforgeInstall env srv cbody stamp random now)) = 400"
    by (simp add: handleCurseforgeInstall_def e split: option.splits)
  show "snd (handleCurseforgeInstall env srv cbody stamp random now) = (srv, None)"
    by (simp add: handleCurseforgeInstall_def e split: option.splits)
next
  fix parsed link
  assume off: "\<not> isMaintenanceModeEnabled env"
    and "mbody = Some parsed \<and> url parsed = Some link \<and> trim link \<noteq> []"
  then show "fst (handleModrinthInstall env srv mbody stamp random now)
      = error_reply maintenance_message 400"
    by (simp add: handleModrinthInstall_def maintenance_disabled maintenance_message_or)
next
  fix parsed
  assume off: "\<not> isMaintenanceModeEnabled env"
    and "cbody = Some parsed \<and> isFinite (projectId parsed) \<and> isFinite (fileId parsed)"
  then show "fst (handleCurseforgeInstall env srv cbody stamp random now)
      = error_reply maintenance_message 400"
    by (auto simp: handleCurseforgeInstall_def maintenance_disabled maintenance_message_or)
next
  fix target
  assume on: "isMaintenanceModeEnabled env"
    and t: "resolveManagedPath roots rawPath False = Inr target \<and> io = None"
  from on have e: "ensureMaintenanceModeEnabled env = Inr ()"
    by (simp add: ensureMaintenanceModeEnabled_def)
  show "handleWriteFile env roots io files rawPath buffer
      = (success_reply (mp_absolute target), Mapping.update (mp_absolute target) buffer files)"
    using t by (simp add: handleWriteFile_def e)
  show "handleDeletePath env roots io files rawPath
      = (success_reply (mp_absolute target),
         Mapping.filter (\<lambda>path content. \<not> below (mp_absolute target) path) files)"
    using t by (simp add: handleDeletePath_def e)
next
  fix target dir
  assume on: "isMaintenanceModeEnabled env"
    and t: "bodyPath = Some dir \<and> trim dir \<noteq> []
            \<and> resolveManagedPath roots bodyPath False = Inr target \<and> io = None"
  from on have e: "ensureMaintenanceModeEnabled env = Inr ()"
    by (simp add: ensureMaintenanceModeEnabled_def)
  from t have "dir \<noteq> []" by (auto simp: trim_def)
  then show "handleCreateDirectory env roots io files bodyPath = (success_reply (mp_absolute target), files)"
    using t by (auto simp: handleCreateDirectory_def e falsy_def)
next
  fix parsed link
  assume on: "isMaintenanceModeEnabled env"
    and t: "mbody = Some parsed \<and> url parsed = Some link \<and> trim link \<noteq> []"
  from on have e: "ensureMaintenanceModeEnabled env = Inr ()"
    by (simp add: ensureMaintenanceModeEnabled_def)
  show "handleModrinthInstall env srv mbody stamp random now
            = (jsonResponse (JObj [(''id'', JStr (generateJobId Modrinth stamp random)),
                                   (''status'', JStr ''pending'')]) 200,
               srv\<lparr>modpackJobs := (modpackJobs srv)(generateJobId Modrinth stamp random \<mapsto>
                      queued_job (generateJobId Modrinth stamp random) Modrinth now)\<rparr>,
               Some (queued_job (generateJobId Modrinth stamp random) Modrinth now))"
    using t by (simp add: handleModrinthInstall_def e Let_def queued_job_def)
next
  fix parsed
  assume on: "isMaintenanceModeEnabled env"
    and t: "cbody = Some parsed \<and> isFinite (projectId parsed) \<and> isFinite (fileId parsed)
            \<and> \<not> falsy (env ''CURSEFORGE_API_KEY'')"
  from on have e: "ensureMaintenanceModeEnabled env = Inr ()"
    by (simp add: ensureMaintenanceModeEnabled_def)
  show "handleCurseforgeInstall env srv cbody stamp random now
            = (jsonResponse (JObj [(''id'', JStr (generateJobId Curseforge stamp random)),
                                   (''status'', JStr ''pending'')]) 200,
               srv\<lparr>modpackJobs := (modpackJobs srv)(generateJobId Curseforge stamp random \<mapsto>
                      queued_job (generateJobId Curseforge stamp random) Curseforge now)\<rparr>,
               Some (queued_job (generateJobId Curseforge stamp random) Curseforge now))"
    using t by (simp add: handleCurseforgeInstall_def e Let_def queued_job_def)
next
  fix parsed
  assume on: "isMaintenanceModeEnabled env"
    and t: "cbody = Some parsed \<and> isFinite (projectId parsed) \<and> isFinite (fileId parsed)
            \<and> falsy (env ''CURSEFORGE_API_KEY'')"
  from on have e: "ensureMaintenanceModeEnabled env = Inr ()"
    by (simp add: ensureMaintenanceModeEnabled_def)
  show "handleCurseforgeInstall env srv cbody stamp random now
            = (error_reply ''CURSEFORGE_API_KEY is not configured on the container'' 400,
               srv, None)"
    using t by (simp add: handleCurseforgeInstall_def e)
qed

lemma trim_level: "trim ''/data/world/level.dat'' = ''/data/world/level.dat''"
  by (simp add: trim_def is_space_def)

lemma resolve_level:
  "resolveManagedPath [''/data''] (Some ''/data/world/level.dat'') False
     = Inr \<lparr>mp_absolute = ''/data/world/level.dat'', mp_root = ''/data'',
            mp_parent = Some ''/data/world''\<rparr>"
  by (simp add: resolveManagedPath_def trim_level falsy_def startsWith_def posix_normalize_def
      posix_resolve_root_def under_root_def computeParent_def posix_dirname_def)

lemma trim_pack: "trim ''https://modrinth.com/modpack/x'' \<noteq> []"
  by (simp add: trim_def is_space_def)

theorem maintenance_gate_witness:
  "\<not> isMaintenanceModeEnabled [''MAINTENANCE_MODE'' \<mapsto> ''false'']
   \<and> handleWriteFile [''MAINTENANCE_MODE'' \<mapsto> ''false''] [''/data''] None Mapping.empty
        (Some ''/etc/passwd'') [1, 2, 3]
       = (error_reply maintenance_message 400, Mapping.empty)
   \<and> handleDeletePath [''MAINTENANCE_MODE'' \<mapsto> ''false''] [''/data''] None Mapping.empty
        (Some ''/data/world'')
       = (error_reply maintenance_message 400, Mapping.empty)
   \<and> handleModrinthInstall [''MAINTENANCE_MODE'' \<mapsto> ''false''] demo_server
        (Some \<lparr>url = Some ''https://modrinth.com/modpack/x'', packVersion = None\<rparr>)
        ''mhicl2x0'' ''k3j9zq'' 1762056000000
       = (error_reply maintenance_message 400, demo_server, None)
   \<and> isMaintenanceModeEnabled [''MAINTENANCE_MODE'' \<mapsto> ''TRUE'']
   \<and> handleWriteFile [''MAINTENANCE_MODE'' \<mapsto> ''TRUE''] [''/data''] None Mapping.empty
        (Some ''/data/world/level.dat'') [1, 2, 3]
       = (success_reply ''/data/world/level.dat'',
          Mapping.update ''/data/world/level.dat'' [1, 2, 3] Mapping.empty)
   \<and> snd (snd (handleModrinthInstall [''MAINTENANCE_MODE'' \<mapsto> ''TRUE''] demo_server
        (Some \<lparr>url = Some ''https://modrinth.com/modpack/x'', packVersion = None\<rparr>)
        ''mhicl2x0'' ''k3j9zq'' 1762056000000))
       = Some (queued_job (generateJobId Modrinth ''mhicl2x0'' ''k3j9zq'') Modrinth 1762056000000)
   \<and> isFinite (Finite 238222 0) \<and> isFinite (Finite 4712345 0)
   \<and> handleCurseforgeInstall [''MAINTENANCE_MODE'' \<mapsto> ''false''] demo_server
        (Some \<lparr>projectId = Finite 238222 0, fileId = Finite 4712345 0\<rparr>)
        ''mhicl2x0'' ''k3j9zq'' 1762056000000
       = (error_reply maintenance_message 400, demo_server, None)
   \<and> falsy ([''MAINTENANCE_MODE'' \<mapsto> ''TRUE''] ''CURSEFORGE_API_KEY'')
   \<and> handleCurseforgeInstall [''MAINTENANCE_MODE'' \<mapsto> ''TRUE''] demo_server
        (Some \<lparr>projectId = Finite 238222 0, fileId = Finite 4712345 0\<rparr>)
        ''mhicl2x0'' ''k3j9zq'' 1762056000000
       = (error_reply ''CURSEFORGE_API_KEY is not configured on the container'' 400, demo_server, None)
   \<and> isMaintenanceModeEnabled keyed_env \<and> \<not> falsy (keyed_env ''CURSEFORGE_API_KEY'')
   \<and> snd (snd (handleCurseforgeInstall keyed_env demo_server
        (Some \<lparr>projectId = Finite 238222 0, fileId = Finite 4712345 0\<rparr>)
        ''mhicl2x0'' ''k3j9zq'' 1762056000000))
       = Some (queued_job (generateJobId Curseforge ''mhicl2x0'' ''k3j9zq'') Curseforge 1762056000000)"
proof -
  let ?cf = "\<lparr>projectId = Finite 238222 0, fileId = Finite 4712345 0\<rparr>"
  let ?mr = "\<lparr>url = Some ''https://modrinth.com/modpack/x'', packVersion = None\<rparr>"
  let ?off = "[''MAINTENANCE_MODE'' \<mapsto> ''false'']"
  let ?on = "[''MAINTENANCE_MODE'' \<mapsto> ''TRUE'']"
  have fin: "isFinite (projectId ?cf)" "isFinite (fileId ?cf)" by simp_all
  have nokey: "falsy (?on ''CURSEFORGE_API_KEY'')" by (simp add: falsy_def)
  have kon: "isMaintenanceModeEnabled keyed_env"
    by (simp add: keyed_env_def isMaintenanceModeEnabled_def or_else_def falsy_def toLowerCase_def
        lower_char_def upper_letters_def lower_letters_def)
  have key: "\<not> falsy (keyed_env ''CURSEFORGE_API_KEY'')"
    by (simp add: keyed_env_def falsy_def)
  have off: "\<not> isMaintenanceModeEnabled ?off"
    by (simp add: isMaintenanceModeEnabled_def or_else_def falsy_def toLowerCase_def lower_char_def
        upper_letters_def lower_letters_def)
  have on: "isMaintenanceModeEnabled ?on"
    by (simp add: isMaintenanceModeEnabled_def or_else_def falsy_def toLowerCase_def lower_char_def
        upper_letters_def lower_letters_def)
  note g1 = maintenance_gate [where env = ?off and roots = "[''/data'']" and io = None
      and files = Mapping.empty and rawPath = "Some ''/etc/passwd''" and buffer = "[1, 2, 3]",
      THEN conjunct1, THEN mp, OF off]
  note g2 = maintenance_gate [where env = ?off and roots = "[''/data'']" and io = None
      and files = Mapping.empty and rawPath = "Some ''/data/world''"
      and srv = demo_server and mbody = "Some ?mr" and cbody = "Some ?cf"
      and stamp = "''mhicl2x0''" and random = "''k3j9zq''" and now = 1762056000000,
      THEN conjunct1, THEN mp, OF off]
  note h1 = maintenance_gate [where env = ?on and roots = "[''/data'']" and io = None
      and files = Mapping.empty and rawPath = "Some ''/data/world/level.dat''" and buffer = "[1, 2, 3]"
      and srv = demo_server and mbody = "Some ?mr" and cbody = "Some ?cf"
      and stamp = "''mhicl2x0''" and random = "''k3j9zq''" and now = 1762056000000,
      THEN conjunct2, THEN mp, OF on]
  note k1 = maintenance_gate [where env = keyed_env and srv = demo_server and cbody = "Some ?cf"
      and stamp = "''mhicl2x0''" and random = "''k3j9zq''" and now = 1762056000000,
      THEN conjunct2, THEN mp, OF kon]
  have w1: "handleWriteFile ?off [''/data''] None Mapping.empty (Some ''/etc/passwd'') [1, 2, 3]
      = (error_reply maintenance_message 400, Mapping.empty)"
    by (rule g1 [THEN conjunct1])
  have w2: "handleDeletePath ?off [''/data''] None Mapping.empty (Some ''/data/world'')
      = (error_reply maintenance_message 400, Mapping.empty)"
    by (rule g2 [THEN conjunct2, THEN conjunct1])
  note g2' = g2 [THEN conjunct2, THEN conjunct2, THEN conjunct2, THEN conjunct2]
  have m_snd: "snd (handleModrinthInstall ?off demo_server (Some ?mr) ''mhicl2x0'' ''k3j9zq'' 1762056000000)
      = (demo_server, None)"
    by (rule g2' [THEN conjunct1])
  have c_snd: "snd (handleCurseforgeInstall ?off demo_server (Some ?cf) ''mhicl2x0'' ''k3j9zq'' 1762056000000)
      = (demo_server, None)"
    by (rule g2' [THEN conjunct2, THEN conjunct2, THEN conjunct1])
  have m_fst: "fst (handleModrinthInstall ?off demo_server (Some ?mr) ''mhicl2x0'' ''k3j9zq'' 1762056000000)
      = error_reply maintenance_message 400"
    by (rule g2' [THEN conjunct2, THEN conjunct2, THEN conjunct2, THEN conjunct1,
          THEN spec [where x = "\<lparr>url = Some ''https://modrinth.com/modpack/x'', packVersion = None\<rparr>"],
          THEN spec [where x = "''https://modrinth.com/modpack/x''"], THEN mp]) (simp add: trim_pack)
  have c_fst: "fst (handleCurseforgeInstall ?off demo_server (Some ?cf) ''mhicl2x0'' ''k3j9zq'' 1762056000000)
      = error_reply maintenance_message 400"
    by (rule g2' [THEN conjunct2, THEN conjunct2, THEN conjunct2, THEN conjunct2,
          THEN spec [where x = "\<lparr>projectId = Finite 238222 0, fileId = Finite 4712345 0\<rparr>"], THEN mp])
      simp
  have w3: "handleModrinthInstall ?off demo_server (Some ?mr) ''mhicl2x0'' ''k3j9zq'' 1762056000000
      = (error_reply maintenance_message 400, demo_server, None)"
    using m_fst m_snd by (simp add: prod_eq_iff)
  have w4: "handleCurseforgeInstall ?off demo_server (Some ?cf) ''mhicl2x0'' ''k3j9zq'' 1762056000000
      = (error_reply maintenance_message 400, demo_server, None)"
    using c_fst c_snd by (simp add: prod_eq_iff)
  have "handleWriteFile ?on [''/data''] None Mapping.empty (Some ''/data/world/level.dat'') [1, 2, 3]
       = (success_reply (mp_absolute \<lparr>mp_absolute = ''/data/world/level.dat'', mp_root = ''/data'',
            mp_parent = Some ''/data/world''\<rparr>),
          Mapping.update (mp_absolute \<lparr>mp_absolute = ''/data/world/level.dat'', mp_root = ''/data'',
            mp_parent = Some ''/data/world''\<rparr>) [1, 2, 3] Mapping.empty)"
    by (rule h1 [THEN conjunct1,
          THEN spec [where x = "\<lparr>mp_absolute = ''/data/world/level.dat'', mp_root = ''/data'', mp_parent = Some ''/data/world''\<rparr>"],
          THEN mp, THEN conjunct1]) (simp add: resolve_level)
  then have w5: "handleWriteFile ?on [''/data''] None Mapping.empty (Some ''/data/world/level.dat'') [1, 2, 3]
       = (success_reply ''/data/world/level.dat'',
          Mapping.update ''/data/world/level.dat'' [1, 2, 3] Mapping.empty)"
    by simp
  note h1' = h1 [THEN conjunct2, THEN conjunct2]
  have "handleModrinthInstall ?on demo_server (Some ?mr) ''mhicl2x0'' ''k3j9zq'' 1762056000000
            = (jsonResponse (JObj [(''id'', JStr (generateJobId Modrinth ''mhicl2x0'' ''k3j9zq'')),
                                   (''status'', JStr ''pending'')]) 200,
               demo_server\<lparr>modpackJobs := (modpackJobs demo_server)(generateJobId Modrinth ''mhicl2x0'' ''k3j9zq'' \<mapsto>
                      queued_job (generateJobId Modrinth ''mhicl2x0'' ''k3j9zq'') Modrinth 1762056000000)\<rparr>,
               Some (queued_job (generateJobId Modrinth ''mhicl2x0'' ''k3j9zq'') Modrinth 1762056000000))"
    by (rule h1' [THEN conjunct1,
          THEN spec [where x = "\<lparr>url = Some ''https://modrinth.com/modpack/x'', packVersion = None\<rparr>"],
          THEN spec [where x = "''https://modrinth.com/modpack/x''"], THEN mp]) (simp add: trim_pack)
  then have w6: "snd (snd (handleModrinthInstall ?on demo_server (Some ?mr) ''mhicl2x0'' ''k3j9zq''
        1762056000000))
      = Some (queued_job (generateJobId Modrinth ''mhicl2x0'' ''k3j9zq'') Modrinth 1762056000000)"
    by (simp only: snd_conv)
  have w7: "handleCurseforgeInstall ?on demo_server (Some ?cf) ''mhicl2x0'' ''k3j9zq'' 1762056000000
       = (error_reply ''CURSEFORGE_API_KEY is not configured on the container'' 400, demo_server, None)"
    by (rule h1' [THEN conjunct2, THEN conjunct2,
          THEN spec [where x = "\<lparr>projectId = Finite 238222 0, fileId = Finite 4712345 0\<rparr>"], THEN mp]) (simp add: falsy_def)
  have "handleCurseforgeInstall keyed_env demo_server (Some ?cf) ''mhicl2x0'' ''k3j9zq'' 1762056000000
            = (jsonResponse (JObj [(''id'', JStr (generateJobId Curseforge ''mhicl2x0'' ''k3j9zq'')),
                                   (''status'', JStr ''pending'')]) 200,
               demo_server\<lparr>modpackJobs := (modpackJobs demo_server)(generateJobId Curseforge ''mhicl2x0'' ''k3j9zq'' \<mapsto>
                      queued_job (generateJobId Curseforge ''mhicl2x0'' ''k3j9zq'') Curseforge 1762056000000)\<rparr>,
               Some (queued_job (generateJobId Curseforge ''mhicl2x0'' ''k3j9zq'') Curseforge 1762056000000))"
    by (rule k1 [THEN conjunct2, THEN conjunct2, THEN conjunct2, THEN conjunct1,
          THEN spec [where x = "\<lparr>projectId = Finite 238222 0, fileId = Finite 4712345 0\<rparr>"], THEN mp])
      (simp add: key)
  then have w8: "snd (snd (handleCurseforgeInstall keyed_env demo_server (Some ?cf) ''mhicl2x0'' ''k3j9zq''
        1762056000000))
      = Some (queued_job (generateJobId Curseforge ''mhicl2x0'' ''k3j9zq'') Curseforge 1762056000000)"
    by (simp only: snd_conv)
  have f1: "isFinite (Finite 238222 0)" "isFinite (Finite 4712345 0)" by simp_all
  show ?thesis
    apply (intro conjI)
    apply (rule off w1 w2 w3 on w5 w6 f1 w4 nokey w7 kon key w8)+
    done
qed

section \<open>Package installs: the hashes of a file\<close>

text \<open>\<^verbatim>\<open>verifyHash\<close> accepts exactly when the two digests it looks at agree.\<close>

lemma verifyHash_ok: "(verifyHash w buffer hashes label = Inr ()) = hashes_ok w buffer hashes"
  by (auto simp: verifyHash_def hashes_ok_def digest_ok_def split: option.splits)



lemma verifyHash_InrD: "verifyHash w buffer hashes label = Inr u \<Longrightarrow> hashes_ok w buffer hashes"
  using verifyHash_ok [of w buffer hashes label] by simp

lemma verifyHash_InlD: "verifyHash w buffer hashes label = Inl e \<Longrightarrow> \<not> hashes_ok w buffer hashes"
  using verifyHash_ok [of w buffer hashes label] by auto

text \<open>
  \<^verbatim>\<open>bufferToHex\<close> writes hexadecimal digits only, so no digest of any algorithm is
  written \<^verbatim>\<open>zz\<close>.
\<close>

lemma hex_digit_range: "hex_digit n \<in> set ''0123456789abcdef''"
  unfolding hex_digit_def by (rule nth_mem) simp

lemma bufferToHex_range: "set (bufferToHex digest) \<subseteq> set ''0123456789abcdef''"
  unfolding bufferToHex_def using hex_digit_range by (induction digest) auto

lemma bufferToHex_never: "bufferToHex digest \<noteq> ''zz''"
proof
  assume "bufferToHex digest = ''zz''"
  with bufferToHex_range [of digest] show False by simp
qed

subsection \<open>The loop over the files\<close>

text \<open>
  One turn of the loop: an entry marked unsupported is passed over; another one is
  counted when it is verified, and ends the loop with an error when it is not.
\<close>

lemma install_loop_skip:
  "\<not> installed_entry f \<Longrightarrow>
     install_loop w t i (f # rest) job n = install_loop w t (i + 1) rest job n"
  by (simp add: installed_entry_def)

lemma install_loop_entry:
  "installed_entry f \<Longrightarrow>
   install_loop w t i (f # rest) job n =
     (case sanitizeRelativePath (entry_input i f) of
        Inl e \<Rightarrow> ([], Inl e)
      | Inr relPath \<Rightarrow>
          if fe_downloads f = [] \<or> hd (fe_downloads f) = []
          then ([], Inl (''Missing download URL for '' @ relPath))
          else (case downloadFileToPath w (hd (fe_downloads f)) (posix_join ''/data'' relPath) of
                  Inl e \<Rightarrow> ([job\<lparr>m_progress := Some \<lparr>phase = ''Installing mods'',
                                               currentFile = Some relPath,
                                               currentIndex = Some (i + 1),
                                               totalFiles = Some t,
                                               progress_note = None\<rparr>,
                                             m_updatedAt := mw_now w\<rparr>], Inl e)
                | Inr buffer \<Rightarrow>
                    (case verifyHash w buffer (fe_hashes f) relPath of
                       Inl e \<Rightarrow> ([job\<lparr>m_progress := Some \<lparr>phase = ''Installing mods'',
                                               currentFile = Some relPath,
                                               currentIndex = Some (i + 1),
                                               totalFiles = Some t,
                                               progress_note = None\<rparr>,
                                             m_updatedAt := mw_now w\<rparr>], Inl e)
                     | Inr _ \<Rightarrow>
                         (case install_loop w t (i + 1) rest
                                 (job\<lparr>m_progress := Some \<lparr>phase = ''Installing mods'',
                                               currentFile = Some relPath,
                                               currentIndex = Some (i + 1),
                                               totalFiles = Some t,
                                               progress_note = None\<rparr>,
                                             m_updatedAt := mw_now w\<rparr>)
                                 (n + 1) of
                            (snaps, r) \<Rightarrow>
                              (job\<lparr>m_progress := Some \<lparr>phase = ''Installing mods'',
                                               currentFile = Some relPath,
                                               currentIndex = Some (i + 1),
                                               totalFiles = Some t,
                                               progress_note = None\<rparr>,
                                             m_updatedAt := mw_now w\<rparr> # snaps, r)))))"
  unfolding entry_input_def installed_entry_def
  by (simp only: install_loop.simps Let_def if_False)

lemma install_loop_verified:
  assumes "installed_entry f" and "entry_verified w i f"
  shows "\<exists>job1. m_status job1 = m_status job \<and> m_result job1 = m_result job
           \<and> m_error job1 = m_error job
           \<and> install_loop w t i (f # rest) job n
               = (job1 # fst (install_loop w t (i + 1) rest job1 (n + 1)),
                  snd (install_loop w t (i + 1) rest job1 (n + 1)))"
  using assms(2)
  by (auto simp: install_loop_entry [OF assms(1)] entry_verified_def
      simp del: install_loop.simps split: sum.splits prod.splits
      dest: verifyHash_InrD verifyHash_InlD)


lemma install_loop_mismatch:
  assumes "installed_entry f"
    and "sanitizeRelativePath (entry_input i f) = Inr relPath"
    and "fe_downloads f \<noteq> []" and "hd (fe_downloads f) \<noteq> []"
    and "downloadFileToPath w (hd (fe_downloads f)) (posix_join ''/data'' relPath) = Inr buffer"
    and "verifyHash w buffer (fe_hashes f) relPath = Inl e"
  shows "snd (install_loop w t i (f # rest) job n) = Inl e"
  using assms(2-)
  by (simp add: install_loop_entry [OF assms(1)] del: install_loop.simps)

lemma install_loop_unverified_snaps:
  assumes "installed_entry f" and "\<not> entry_verified w i f"
    and "j \<in> set (fst (install_loop w t i (f # rest) job n))"
  shows "m_status j = m_status job \<and> m_result j = m_result job \<and> m_error j = m_error job"
  using assms(2,3)
  by (auto simp: install_loop_entry [OF assms(1)] entry_verified_def
      simp del: install_loop.simps split: sum.splits prod.splits if_splits
      dest: verifyHash_InrD verifyHash_InlD)

text \<open>The loop changes the progress of the job only.\<close>

lemma install_loop_snaps:
  "j \<in> set (fst (install_loop w t i files job n)) \<Longrightarrow>
     m_status j = m_status job \<and> m_result j = m_result job \<and> m_error j = m_error job"
proof (induction files arbitrary: i job n)
  case Nil
  then show ?case by simp
next
  case (Cons f rest)
  show ?case
  proof (cases "installed_entry f")
    case False
    from Cons.prems have "j \<in> set (fst (install_loop w t (i + 1) rest job n))"
      by (simp only: install_loop_skip [OF False])
    then show ?thesis by (rule Cons.IH)
  next
    case inst: True
    show ?thesis
    proof (cases "entry_verified w i f")
      case False
      from inst False Cons.prems show ?thesis by (rule install_loop_unverified_snaps)
    next
      case True
      from install_loop_verified [OF inst True, of job t rest n]
      obtain job1 where s: "m_status job1 = m_status job" "m_result job1 = m_result job"
          "m_error job1 = m_error job"
        and eq: "install_loop w t i (f # rest) job n
               = (job1 # fst (install_loop w t (i + 1) rest job1 (n + 1)),
                  snd (install_loop w t (i + 1) rest job1 (n + 1)))"
        by blast
      from Cons.prems have "j = job1 \<or> j \<in> set (fst (install_loop w t (i + 1) rest job1 (n + 1)))"
        by (simp only: eq fst_conv set_simps insert_iff)
      then show ?thesis
      proof
        assume "j = job1"
        then show ?thesis using s by simp
      next
        assume "j \<in> set (fst (install_loop w t (i + 1) rest job1 (n + 1)))"
        from Cons.IH [OF this] show ?thesis using s by simp
      qed
    qed
  qed
qed


lemma install_loop_all:
  "\<forall>k<length files. installed_entry (files ! k) \<longrightarrow> entry_verified w (i + k) (files ! k) \<Longrightarrow>
     snd (install_loop w t i files job n) = Inr (n + length (filter installed_entry files))"
proof (induction files arbitrary: i job n)
  case Nil
  then show ?case by simp
next
  case (Cons f rest)
  have v: "\<forall>k<length rest. installed_entry (rest ! k) \<longrightarrow> entry_verified w (i + 1 + k) (rest ! k)"
  proof (intro allI impI)
    fix k assume "k < length rest" and "installed_entry (rest ! k)"
    then show "entry_verified w (i + 1 + k) (rest ! k)"
      using Cons.prems [rule_format, of "Suc k"] by simp
  qed
  show ?case
  proof (cases "installed_entry f")
    case False
    show ?thesis using Cons.IH [OF v, of job n] False
      by (simp only: install_loop_skip [OF False]) simp
  next
    case inst: True
    from Cons.prems [rule_format, of 0] inst have "entry_verified w i f" by simp
    from install_loop_verified [OF inst this, of job t rest n]
    obtain job1 where eq: "install_loop w t i (f # rest) job n
               = (job1 # fst (install_loop w t (i + 1) rest job1 (n + 1)),
                  snd (install_loop w t (i + 1) rest job1 (n + 1)))"
      by blast
    show ?thesis using Cons.IH [OF v, of job1 "n + 1"] inst
      by (simp only: eq snd_conv) simp
  qed
qed

lemma install_loop_first_mismatch:
  assumes "installed_entry f"
    and "fe_downloads f \<noteq> []" and "hd (fe_downloads f) \<noteq> []"
  shows "\<forall>k<length pre. installed_entry (pre ! k) \<longrightarrow> entry_verified w (i + k) (pre ! k) \<Longrightarrow>
     sanitizeRelativePath (entry_input (i + length pre) f) = Inr relPath \<Longrightarrow>
     downloadFileToPath w (hd (fe_downloads f)) (posix_join ''/data'' relPath) = Inr buffer \<Longrightarrow>
     verifyHash w buffer (fe_hashes f) relPath = Inl e \<Longrightarrow>
     snd (install_loop w t i (pre @ f # post) job n) = Inl e"
proof (induction pre arbitrary: i job n)
  case Nil
  from Nil(2) have s: "sanitizeRelativePath (entry_input i f) = Inr relPath" by simp
  show ?case
    using install_loop_mismatch [OF assms(1) s assms(2,3) Nil(3,4)] by simp
next
  case (Cons g rest)
  have v: "\<forall>k<length rest. installed_entry (rest ! k) \<longrightarrow> entry_verified w (i + 1 + k) (rest ! k)"
  proof (intro allI impI)
    fix k assume "k < length rest" and "installed_entry (rest ! k)"
    then show "entry_verified w (i + 1 + k) (rest ! k)"
      using Cons.prems(1) [rule_format, of "Suc k"] by simp
  qed
  from Cons.prems(2) have s: "sanitizeRelativePath (entry_input (i + 1 + length rest) f) = Inr relPath"
    by simp
  note ih = Cons.IH [OF v s Cons.prems(3,4)]
  show ?case
  proof (cases "installed_entry g")
    case False
    have "install_loop w t i ((g # rest) @ f # post) job n
            = install_loop w t (i + 1) (rest @ f # post) job n"
      using install_loop_skip [OF False, of w t i "rest @ f # post" job n] by simp
    then show ?thesis using ih [of job n] by simp
  next
    case inst: True
    from Cons.prems(1) [rule_format, of 0] inst have "entry_verified w i g" by simp
    from install_loop_verified [OF inst this, of job t "rest @ f # post" n]
    obtain job1 where eq: "install_loop w t i (g # rest @ f # post) job n
               = (job1 # fst (install_loop w t (i + 1) (rest @ f # post) job1 (n + 1)),
                  snd (install_loop w t (i + 1) (rest @ f # post) job1 (n + 1)))"
      by blast
    show ?thesis using ih [of job1 "n + 1"] by (simp only: append_Cons eq snd_conv)
  qed
qed

subsection \<open>The job around the loop\<close>

text \<open>
  The processing either fails in a stage before the loop, or gets to the loop and is
  settled by it.
\<close>

lemma process_shape:
  "(\<not> install_reached w job
      \<and> (\<exists>e pre. processModrinthJob w job = (pre, Inl e) \<and> list_all (early_job job) pre))
   \<or> (install_reached w job
      \<and> (\<exists>manifest j1 j2 j3 j4 j5 res prog.
           mw_manifest w = Inr manifest
         \<and> list_all (early_job job) [j1, j2, j3, j4]
         \<and> m_status j5 = MInstalling \<and> m_result j5 = m_result job \<and> m_error j5 = m_error job
         \<and> processModrinthJob w job =
             (case install_loop w (length (mf_files manifest)) 0 (mf_files manifest) j5 0 of
                (snaps, Inl e) \<Rightarrow> ([j1, j2, j3, j4, j5] @ snaps, Inl e)
              | (snaps, Inr n) \<Rightarrow>
                  ([j1, j2, j3, j4, j5] @ snaps @
                   [(last (j5 # snaps))\<lparr>m_status := MCompleted, m_progress := Some prog,
                       m_result := Some (res\<lparr>filesInstalled := n\<rparr>)\<rparr>], Inr ()))))"
proof (cases "ensureDirectory w (''/tmp/modpack-'' @ m_id job)")
  case (Inl e)
  have "\<not> install_reached w job"
    unfolding install_reached_def Let_def by (simp only: Inl sum.disc simp_thms)
  moreover have "\<exists>e pre. processModrinthJob w job = (pre, Inl e) \<and> list_all (early_job job) pre"
    apply (simp only: processModrinthJob_def Let_def Inl sum.case)
    apply (simp add: early_job_def)
    done
  ultimately show ?thesis by blast
next
  case s1: (Inr u1)
  show ?thesis
  proof (cases "mw_resolve w")
    case (Inl e)
    have "\<not> install_reached w job"
      unfolding install_reached_def Let_def by (simp only: Inl sum.disc simp_thms)
    moreover have "\<exists>e pre. processModrinthJob w job = (pre, Inl e) \<and> list_all (early_job job) pre"
      apply (simp only: processModrinthJob_def Let_def s1 Inl sum.case)
      apply (simp add: early_job_def)
      done
    ultimately show ?thesis by blast
  next
    case s2: (Inr resolved)
    show ?thesis
    proof (cases "downloadFileToPath w (downloadUrl resolved)
                    (posix_join (''/tmp/modpack-'' @ m_id job) ''pack.mrpack'')")
      case (Inl e)
      have "\<not> install_reached w job"
        unfolding install_reached_def Let_def by (simp only: s2 sum.sel Inl sum.disc simp_thms)
      moreover have "\<exists>e pre. processModrinthJob w job = (pre, Inl e) \<and> list_all (early_job job) pre"
        apply (simp only: processModrinthJob_def Let_def s1 s2 Inl sum.case)
        apply (simp add: early_job_def)
        done
      ultimately show ?thesis by blast
    next
      case s3: (Inr archiveBuffer)
      show ?thesis
      proof (cases "extractArchive w")
        case (Inl e)
        have "\<not> install_reached w job"
          unfolding install_reached_def Let_def by (simp only: Inl sum.disc simp_thms)
        moreover have "\<exists>e pre. processModrinthJob w job = (pre, Inl e) \<and> list_all (early_job job) pre"
          apply (simp only: processModrinthJob_def Let_def s1 s2 s3 Inl sum.case)
          apply (simp add: early_job_def)
          done
        ultimately show ?thesis by blast
      next
        case s4: (Inr u4)
        show ?thesis
        proof (cases "mw_manifest w")
          case (Inl e)
          have "\<not> install_reached w job"
            unfolding install_reached_def Let_def by (simp only: Inl sum.disc simp_thms)
          moreover have "\<exists>e pre. processModrinthJob w job = (pre, Inl e) \<and> list_all (early_job job) pre"
            apply (simp only: processModrinthJob_def Let_def s1 s2 s3 s4 Inl sum.case)
            apply (simp add: early_job_def)
            done
          ultimately show ?thesis by blast
        next
          case s5: (Inr manifest)
          show ?thesis
          proof (cases "resetModsDirectory w")
            case (Inl e)
            have "\<not> install_reached w job"
              unfolding install_reached_def Let_def by (simp only: Inl sum.disc simp_thms)
            moreover have "\<exists>e pre. processModrinthJob w job = (pre, Inl e) \<and> list_all (early_job job) pre"
              apply (simp only: processModrinthJob_def Let_def s1 s2 s3 s4 s5 Inl sum.case)
              apply (simp add: early_job_def)
              done
            ultimately show ?thesis by blast
          next
            case s6: (Inr u6)
            show ?thesis
            proof (cases "applyOverrides w")
              case (Inl e)
              have "\<not> install_reached w job"
                unfolding install_reached_def Let_def by (simp only: Inl sum.disc simp_thms)
              moreover have "\<exists>e pre. processModrinthJob w job = (pre, Inl e) \<and> list_all (early_job job) pre"
                apply (simp only: processModrinthJob_def Let_def s1 s2 s3 s4 s5 s6 Inl sum.case)
                apply (simp add: early_job_def)
                done
              ultimately show ?thesis by blast
            next
              case s7: (Inr applied)
              have reached: "install_reached w job"
                unfolding install_reached_def Let_def
                by (simp only: s1 s2 sum.sel s3 s4 s5 s6 s7 sum.disc simp_thms)
              obtain snaps r where
                L: "install_loop w (length (mf_files manifest)) 0 (mf_files manifest)
                      (job\<lparr>m_status := MDownloading,
                           m_progress := Some (progress_of ''Resolving Modrinth metadata''),
                           m_updatedAt := mw_now w,
                           m_progress := Some ((progress_of ''Downloading pack archive'')
                               \<lparr>progress_note := Some (res_packName resolved)\<rparr>),
                           m_progress := Some (progress_of ''Extracting pack archive''),
                           m_progress := Some (progress_of ''Preparing filesystem for install''),
                           m_status := MInstalling\<rparr>) 0 = (snaps, r)"
                by (cases "install_loop w (length (mf_files manifest)) 0 (mf_files manifest)
                      (job\<lparr>m_status := MDownloading,
                           m_progress := Some (progress_of ''Resolving Modrinth metadata''),
                           m_updatedAt := mw_now w,
                           m_progress := Some ((progress_of ''Downloading pack archive'')
                               \<lparr>progress_note := Some (res_packName resolved)\<rparr>),
                           m_progress := Some (progress_of ''Extracting pack archive''),
                           m_progress := Some (progress_of ''Preparing filesystem for install''),
                           m_status := MInstalling\<rparr>) 0") blast
              have "\<exists>j1 j2 j3 j4 j5 res prog.
                   list_all (early_job job) [j1, j2, j3, j4]
                 \<and> m_status j5 = MInstalling \<and> m_result j5 = m_result job \<and> m_error j5 = m_error job
                 \<and> processModrinthJob w job =
                     (case install_loop w (length (mf_files manifest)) 0 (mf_files manifest) j5 0 of
                        (snaps, Inl e) \<Rightarrow> ([j1, j2, j3, j4, j5] @ snaps, Inl e)
                      | (snaps, Inr n) \<Rightarrow>
                          ([j1, j2, j3, j4, j5] @ snaps @
                           [(last (j5 # snaps))\<lparr>m_status := MCompleted, m_progress := Some prog,
                               m_result := Some (res\<lparr>filesInstalled := n\<rparr>)\<rparr>], Inr ()))"
                apply (simp only: processModrinthJob_def Let_def s1 s2 s3 s4 s5 s6 s7 sum.case
                    installModrinthFiles_def)
                apply (rule exI [where x = "job\<lparr>m_status := MDownloading,
                           m_progress := Some (progress_of ''Resolving Modrinth metadata''),
                           m_updatedAt := mw_now w\<rparr>"])
                apply (rule exI [where x = "job\<lparr>m_status := MDownloading,
                           m_progress := Some (progress_of ''Resolving Modrinth metadata''),
                           m_updatedAt := mw_now w,
                           m_progress := Some ((progress_of ''Downloading pack archive'')
                               \<lparr>progress_note := Some (res_packName resolved)\<rparr>)\<rparr>"])
                apply (rule exI [where x = "job\<lparr>m_status := MDownloading,
                           m_progress := Some (progress_of ''Resolving Modrinth metadata''),
                           m_updatedAt := mw_now w,
                           m_progress := Some ((progress_of ''Downloading pack archive'')
                               \<lparr>progress_note := Some (res_packName resolved)\<rparr>),
                           m_progress := Some (progress_of ''Extracting pack archive'')\<rparr>"])
                apply (rule exI [where x = "job\<lparr>m_status := MDownloading,
                           m_progress := Some (progress_of ''Resolving Modrinth metadata''),
                           m_updatedAt := mw_now w,
                           m_progress := Some ((progress_of ''Downloading pack archive'')
                               \<lparr>progress_note := Some (res_packName resolved)\<rparr>),
                           m_progress := Some (progress_of ''Extracting pack archive''),
                           m_progress := Some (progress_of ''Preparing filesystem for install'')\<rparr>"])
                apply (rule exI [where x = "job\<lparr>m_status := MDownloading,
                           m_progress := Some (progress_of ''Resolving Modrinth metadata''),
                           m_updatedAt := mw_now w,
                           m_progress := Some ((progress_of ''Downloading pack archive'')
                               \<lparr>progress_note := Some (res_packName resolved)\<rparr>),
                           m_progress := Some (progress_of ''Extracting pack archive''),
                           m_progress := Some (progress_of ''Preparing filesystem for install''),
                           m_status := MInstalling\<rparr>"])
                apply (rule exI [where x = "\<lparr>r_loader = fst (extractLoaderInfo (mf_dependencies manifest)),
                     minecraftVersion = snd (extractLoaderInfo (mf_dependencies manifest)),
                     profileSuggestion = recommendProfile (fst (extractLoaderInfo (mf_dependencies manifest)))
                        (snd (extractLoaderInfo (mf_dependencies manifest))),
                     packName = or_else (mf_name manifest) (Some (res_packName resolved)),
                     filesInstalled = 0,
                     overridesApplied = applied,
                     metadata = [(''modrinthProjectId'', MetaString (res_projectId resolved)),
                                 (''modrinthVersionId'', MetaString (res_versionId resolved))]\<rparr>"])
                apply (rule exI [where x = "(progress_of ''completed'')
                     \<lparr>progress_note := Some ''Modpack installation finished''\<rparr>"])
                apply (simp only: L prod.case)
                apply (cases r)
                 apply (simp add: early_job_def)
                apply (simp add: early_job_def split: prod.splits)
                done
              with reached s5 show ?thesis by blast
            qed
          qed
        qed
      qed
    qed
  qed
qed

lemma early_last:
  assumes "list_all (early_job job) pre"
  shows "m_result (last (job # pre)) = m_result job \<and> m_error (last (job # pre)) = m_error job"
proof (cases "pre = []")
  case True
  then show ?thesis by simp
next
  case False
  then have "last (job # pre) \<in> set pre" by simp
  with assms show ?thesis by (simp add: list_all_iff early_job_def)
qed

lemma loop_last:
  assumes "install_loop w t i files j5 n = (snaps, r)"
  shows "m_result (last (j5 # snaps)) = m_result j5 \<and> m_error (last (j5 # snaps)) = m_error j5
         \<and> m_status (last (j5 # snaps)) = m_status j5"
proof (cases "snaps = []")
  case True
  then show ?thesis by simp
next
  case False
  then have "last (j5 # snaps) \<in> set (fst (install_loop w t i files j5 n))"
    using assms by simp
  from install_loop_snaps [OF this] show ?thesis by simp
qed

lemma run_final:
  "(\<not> install_reached w job
      \<and> m_status (last (job # run_modrinth_job w job)) = MFailed
      \<and> m_result (last (job # run_modrinth_job w job)) = m_result job
      \<and> m_error (last (job # run_modrinth_job w job)) \<noteq> None)
   \<or> (install_reached w job
      \<and> (\<exists>manifest j5. mw_manifest w = Inr manifest
           \<and> (case snd (install_loop w (length (mf_files manifest)) 0 (mf_files manifest) j5 0) of
                 Inl e \<Rightarrow> m_status (last (job # run_modrinth_job w job)) = MFailed
                        \<and> m_result (last (job # run_modrinth_job w job)) = m_result job
                        \<and> m_error (last (job # run_modrinth_job w job)) = Some e
               | Inr n \<Rightarrow> m_status (last (job # run_modrinth_job w job)) = MCompleted
                        \<and> (\<exists>r. m_result (last (job # run_modrinth_job w job)) = Some r
                               \<and> filesInstalled r = n))))"
  using process_shape [of w job]
proof (elim disjE conjE exE)
  fix e pre
  assume n: "\<not> install_reached w job" and p: "processModrinthJob w job = (pre, Inl e)"
    and l: "list_all (early_job job) pre"
  from p have "last (job # run_modrinth_job w job)
      = (last (job # pre))\<lparr>m_status := MFailed, m_error := Some e,
                      m_progress := Some ((progress_of ''failed'')\<lparr>progress_note := Some e\<rparr>),
                      m_updatedAt := mw_now w\<rparr>"
    by (simp add: run_modrinth_job_def)
  with early_last [OF l] n show ?thesis by simp
next
  fix manifest :: ModrinthManifest and j1 j2 j3 j4 j5 res prog
  assume r: "install_reached w job" and m: "mw_manifest w = Inr manifest"
    and l: "list_all (early_job job) [j1, j2, j3, j4]"
    and j5: "m_status j5 = MInstalling" "m_result j5 = m_result job" "m_error j5 = m_error job"
    and p: "processModrinthJob w job =
             (case install_loop w (length (mf_files manifest)) 0 (mf_files manifest) j5 0 of
                (snaps, Inl e) \<Rightarrow> ([j1, j2, j3, j4, j5] @ snaps, Inl e)
              | (snaps, Inr n) \<Rightarrow>
                  ([j1, j2, j3, j4, j5] @ snaps @
                   [(last (j5 # snaps))\<lparr>m_status := MCompleted, m_progress := Some prog,
                       m_result := Some (res\<lparr>filesInstalled := n\<rparr>)\<rparr>], Inr ()))"
  obtain snaps rs where L: "install_loop w (length (mf_files manifest)) 0 (mf_files manifest) j5 0
      = (snaps, rs)" by (cases "install_loop w (length (mf_files manifest)) 0 (mf_files manifest) j5 0")
  note ll = loop_last [OF L]
  have "case snd (install_loop w (length (mf_files manifest)) 0 (mf_files manifest) j5 0) of
                 Inl e \<Rightarrow> m_status (last (job # run_modrinth_job w job)) = MFailed
                        \<and> m_result (last (job # run_modrinth_job w job)) = m_result job
                        \<and> m_error (last (job # run_modrinth_job w job)) = Some e
               | Inr n \<Rightarrow> m_status (last (job # run_modrinth_job w job)) = MCompleted
                        \<and> (\<exists>r. m_result (last (job # run_modrinth_job w job)) = Some r
                               \<and> filesInstalled r = n)"
  proof (cases rs)
    case (Inl e)
    from p have "processModrinthJob w job = ([j1, j2, j3, j4, j5] @ snaps, Inl e)"
      by (simp only: L Inl prod.case sum.case)
    then have "last (job # run_modrinth_job w job)
      = (last (j5 # snaps))\<lparr>m_status := MFailed, m_error := Some e,
                      m_progress := Some ((progress_of ''failed'')\<lparr>progress_note := Some e\<rparr>),
                      m_updatedAt := mw_now w\<rparr>"
      by (simp add: run_modrinth_job_def)
    then show ?thesis using ll j5 by (simp add: L Inl)
  next
    case (Inr n)
    from p have "processModrinthJob w job = ([j1, j2, j3, j4, j5] @ snaps @
                   [(last (j5 # snaps))\<lparr>m_status := MCompleted, m_progress := Some prog,
                       m_result := Some (res\<lparr>filesInstalled := n\<rparr>)\<rparr>], Inr ())"
      by (simp only: L Inr prod.case sum.case)
    then have "last (job # run_modrinth_job w job)
      = (last (j5 # snaps))\<lparr>m_status := MCompleted, m_progress := Some prog,
                       m_result := Some (res\<lparr>filesInstalled := n\<rparr>)\<rparr>"
      by (simp add: run_modrinth_job_def)
    then show ?thesis by (simp add: L Inr)
  qed
  with r m show ?thesis by blast
qed

lemma run_completes:
  assumes r: "install_reached w job" and m: "mw_manifest w = Inr manifest"
    and v: "\<forall>k<length (mf_files manifest). installed_entry (mf_files manifest ! k)
              \<longrightarrow> entry_verified w k (mf_files manifest ! k)"
  shows "m_status (last (job # run_modrinth_job w job)) = MCompleted
         \<and> (\<exists>r. m_result (last (job # run_modrinth_job w job)) = Some r
                \<and> filesInstalled r = length (filter installed_entry (mf_files manifest)))"
proof -
  from run_final [of w job] r obtain manifest' j5 where m': "mw_manifest w = Inr manifest'"
    and c: "case snd (install_loop w (length (mf_files manifest')) 0 (mf_files manifest') j5 0) of
                 Inl e \<Rightarrow> m_status (last (job # run_modrinth_job w job)) = MFailed
                        \<and> m_result (last (job # run_modrinth_job w job)) = m_result job
                        \<and> m_error (last (job # run_modrinth_job w job)) = Some e
               | Inr n \<Rightarrow> m_status (last (job # run_modrinth_job w job)) = MCompleted
                        \<and> (\<exists>r. m_result (last (job # run_modrinth_job w job)) = Some r
                               \<and> filesInstalled r = n)"
    by blast
  from m m' have e: "manifest' = manifest" by simp
  from v have "snd (install_loop w (length (mf_files manifest)) 0 (mf_files manifest) j5 0)
      = Inr (0 + length (filter installed_entry (mf_files manifest)))"
    by (intro install_loop_all) simp
  with c show ?thesis unfolding e by simp
qed

subsection \<open>The two worlds of the examples\<close>


lemma demo_download:
  "downloadFileToPath demo_modrinth_world link destination
     = Inr [1, 2, 3, 4, 5, 6, 7, 8, 9, 10, 11, 12]"
  by (simp add: downloadFileToPath_def demo_modrinth_world_def response_ok_def ensureDirectory_def)

lemma tampered_download:
  "downloadFileToPath tampered_world link destination
     = Inr [1, 2, 3, 4, 5, 6, 7, 8, 9, 10, 11, 12]"
  by (simp add: downloadFileToPath_def tampered_world_def demo_modrinth_world_def response_ok_def
      ensureDirectory_def)

lemma demo_reached: "install_reached demo_modrinth_world job"
  unfolding install_reached_def Let_def demo_download
  by (simp add: demo_modrinth_world_def ensureDirectory_def extractArchive_def
      resetModsDirectory_def applyOverrides_def)

lemma tampered_reached: "install_reached tampered_world job"
  unfolding install_reached_def Let_def tampered_download
  by (simp add: tampered_world_def demo_modrinth_world_def ensureDirectory_def extractArchive_def
      resetModsDirectory_def applyOverrides_def)

lemma demo_paths:
  "sanitizeRelativePath (entry_input k demo_entry) = Inr ''mods/a.jar''"
  "sanitizeRelativePath (entry_input k sound_entry) = Inr ''mods/b.jar''"
  "sanitizeRelativePath (entry_input k tampered_entry) = Inr ''mods/c.jar''"
  by (simp_all add: entry_input_def demo_entry_def sound_entry_def tampered_entry_def falsy_def
      replace_backslashes_def sanitizeRelativePath_def posix_normalize_def startsWith_def)

lemma demo_hex: "bufferToHex (demo_digest [1, 2, 3, 4, 5, 6, 7, 8, 9, 10, 11, 12]) = ''0c''"
  by (simp add: bufferToHex_def demo_digest_def hex_digit_def)

lemma demo_lower: "toLowerCase ''0C'' = ''0c''" "toLowerCase ''00'' = ''00''"
  by (simp_all add: toLowerCase_def lower_char_def upper_letters_def lower_letters_def)

lemma demo_entry_verified: "entry_verified demo_modrinth_world k demo_entry"
  unfolding entry_verified_def demo_paths demo_download
  by (simp add: demo_entry_def hashes_ok_def digest_ok_def falsy_def)

lemma sound_entry_verified: "entry_verified tampered_world k sound_entry"
  unfolding entry_verified_def demo_paths tampered_download
  by (simp add: sound_entry_def hashes_ok_def digest_ok_def falsy_def tampered_world_def
      demo_modrinth_world_def demo_hex demo_lower)



lemma tampered_verifyHash:
  "verifyHash tampered_world [1, 2, 3, 4, 5, 6, 7, 8, 9, 10, 11, 12] (fe_hashes tampered_entry)
     ''mods/c.jar'' = Inl ''SHA-1 mismatch for mods/c.jar''"
  by (simp add: verifyHash_def tampered_entry_def falsy_def tampered_world_def
      demo_modrinth_world_def demo_hex demo_lower)


lemma demo_files: "mw_manifest demo_modrinth_world = Inr demo_manifest"
  "mf_files demo_manifest = [demo_entry]"
  by (simp_all add: demo_modrinth_world_def demo_manifest_def)

lemma tampered_files:
  "mw_manifest tampered_world = Inr (demo_manifest\<lparr>mf_files := [sound_entry, tampered_entry]\<rparr>)"
  by (simp add: tampered_world_def)

lemma demo_installed: "installed_entry demo_entry" "installed_entry sound_entry"
  "installed_entry tampered_entry"
  by (simp_all add: installed_entry_def demo_entry_def sound_entry_def tampered_entry_def)


subsection \<open>The claim\<close>




section \<open>The two state machines\<close>

subsection \<open>A backup job\<close>

lemma backup_step_active: "backup_step a b \<Longrightarrow> \<not> backup_terminal a"
  by (cases a; cases b) simp_all

lemma executeBackupJob_statuses:
  "map b_status (executeBackupJob bw job)
     = [BRunning, case backup_work bw (job\<lparr>b_status := BRunning\<rparr>) of
                    Inl msg \<Rightarrow> BFailed | Inr res \<Rightarrow> BSuccess]"
  by (simp add: executeBackupJob_def Let_def split: sum.splits)

lemma executeBackupJob_last:
  "last (executeBackupJob bw job)
     = (case backup_work bw (job\<lparr>b_status := BRunning\<rparr>) of
          Inr res \<Rightarrow> job\<lparr>b_status := BSuccess, b_completedAt := Some (bw_completed bw),
                          b_result := Some res\<rparr>
        | Inl msg \<Rightarrow> job\<lparr>b_status := BFailed, b_completedAt := Some (bw_completed bw),
                          b_error := Some (''Backup failed: '' @ msg)\<rparr>)"
  by (simp add: executeBackupJob_def Let_def split: sum.splits)

lemma backup_moves:
  assumes "b_status job = BPending"
  shows "successively backup_step (map b_status (job # executeBackupJob bw job))"
  using assms by (simp add: executeBackupJob_statuses successively_Cons split: sum.splits)

lemma backup_frame:
  "backupJobs srv i = Some existing \<Longrightarrow>
     backupJobs (fst (snd (handleBackgroundBackupStart bw srv now pathname ident))) i = Some existing"
  by (auto simp: handleBackgroundBackupStart_def Let_def split: option.splits)

subsection \<open>A package-install job\<close>

lemma install_move_active: "install_move a b \<Longrightarrow> \<not> install_terminal a"
  by (cases a; cases b) (simp_all add: install_move_def)

lemma successively_replicate_snoc:
  "P x x \<Longrightarrow> P x y \<Longrightarrow> successively P (replicate n x @ [y])"
proof (induction n)
  case 0
  then show ?case by simp
next
  case (Suc n)
  then show ?case by (cases n) (simp_all add: successively_Cons)
qed

lemma moves_early: "successively install_move (MPending # replicate k MDownloading @ [MFailed])"
  using successively_replicate_snoc [of install_move MDownloading MFailed k]
  by (cases k) (simp_all add: successively_Cons install_move_def)

lemma moves_late:
  assumes "t = MFailed \<or> t = MCompleted"
  shows "successively install_move
       ([MPending, MDownloading, MDownloading, MDownloading, MDownloading, MInstalling]
          @ replicate k MInstalling @ [t])"
proof -
  from assms have "install_move MInstalling t" by (auto simp: install_move_def)
  then have "successively install_move (replicate k MInstalling @ [t])"
    by (intro successively_replicate_snoc) (simp_all add: install_move_def)
  moreover have "install_move MInstalling (hd (replicate k MInstalling @ [t]))"
    using \<open>install_move MInstalling t\<close> by (cases k) (simp_all add: install_move_def)
  ultimately show ?thesis by (simp add: successively_Cons install_move_def)
qed

lemma early_statuses:
  "list_all (early_job job) pre \<Longrightarrow> map m_status pre = replicate (length pre) MDownloading"
  by (induction pre) (simp_all add: early_job_def)

lemma loop_statuses:
  assumes "install_loop w t i files j5 n = (snaps, r)"
  shows "map m_status snaps = replicate (length snaps) (m_status j5)"
proof -
  have "\<forall>j\<in>set snaps. m_status j = m_status j5"
    using install_loop_snaps [of _ w t i files j5 n] assms by simp
  then show ?thesis by (induction snaps) simp_all
qed

lemma run_statuses:
  assumes "m_status job = MPending"
  shows "successively install_move (map m_status (job # run_modrinth_job w job))
         \<and> install_terminal (m_status (last (job # run_modrinth_job w job)))"
  using process_shape [of w job]
proof (elim disjE conjE exE)
  fix e pre
  assume p: "processModrinthJob w job = (pre, Inl e)"
    and l: "list_all (early_job job) pre"
  from p have "map m_status (job # run_modrinth_job w job)
      = MPending # replicate (length pre) MDownloading @ [MFailed]"
    by (simp add: run_modrinth_job_def assms early_statuses [OF l])
  moreover from p have "m_status (last (job # run_modrinth_job w job)) = MFailed"
    by (simp add: run_modrinth_job_def)
  ultimately show ?thesis by (simp only: moves_early install_terminal.simps simp_thms)
next
  fix manifest :: ModrinthManifest and j1 j2 j3 j4 j5 res prog
  assume l: "list_all (early_job job) [j1, j2, j3, j4]"
    and j5: "m_status j5 = MInstalling"
    and p: "processModrinthJob w job =
             (case install_loop w (length (mf_files manifest)) 0 (mf_files manifest) j5 0 of
                (snaps, Inl e) \<Rightarrow> ([j1, j2, j3, j4, j5] @ snaps, Inl e)
              | (snaps, Inr n) \<Rightarrow>
                  ([j1, j2, j3, j4, j5] @ snaps @
                   [(last (j5 # snaps))\<lparr>m_status := MCompleted, m_progress := Some prog,
                       m_result := Some (res\<lparr>filesInstalled := n\<rparr>)\<rparr>], Inr ()))"
  obtain snaps rs where L: "install_loop w (length (mf_files manifest)) 0 (mf_files manifest) j5 0
      = (snaps, rs)" by (cases "install_loop w (length (mf_files manifest)) 0 (mf_files manifest) j5 0")
  note ls = loop_statuses [OF L, unfolded j5]
  from l have e: "m_status j1 = MDownloading" "m_status j2 = MDownloading"
      "m_status j3 = MDownloading" "m_status j4 = MDownloading"
    by (simp_all add: early_job_def)
  show ?thesis
  proof (cases rs)
    case (Inl e')
    from p have q: "processModrinthJob w job = ([j1, j2, j3, j4, j5] @ snaps, Inl e')"
      by (simp only: L Inl prod.case sum.case)
    then have "map m_status (job # run_modrinth_job w job)
      = [MPending, MDownloading, MDownloading, MDownloading, MDownloading, MInstalling]
          @ replicate (length snaps) MInstalling @ [MFailed]"
      by (simp add: run_modrinth_job_def assms e j5 ls)
    moreover from q have "m_status (last (job # run_modrinth_job w job)) = MFailed"
      by (simp add: run_modrinth_job_def)
    ultimately show ?thesis using moves_late [of MFailed "length snaps"]
      by (simp only: install_terminal.simps simp_thms)
  next
    case (Inr n)
    from p have q: "processModrinthJob w job = ([j1, j2, j3, j4, j5] @ snaps @
                   [(last (j5 # snaps))\<lparr>m_status := MCompleted, m_progress := Some prog,
                       m_result := Some (res\<lparr>filesInstalled := n\<rparr>)\<rparr>], Inr ())"
      by (simp only: L Inr prod.case sum.case)
    then have "map m_status (job # run_modrinth_job w job)
      = [MPending, MDownloading, MDownloading, MDownloading, MDownloading, MInstalling]
          @ replicate (length snaps) MInstalling @ [MCompleted]"
      by (simp add: run_modrinth_job_def assms e j5 ls)
    moreover from q have "m_status (last (job # run_modrinth_job w job)) = MCompleted"
      by (simp add: run_modrinth_job_def)
    ultimately show ?thesis using moves_late [of MCompleted "length snaps"]
      by (simp only: install_terminal.simps simp_thms)
  qed
qed

lemma run_rejected:
  assumes "snd (processModrinthJob w job) = Inl e"
  shows "m_status (last (job # run_modrinth_job w job)) = MFailed
         \<and> m_error (last (job # run_modrinth_job w job)) = Some e"
  using assms by (cases "processModrinthJob w job") (simp add: run_modrinth_job_def)

lemma process_result:
  assumes "install_reached w job" and "mw_manifest w = Inr manifest"
  shows "\<exists>j5. snd (processModrinthJob w job)
           = (case snd (install_loop w (length (mf_files manifest)) 0 (mf_files manifest) j5 0) of
                Inl e \<Rightarrow> Inl e | Inr n \<Rightarrow> Inr ())"
proof -
  from process_shape [of w job] assms(1)
  obtain manifest' j1 j2 j3 j4 j5 res prog where m': "mw_manifest w = Inr manifest'"
    and p: "processModrinthJob w job =
             (case install_loop w (length (mf_files manifest')) 0 (mf_files manifest') j5 0 of
                (snaps, Inl e) \<Rightarrow> ([j1, j2, j3, j4, j5] @ snaps, Inl e)
              | (snaps, Inr n) \<Rightarrow>
                  ([j1, j2, j3, j4, j5] @ snaps @
                   [(last (j5 # snaps))\<lparr>m_status := MCompleted, m_progress := Some prog,
                       m_result := Some (res\<lparr>filesInstalled := n\<rparr>)\<rparr>], Inr ()))"
    by blast
  from m' assms(2) have e: "manifest' = manifest" by simp
  have "snd (processModrinthJob w job)
           = (case snd (install_loop w (length (mf_files manifest)) 0 (mf_files manifest) j5 0) of
                Inl e \<Rightarrow> Inl e | Inr n \<Rightarrow> Inr ())"
    unfolding p e by (simp split: prod.splits sum.splits)
  then show ?thesis ..
qed

lemma run_resolved:
  assumes "snd (processModrinthJob w job) = Inr u"
  shows "m_status (last (job # run_modrinth_job w job)) = MCompleted"
  using process_shape [of w job]
proof (elim disjE conjE exE)
  fix e pre
  assume "processModrinthJob w job = (pre, Inl e)"
  with assms show ?thesis by simp
next
  fix manifest :: ModrinthManifest and j1 j2 j3 j4 j5 res prog
  assume p: "processModrinthJob w job =
             (case install_loop w (length (mf_files manifest)) 0 (mf_files manifest) j5 0 of
                (snaps, Inl e) \<Rightarrow> ([j1, j2, j3, j4, j5] @ snaps, Inl e)
              | (snaps, Inr n) \<Rightarrow>
                  ([j1, j2, j3, j4, j5] @ snaps @
                   [(last (j5 # snaps))\<lparr>m_status := MCompleted, m_progress := Some prog,
                       m_result := Some (res\<lparr>filesInstalled := n\<rparr>)\<rparr>], Inr ()))"
  obtain snaps rs where L: "install_loop w (length (mf_files manifest)) 0 (mf_files manifest) j5 0
      = (snaps, rs)" by (cases "install_loop w (length (mf_files manifest)) 0 (mf_files manifest) j5 0")
  show ?thesis
  proof (cases rs)
    case (Inl e)
    with p L assms show ?thesis by simp
  next
    case (Inr n)
    with p L show ?thesis by (simp add: run_modrinth_job_def)
  qed
qed

subsection \<open>A CurseForge install job\<close>

text \<open>
  The loop over the files changes the progress and the time of the job only, and the
  statuses of the values the processing gives are those of the Modrinth pipeline.
\<close>

lemma curseforge_loop_snaps:
  "j \<in> set (fst (curseforge_loop w t i files job n)) \<Longrightarrow>
     m_status j = m_status job \<and> m_result j = m_result job \<and> m_error j = m_error job"
proof (induction files arbitrary: i job n j)
  case Nil
  then show ?case by simp
next
  case (Cons entry rest)
  show ?case
  proof (cases "ce_required entry = Some False")
    case True
    with Cons show ?thesis by simp
  next
    case False
    let ?job1 = "job\<lparr>m_progress := Some \<lparr>phase = ''Installing mods'',
                              currentFile = Some (''Project '' @ string_of_int (ce_projectID entry)),
                              currentIndex = Some (i + 1),
                              totalFiles = Some t,
                              progress_note = None\<rparr>,
                            m_updatedAt := mw_now (cw_common w)\<rparr>"
    have k: "m_status ?job1 = m_status job \<and> m_result ?job1 = m_result job \<and> m_error ?job1 = m_error job"
      by simp
    have "j = ?job1 \<or> j \<in> set (fst (curseforge_loop w t (i + 1) rest ?job1 (n + 1)))"
      using Cons.prems False
      by (simp add: Let_def split: sum.splits if_splits prod.splits)
    then show ?thesis
    proof
      assume "j = ?job1"
      then show ?thesis by simp
    next
      assume "j \<in> set (fst (curseforge_loop w t (i + 1) rest ?job1 (n + 1)))"
      from Cons.IH [OF this] show ?thesis by simp
    qed
  qed
qed

lemma curseforge_loop_statuses:
  assumes "curseforge_loop w t i files j5 n = (snaps, r)"
  shows "map m_status snaps = replicate (length snaps) (m_status j5)"
proof -
  have "\<forall>j\<in>set snaps. m_status j = m_status j5"
    using curseforge_loop_snaps [of _ w t i files j5 n] assms by simp
  then show ?thesis by (induction snaps) simp_all
qed


lemma curseforge_statuses:
  "case processCurseforgeJob w request job of
     (snaps, Inl e) \<Rightarrow>
        map m_status snaps = replicate (length snaps) MDownloading
        \<or> (5 \<le> length snaps
            \<and> map m_status snaps = [MDownloading, MDownloading, MDownloading, MDownloading, MInstalling]
                 @ replicate (length snaps - 5) MInstalling)
   | (snaps, Inr u) \<Rightarrow>
        6 \<le> length snaps
        \<and> map m_status snaps = [MDownloading, MDownloading, MDownloading, MDownloading, MInstalling]
             @ replicate (length snaps - 6) MInstalling @ [MCompleted]"
proof (cases "ensureDirectory (cw_common w) (''/tmp/curseforge-'' @ m_id job)")
  case (Inl e)
  show ?thesis
    apply (simp only: processCurseforgeJob_def Let_def  Inl sum.case option.case)
    apply simp
    done
next
  case s1: (Inr u1)
  show ?thesis
  proof (cases "fetchCurseforgePack w")
    case (Inl e)
    show ?thesis
      apply (simp only: processCurseforgeJob_def Let_def s1 Inl sum.case option.case)
      apply simp
      done
  next
    case s2: (Inr packInfo)
    show ?thesis
    proof (cases "pi_fileName packInfo")
      case None
      show ?thesis
        apply (simp only: processCurseforgeJob_def Let_def s1 s2 None sum.case option.case)
        apply simp
        done
    next
      case s3: (Some fileName)
      show ?thesis
      proof (cases "downloadFileToPath (cw_common w) (pi_downloadUrl packInfo) (archive_path (''/tmp/curseforge-'' @ m_id job) fileName)")
        case (Inl e)
        show ?thesis
          apply (simp only: processCurseforgeJob_def Let_def s1 s2 s3 Inl sum.case option.case)
          apply simp
          done
      next
        case s4: (Inr archiveBuffer)
        show ?thesis
        proof (cases "extractArchive (cw_common w)")
          case (Inl e)
          show ?thesis
            apply (simp only: processCurseforgeJob_def Let_def s1 s2 s3 s4 Inl sum.case option.case)
            apply simp
            done
        next
          case s5: (Inr u5)
          show ?thesis
          proof (cases "cw_manifest w")
            case (Inl e)
            show ?thesis
              apply (simp only: processCurseforgeJob_def Let_def s1 s2 s3 s4 s5 Inl sum.case option.case)
              apply simp
              done
          next
            case s6: (Inr manifest)
            show ?thesis
            proof (cases "resetModsDirectory (cw_common w)")
              case (Inl e)
              show ?thesis
                apply (simp only: processCurseforgeJob_def Let_def s1 s2 s3 s4 s5 s6 Inl sum.case option.case)
                apply simp
                done
            next
              case s7: (Inr u7)
              show ?thesis
              proof (cases "applyOverrides (cw_common w)")
                case (Inl e)
                show ?thesis
                  apply (simp only: processCurseforgeJob_def Let_def s1 s2 s3 s4 s5 s6 s7 Inl sum.case option.case)
                  apply simp
                  done
              next
                case s8: (Inr applied)
                show ?thesis
                proof -
                  obtain snaps r where L: "curseforge_loop w (length (cm_files manifest)) 0 (cm_files manifest)
                          (job\<lparr>m_status := MDownloading,
                              m_progress := Some (progress_of ''Resolving CurseForge metadata''),
                              m_updatedAt := mw_now (cw_common w),
                              m_progress := Some ((progress_of ''Downloading pack archive'')
                                  \<lparr>progress_note := pi_name packInfo\<rparr>),
                              m_progress := Some (progress_of ''Extracting pack archive''),
                              m_progress := Some (progress_of ''Preparing filesystem for install''),
                              m_status := MInstalling\<rparr>) 0 = (snaps, r)"
                    by (cases "curseforge_loop w (length (cm_files manifest)) 0 (cm_files manifest)
                          (job\<lparr>m_status := MDownloading,
                              m_progress := Some (progress_of ''Resolving CurseForge metadata''),
                              m_updatedAt := mw_now (cw_common w),
                              m_progress := Some ((progress_of ''Downloading pack archive'')
                                  \<lparr>progress_note := pi_name packInfo\<rparr>),
                              m_progress := Some (progress_of ''Extracting pack archive''),
                              m_progress := Some (progress_of ''Preparing filesystem for install''),
                              m_status := MInstalling\<rparr>) 0") blast
                  note ls = curseforge_loop_statuses [OF L]
                  show ?thesis
                    apply (simp only: processCurseforgeJob_def Let_def s1 s2 s3 s4 s5 s6 s7 s8 sum.case option.case
                        installCurseforgeFiles_def)
                    apply (simp only: L prod.case)
                    apply (cases r)
                     apply (simp add: ls)
                    apply (simp add: ls)
                    done
                qed
              qed
            qed
          qed
        qed
      qed
    qed
  qed
qed


lemma curseforge_run_statuses:
  assumes "m_status job = MPending"
  shows "successively install_move (map m_status (job # run_curseforge_job w request job))
         \<and> install_terminal (m_status (last (job # run_curseforge_job w request job)))"
proof -
  obtain snaps r where P: "processCurseforgeJob w request job = (snaps, r)"
    by (cases "processCurseforgeJob w request job")
  show ?thesis
  proof (cases r)
    case (Inl e)
    have run: "run_curseforge_job w request job
        = snaps @ [(last (job # snaps))
                     \<lparr>m_status := MFailed, m_error := Some e,
                      m_progress := Some ((progress_of ''failed'')\<lparr>progress_note := Some e\<rparr>),
                      m_updatedAt := mw_now (cw_common w)\<rparr>]"
      by (simp add: run_curseforge_job_def P Inl)
    then have fin: "m_status (last (job # run_curseforge_job w request job)) = MFailed" by simp
    from curseforge_statuses [of w request job]
    have "map m_status snaps = replicate (length snaps) MDownloading
        \<or> (5 \<le> length snaps
            \<and> map m_status snaps = [MDownloading, MDownloading, MDownloading, MDownloading, MInstalling]
                 @ replicate (length snaps - 5) MInstalling)"
      by (simp add: P Inl)
    then show ?thesis
    proof
      assume "map m_status snaps = replicate (length snaps) MDownloading"
      then have "map m_status (job # run_curseforge_job w request job)
          = MPending # replicate (length snaps) MDownloading @ [MFailed]"
        by (simp add: run assms)
      with fin show ?thesis by (simp only: moves_early install_terminal.simps simp_thms)
    next
      assume "5 \<le> length snaps
            \<and> map m_status snaps = [MDownloading, MDownloading, MDownloading, MDownloading, MInstalling]
                 @ replicate (length snaps - 5) MInstalling"
      then have "map m_status (job # run_curseforge_job w request job)
          = [MPending, MDownloading, MDownloading, MDownloading, MDownloading, MInstalling]
             @ replicate (length snaps - 5) MInstalling @ [MFailed]"
        by (simp add: run assms)
      with fin show ?thesis using moves_late [of MFailed "length snaps - 5"]
        by (simp only: install_terminal.simps simp_thms)
    qed
  next
    case (Inr u)
    have run: "run_curseforge_job w request job = snaps"
      by (simp add: run_curseforge_job_def P Inr)
    from curseforge_statuses [of w request job]
    have s: "6 \<le> length snaps"
      "map m_status snaps = [MDownloading, MDownloading, MDownloading, MDownloading, MInstalling]
             @ replicate (length snaps - 6) MInstalling @ [MCompleted]"
      by (simp_all add: P Inr)
    from s(1) have ne: "snaps \<noteq> []" by auto
    have "m_status (last (job # snaps)) = last (map m_status snaps)"
      using ne by (simp add: last_map)
    also have "\<dots> = MCompleted" unfolding s(2) by simp
    finally have fin: "m_status (last (job # run_curseforge_job w request job)) = MCompleted"
      by (simp only: run)
    have "map m_status (job # run_curseforge_job w request job)
          = [MPending, MDownloading, MDownloading, MDownloading, MDownloading, MInstalling]
             @ replicate (length snaps - 6) MInstalling @ [MCompleted]"
      by (simp add: run assms s(2))
    with fin show ?thesis using moves_late [of MCompleted "length snaps - 6"]
      by (simp only: install_terminal.simps simp_thms)
  qed
qed

lemma curseforge_run_rejected:
  assumes "snd (processCurseforgeJob w request job) = Inl e"
  shows "m_status (last (job # run_curseforge_job w request job)) = MFailed
         \<and> m_error (last (job # run_curseforge_job w request job)) = Some e"
  using assms by (cases "processCurseforgeJob w request job") (simp add: run_curseforge_job_def)

lemma curseforge_run_resolved:
  assumes "snd (processCurseforgeJob w request job) = Inr u"
  shows "m_status (last (job # run_curseforge_job w request job)) = MCompleted"
proof -
  obtain snaps r where P: "processCurseforgeJob w request job = (snaps, r)"
    by (cases "processCurseforgeJob w request job")
  with assms have r: "r = Inr u" by simp
  have run: "run_curseforge_job w request job = snaps"
    by (simp add: run_curseforge_job_def P r)
  from curseforge_statuses [of w request job]
  have s: "6 \<le> length snaps"
    "map m_status snaps = [MDownloading, MDownloading, MDownloading, MDownloading, MInstalling]
           @ replicate (length snaps - 6) MInstalling @ [MCompleted]"
    by (simp_all add: P r)
  from s(1) have ne: "snaps \<noteq> []" by auto
  have "m_status (last (job # snaps)) = last (map m_status snaps)"
    using ne by (simp add: last_map)
  also have "\<dots> = MCompleted" unfolding s(2) by simp
  finally show ?thesis by (simp only: run)
qed

subsection \<open>The registries\<close>

text \<open>
  An install request that starts no job leaves the server as it is; one that starts a
  job puts it under the generated id, and leaves the entries under other ids alone.
\<close>

lemma modrinth_registry:
  "(snd (snd (handleModrinthInstall env srv mbody stamp random now)) = None
      \<longrightarrow> fst (snd (handleModrinthInstall env srv mbody stamp random now)) = srv)
   \<and> (\<forall>started. snd (snd (handleModrinthInstall env srv mbody stamp random now)) = Some started
      \<longrightarrow> started = queued_job (generateJobId Modrinth stamp random) Modrinth now
          \<and> modpackJobs (fst (snd (handleModrinthInstall env srv mbody stamp random now)))
              = (modpackJobs srv)(generateJobId Modrinth stamp random \<mapsto> started))"
  by (auto simp: handleModrinthInstall_def Let_def split: option.splits sum.splits)

lemma curseforge_registry:
  "(snd (snd (handleCurseforgeInstall env srv cbody stamp random now)) = None
      \<longrightarrow> fst (snd (handleCurseforgeInstall env srv cbody stamp random now)) = srv)
   \<and> (\<forall>started. snd (snd (handleCurseforgeInstall env srv cbody stamp random now)) = Some started
      \<longrightarrow> started = queued_job (generateJobId Curseforge stamp random) Curseforge now
          \<and> modpackJobs (fst (snd (handleCurseforgeInstall env srv cbody stamp random now)))
              = (modpackJobs srv)(generateJobId Curseforge stamp random \<mapsto> started))"
  by (auto simp: handleCurseforgeInstall_def Let_def split: option.splits sum.splits)

lemma modrinth_frame_other:
  "i \<noteq> generateJobId Modrinth stamp random \<Longrightarrow>
     modpackJobs (fst (snd (handleModrinthInstall env srv mbody stamp random now))) i = modpackJobs srv i"
  by (auto simp: handleModrinthInstall_def Let_def split: option.splits sum.splits)

lemma curseforge_frame_other:
  "i \<noteq> generateJobId Curseforge stamp random \<Longrightarrow>
     modpackJobs (fst (snd (handleCurseforgeInstall env srv cbody stamp random now))) i = modpackJobs srv i"
  by (auto simp: handleCurseforgeInstall_def Let_def split: option.splits sum.splits)

subsection \<open>The jobs of the examples\<close>

lemma demo_backup_work:
  "backup_work demo_backup_world (demo_job\<lparr>b_status := BPending, b_status := BRunning\<rparr>)
     = Inr \<lparr>backup_path = generateBackupKey (dirName_of ''/data/world'') 1762056000000,
            br_size = 3, br_note = Some ''complete backup''\<rparr>"
  by (simp add: backup_work_def demo_backup_world_def createS3Client_demo demo_job_def)

lemma offline_backup_work:
  "backup_work (demo_backup_world\<lparr>bw_env := Map.empty\<rparr>)
       (demo_job\<lparr>b_status := BPending, b_status := BRunning\<rparr>)
     = Inl ''Missing AWS credentials in environment''"
  by (simp add: backup_work_def createS3Client_empty)

lemma tampered_rejects:
  "snd (processModrinthJob tampered_world job) = Inl ''SHA-1 mismatch for mods/c.jar''"
proof -
  from process_result [OF tampered_reached tampered_files, of job]
  obtain j5 where eq: "snd (processModrinthJob tampered_world job)
           = (case snd (install_loop tampered_world
                          (length (mf_files (demo_manifest\<lparr>mf_files := [sound_entry, tampered_entry]\<rparr>))) 0
                          (mf_files (demo_manifest\<lparr>mf_files := [sound_entry, tampered_entry]\<rparr>)) j5 0) of
                Inl e \<Rightarrow> Inl e | Inr n \<Rightarrow> Inr ())" ..
  have pre: "\<forall>k<length [sound_entry]. installed_entry ([sound_entry] ! k)
               \<longrightarrow> entry_verified tampered_world (0 + k) ([sound_entry] ! k)"
    by (simp add: sound_entry_verified)
  have dl: "fe_downloads tampered_entry \<noteq> []" "hd (fe_downloads tampered_entry) \<noteq> []"
    by (simp_all add: tampered_entry_def)
  have "snd (install_loop tampered_world t 0 ([sound_entry] @ tampered_entry # []) j5 0)
      = Inl ''SHA-1 mismatch for mods/c.jar''" for t
    by (rule install_loop_first_mismatch
        [OF demo_installed(3) dl pre demo_paths(3) tampered_download tampered_verifyHash])
  then show ?thesis unfolding eq by (simp del: install_loop.simps)
qed

lemma demo_resolves: "snd (processModrinthJob demo_modrinth_world job) = Inr ()"
proof -
  from process_result [OF demo_reached demo_files(1), of job]
  obtain j5 where eq: "snd (processModrinthJob demo_modrinth_world job)
           = (case snd (install_loop demo_modrinth_world (length (mf_files demo_manifest)) 0
                          (mf_files demo_manifest) j5 0) of
                Inl e \<Rightarrow> Inl e | Inr n \<Rightarrow> Inr ())" ..
  have "snd (install_loop demo_modrinth_world (length (mf_files demo_manifest)) 0
               (mf_files demo_manifest) j5 0)
      = Inr (0 + length (filter installed_entry (mf_files demo_manifest)))"
    by (rule install_loop_all) (simp add: demo_files demo_entry_verified)
  then show ?thesis unfolding eq by (simp del: install_loop.simps)
qed

lemma refused_rejects:
  "snd (processCurseforgeJob refused_world request job) = Inl ''CurseForge API request failed (403)''"
proof -
  have "fetchCurseforgePack refused_world = Inl ''CurseForge API request failed (403)''"
    by (simp add: fetchCurseforgePack_def curseforgeRequest_def refused_world_def
        demo_curseforge_world_def falsy_def response_ok_def string_of_nat.simps digit_char_def)
  then show ?thesis
    by (simp add: processCurseforgeJob_def Let_def ensureDirectory_def refused_world_def
        demo_curseforge_world_def demo_modrinth_world_def)
qed


lemma demo_curseforge_resolves:
  "snd (processCurseforgeJob demo_curseforge_world request job) = Inr ()"
proof -
  have c: "cw_common demo_curseforge_world = demo_modrinth_world"
    by (simp add: demo_curseforge_world_def)
  have p: "fetchCurseforgePack demo_curseforge_world
      = Inr \<lparr>pi_name = Some ''Demo'', pi_fileName = Some ''pack.zip'',
              pi_downloadUrl = ''https://cdn.example/pack.zip''\<rparr>"
    by (simp add: fetchCurseforgePack_def curseforgeRequest_def demo_curseforge_world_def falsy_def
        response_ok_def or_else_def)
  have f: "curseforgeRequest demo_curseforge_world (cw_file demo_curseforge_world a b)
      = Inr (Some \<lparr>fd_downloadUrl = Some ''https://cdn.example/m.jar'',
                 fd_displayName = None, fd_fileName = Some ''m.jar''\<rparr>)" for a b
    by (simp add: curseforgeRequest_def demo_curseforge_world_def falsy_def response_ok_def)
  have m: "cw_manifest demo_curseforge_world
      = Inr \<lparr>cm_modLoaders = [\<lparr>ml_id = ''forge-47.2.0'', ml_primary = True\<rparr>],
                        cm_version = Some ''1.20.1'',
                        cm_files = [\<lparr>ce_projectID = 238222, ce_fileID = 4712345,
                                     ce_required = Some True\<rparr>],
                        cm_overrides = Some ''overrides''\<rparr>"
    by (simp add: demo_curseforge_world_def)
  have e: "ensureDirectory demo_modrinth_world path = Inr ()" for path
    by (simp add: ensureDirectory_def demo_modrinth_world_def)
  have x: "extractArchive demo_modrinth_world = Inr ()"
    "resetModsDirectory demo_modrinth_world = Inr ()"
    "applyOverrides demo_modrinth_world = Inr False"
    by (simp_all add: extractArchive_def resetModsDirectory_def applyOverrides_def e)
      (simp_all add: demo_modrinth_world_def)
  have l: "snd (installCurseforgeFiles demo_curseforge_world
       \<lparr>cm_modLoaders = [\<lparr>ml_id = ''forge-47.2.0'', ml_primary = True\<rparr>],
                        cm_version = Some ''1.20.1'',
                        cm_files = [\<lparr>ce_projectID = 238222, ce_fileID = 4712345,
                                     ce_required = Some True\<rparr>],
                        cm_overrides = Some ''overrides''\<rparr> j5)
      = Inr (1, determineLoaderFromModLoaders [\<lparr>ml_id = ''forge-47.2.0'', ml_primary = True\<rparr>],
             Some ''1.20.1'')" for j5
    by (simp add: installCurseforgeFiles_def Let_def f c demo_download falsy_def)
  show ?thesis
    unfolding processCurseforgeJob_def Let_def c e p
    apply (simp only: sum.case option.case CurseforgePackInfo.simps demo_download x m)
    apply (cases "installCurseforgeFiles demo_curseforge_world
       \<lparr>cm_modLoaders = [\<lparr>ml_id = ''forge-47.2.0'', ml_primary = True\<rparr>],
                        cm_version = Some ''1.20.1'',
                        cm_files = [\<lparr>ce_projectID = 238222, ce_fileID = 4712345,
                                     ce_required = Some True\<rparr>],
                        cm_overrides = Some ''overrides''\<rparr>
       (job\<lparr>m_status := MDownloading,
              m_progress := Some (progress_of ''Resolving CurseForge metadata''),
              m_updatedAt := mw_now demo_modrinth_world,
              m_progress := Some ((progress_of ''Downloading pack archive'')
                  \<lparr>progress_note := Some ''Demo''\<rparr>),
              m_progress := Some (progress_of ''Extracting pack archive''),
              m_progress := Some (progress_of ''Preparing filesystem for install''),
              m_status := MInstalling\<rparr>)")
    using l [of "(job\<lparr>m_status := MDownloading,
              m_progress := Some (progress_of ''Resolving CurseForge metadata''),
              m_updatedAt := mw_now demo_modrinth_world,
              m_progress := Some ((progress_of ''Downloading pack archive'')
                  \<lparr>progress_note := Some ''Demo''\<rparr>),
              m_progress := Some (progress_of ''Extracting pack archive''),
              m_progress := Some (progress_of ''Preparing filesystem for install''),
              m_status := MInstalling\<rparr>)"]
    apply simp
    done
qed

lemma finished_install_completed: "m_status finished_install = MCompleted"
  unfolding finished_install_def
  using run_completes [OF demo_reached demo_files(1), of first_install]
  by (auto simp: demo_files demo_installed demo_entry_verified)

lemma keyed_env_enabled: "isMaintenanceModeEnabled keyed_env"
  by (simp add: keyed_env_def isMaintenanceModeEnabled_def or_else_def falsy_def toLowerCase_def
      lower_char_def upper_letters_def lower_letters_def)

lemma keyed_modrinth_request:
  "handleModrinthInstall keyed_env srv
       (Some \<lparr>url = Some ''https://modrinth.com/modpack/x'', packVersion = None\<rparr>) stamp random now
     = (jsonResponse (JObj [(''id'', JStr (generateJobId Modrinth stamp random)),
                            (''status'', JStr ''pending'')]) 200,
        srv\<lparr>modpackJobs := (modpackJobs srv)(generateJobId Modrinth stamp random \<mapsto>
               queued_job (generateJobId Modrinth stamp random) Modrinth now)\<rparr>,
        Some (queued_job (generateJobId Modrinth stamp random) Modrinth now))"
  using trim_pack
  by (simp add: handleModrinthInstall_def Let_def maintenance_enabled [OF keyed_env_enabled]
      queued_job_def)

subsection \<open>The claim\<close>

text \<open>
  C10, as the claim states it, fails for the registry of installs. An install request
  puts the job it creates under the id it generates, with no test for a job already
  there. The id is made of the source, the clock in base 36 and six random characters, so
  a request that reads the same millisecond (the wall clock can be set back) and draws
  the same characters as an earlier one takes over its id: the registry held a completed
  job there and now holds a pending one.
\<close>

theorem job_status_forward_and_terminal_counterexample:
  "modpackJobs finished_server (generateJobId Modrinth ''mhh6nb40'' ''k3j9zq'') = Some finished_install
   \<and> m_status finished_install = MCompleted
   \<and> isMaintenanceModeEnabled keyed_env
   \<and> map_option m_status
        (modpackJobs (fst (snd (handleModrinthInstall keyed_env finished_server
             (Some \<lparr>url = Some ''https://modrinth.com/modpack/x'', packVersion = None\<rparr>)
             ''mhh6nb40'' ''k3j9zq'' 1762056000000)))
           (generateJobId Modrinth ''mhh6nb40'' ''k3j9zq''))
       = Some MPending"
  by (simp add: keyed_modrinth_request finished_install_completed keyed_env_enabled
      finished_server_def queued_job_def)

text \<open>
  C10, amended. The values a backup job takes after the pending one that
  \<^verbatim>\<open>handleBackgroundBackupStart\<close> created go along the arrows pending, running, then
  success or failed; the last one is success or failed, and no value before the last
  has such a status, so a status once final is not left and the work is not started
  again. It is failed exactly when the work threw, with the message of the error. The
  values an install job takes, of Modrinth and of CurseForge alike, go along pending,
  downloading, installing, then completed, or to failed from any of the three active
  statuses, the status staying the same while only the progress changes; the last one is
  completed or failed, and none before it is; it is failed exactly when the processing
  rejected, with the message of the error. A later request to start a backup leaves
  every entry of the registry of backups as it is. A later install request leaves every
  entry of the registry of installs under another id than the one it generates as it
  is; when it starts no job it changes nothing, and when it starts one it puts that
  pending job under the generated id, whatever was there.
\<close>

theorem job_status_forward_and_terminal:
  "(b_status job = BPending \<longrightarrow>
      successively backup_step (map b_status (job # executeBackupJob bw job))
      \<and> backup_terminal (b_status (last (executeBackupJob bw job)))
      \<and> (\<forall>k. Suc k < length (job # executeBackupJob bw job) \<longrightarrow>
            \<not> backup_terminal (b_status ((job # executeBackupJob bw job) ! k))))
   \<and> (\<forall>msg. backup_work bw (job\<lparr>b_status := BRunning\<rparr>) = Inl msg \<longrightarrow>
         b_status (last (executeBackupJob bw job)) = BFailed
         \<and> b_error (last (executeBackupJob bw job)) = Some (''Backup failed: '' @ msg))
   \<and> (\<forall>res. backup_work bw (job\<lparr>b_status := BRunning\<rparr>) = Inr res \<longrightarrow>
         b_status (last (executeBackupJob bw job)) = BSuccess
         \<and> b_result (last (executeBackupJob bw job)) = Some res)
   \<and> (m_status mjob = MPending \<longrightarrow>
      successively install_move (map m_status (mjob # run_modrinth_job w mjob))
      \<and> install_terminal (m_status (last (mjob # run_modrinth_job w mjob)))
      \<and> (\<forall>k. Suc k < length (mjob # run_modrinth_job w mjob) \<longrightarrow>
            \<not> install_terminal (m_status ((mjob # run_modrinth_job w mjob) ! k))))
   \<and> (\<forall>e. snd (processModrinthJob w mjob) = Inl e \<longrightarrow>
         m_status (last (mjob # run_modrinth_job w mjob)) = MFailed
         \<and> m_error (last (mjob # run_modrinth_job w mjob)) = Some e)
   \<and> (snd (processModrinthJob w mjob) = Inr () \<longrightarrow>
         m_status (last (mjob # run_modrinth_job w mjob)) = MCompleted)
   \<and> (m_status cjob = MPending \<longrightarrow>
      successively install_move (map m_status (cjob # run_curseforge_job cw request cjob))
      \<and> install_terminal (m_status (last (cjob # run_curseforge_job cw request cjob)))
      \<and> (\<forall>k. Suc k < length (cjob # run_curseforge_job cw request cjob) \<longrightarrow>
            \<not> install_terminal (m_status ((cjob # run_curseforge_job cw request cjob) ! k))))
   \<and> (\<forall>e. snd (processCurseforgeJob cw request cjob) = Inl e \<longrightarrow>
         m_status (last (cjob # run_curseforge_job cw request cjob)) = MFailed
         \<and> m_error (last (cjob # run_curseforge_job cw request cjob)) = Some e)
   \<and> (snd (processCurseforgeJob cw request cjob) = Inr () \<longrightarrow>
         m_status (last (cjob # run_curseforge_job cw request cjob)) = MCompleted)
   \<and> (\<forall>i existing. backupJobs srv i = Some existing \<longrightarrow>
         backupJobs (fst (snd (handleBackgroundBackupStart bw srv now pathname ident))) i = Some existing)
   \<and> (\<forall>i. i \<noteq> generateJobId Modrinth stamp random \<longrightarrow>
         modpackJobs (fst (snd (handleModrinthInstall env srv mbody stamp random now))) i
           = modpackJobs srv i)
   \<and> (\<forall>i. i \<noteq> generateJobId Curseforge stamp random \<longrightarrow>
         modpackJobs (fst (snd (handleCurseforgeInstall env srv cbody stamp random now))) i
           = modpackJobs srv i)
   \<and> (snd (snd (handleModrinthInstall env srv mbody stamp random now)) = None \<longrightarrow>
         fst (snd (handleModrinthInstall env srv mbody stamp random now)) = srv)
   \<and> (\<forall>started. snd (snd (handleModrinthInstall env srv mbody stamp random now)) = Some started \<longrightarrow>
         started = queued_job (generateJobId Modrinth stamp random) Modrinth now
         \<and> modpackJobs (fst (snd (handleModrinthInstall env srv mbody stamp random now)))
             = (modpackJobs srv)(generateJobId Modrinth stamp random \<mapsto> started))
   \<and> (snd (snd (handleCurseforgeInstall env srv cbody stamp random now)) = None \<longrightarrow>
         fst (snd (handleCurseforgeInstall env srv cbody stamp random now)) = srv)
   \<and> (\<forall>started. snd (snd (handleCurseforgeInstall env srv cbody stamp random now)) = Some started \<longrightarrow>
         started = queued_job (generateJobId Curseforge stamp random) Curseforge now
         \<and> modpackJobs (fst (snd (handleCurseforgeInstall env srv cbody stamp random now)))
             = (modpackJobs srv)(generateJobId Curseforge stamp random \<mapsto> started))"
proof -
  have c1: "b_status job = BPending \<longrightarrow>
      successively backup_step (map b_status (job # executeBackupJob bw job))
      \<and> backup_terminal (b_status (last (executeBackupJob bw job)))
      \<and> (\<forall>k. Suc k < length (job # executeBackupJob bw job) \<longrightarrow>
            \<not> backup_terminal (b_status ((job # executeBackupJob bw job) ! k)))"
  proof (intro impI conjI allI)
    assume p: "b_status job = BPending"
    show "successively backup_step (map b_status (job # executeBackupJob bw job))"
      using p by (rule backup_moves)
    show "backup_terminal (b_status (last (executeBackupJob bw job)))"
      by (simp add: executeBackupJob_last split: sum.splits)
    fix k
    assume k: "Suc k < length (job # executeBackupJob bw job)"
    then have "Suc k < length (map b_status (job # executeBackupJob bw job))" by simp
    from successively_nth [OF backup_moves [OF p] this]
    have "backup_step (b_status ((job # executeBackupJob bw job) ! k))
            (b_status ((job # executeBackupJob bw job) ! Suc k))"
      using k by (simp only: nth_map Suc_lessD)
    then show "\<not> backup_terminal (b_status ((job # executeBackupJob bw job) ! k))"
      by (rule backup_step_active)
  qed
  have c2: "\<forall>msg. backup_work bw (job\<lparr>b_status := BRunning\<rparr>) = Inl msg \<longrightarrow>
         b_status (last (executeBackupJob bw job)) = BFailed
         \<and> b_error (last (executeBackupJob bw job)) = Some (''Backup failed: '' @ msg)"
    by (simp add: executeBackupJob_last)
  have c3: "\<forall>res. backup_work bw (job\<lparr>b_status := BRunning\<rparr>) = Inr res \<longrightarrow>
         b_status (last (executeBackupJob bw job)) = BSuccess
         \<and> b_result (last (executeBackupJob bw job)) = Some res"
    by (simp add: executeBackupJob_last)
  have c4: "m_status mjob = MPending \<longrightarrow>
      successively install_move (map m_status (mjob # run_modrinth_job w mjob))
      \<and> install_terminal (m_status (last (mjob # run_modrinth_job w mjob)))
      \<and> (\<forall>k. Suc k < length (mjob # run_modrinth_job w mjob) \<longrightarrow>
            \<not> install_terminal (m_status ((mjob # run_modrinth_job w mjob) ! k)))"
  proof (intro impI conjI allI)
    assume p: "m_status mjob = MPending"
    from run_statuses [OF p]
    show s: "successively install_move (map m_status (mjob # run_modrinth_job w mjob))"
      and "install_terminal (m_status (last (mjob # run_modrinth_job w mjob)))" by blast+
    fix k
    assume k: "Suc k < length (mjob # run_modrinth_job w mjob)"
    then have "Suc k < length (map m_status (mjob # run_modrinth_job w mjob))" by simp
    from successively_nth [OF s this]
    have "install_move (m_status ((mjob # run_modrinth_job w mjob) ! k))
            (m_status ((mjob # run_modrinth_job w mjob) ! Suc k))"
      using k by (simp only: nth_map Suc_lessD)
    then show "\<not> install_terminal (m_status ((mjob # run_modrinth_job w mjob) ! k))"
      by (rule install_move_active)
  qed
  have c5: "\<forall>e. snd (processModrinthJob w mjob) = Inl e \<longrightarrow>
         m_status (last (mjob # run_modrinth_job w mjob)) = MFailed
         \<and> m_error (last (mjob # run_modrinth_job w mjob)) = Some e"
    using run_rejected [of w mjob] by blast
  have c6: "snd (processModrinthJob w mjob) = Inr () \<longrightarrow>
         m_status (last (mjob # run_modrinth_job w mjob)) = MCompleted"
    using run_resolved [of w mjob] by blast
  have c7: "m_status cjob = MPending \<longrightarrow>
      successively install_move (map m_status (cjob # run_curseforge_job cw request cjob))
      \<and> install_terminal (m_status (last (cjob # run_curseforge_job cw request cjob)))
      \<and> (\<forall>k. Suc k < length (cjob # run_curseforge_job cw request cjob) \<longrightarrow>
            \<not> install_terminal (m_status ((cjob # run_curseforge_job cw request cjob) ! k)))"
  proof (intro impI conjI allI)
    assume p: "m_status cjob = MPending"
    from curseforge_run_statuses [OF p]
    show s: "successively install_move (map m_status (cjob # run_curseforge_job cw request cjob))"
      and "install_terminal (m_status (last (cjob # run_curseforge_job cw request cjob)))" by blast+
    fix k
    assume k: "Suc k < length (cjob # run_curseforge_job cw request cjob)"
    then have "Suc k < length (map m_status (cjob # run_curseforge_job cw request cjob))" by simp
    from successively_nth [OF s this]
    have "install_move (m_status ((cjob # run_curseforge_job cw request cjob) ! k))
            (m_status ((cjob # run_curseforge_job cw request cjob) ! Suc k))"
      using k by (simp only: nth_map Suc_lessD)
    then show "\<not> install_terminal (m_status ((cjob # run_curseforge_job cw request cjob) ! k))"
      by (rule install_move_active)
  qed
  have c8: "\<forall>e. snd (processCurseforgeJob cw request cjob) = Inl e \<longrightarrow>
         m_status (last (cjob # run_curseforge_job cw request cjob)) = MFailed
         \<and> m_error (last (cjob # run_curseforge_job cw request cjob)) = Some e"
    using curseforge_run_rejected [of cw request cjob] by blast
  have c9: "snd (processCurseforgeJob cw request cjob) = Inr () \<longrightarrow>
         m_status (last (cjob # run_curseforge_job cw request cjob)) = MCompleted"
    using curseforge_run_resolved [of cw request cjob] by blast
  have c10: "\<forall>i existing. backupJobs srv i = Some existing \<longrightarrow>
         backupJobs (fst (snd (handleBackgroundBackupStart bw srv now pathname ident))) i = Some existing"
    using backup_frame [of srv _ _ bw now pathname ident] by blast
  have c11: "\<forall>i. i \<noteq> generateJobId Modrinth stamp random \<longrightarrow>
         modpackJobs (fst (snd (handleModrinthInstall env srv mbody stamp random now))) i
           = modpackJobs srv i"
    using modrinth_frame_other [of _ stamp random env srv mbody now] by blast
  have c12: "\<forall>i. i \<noteq> generateJobId Curseforge stamp random \<longrightarrow>
         modpackJobs (fst (snd (handleCurseforgeInstall env srv cbody stamp random now))) i
           = modpackJobs srv i"
    using curseforge_frame_other [of _ stamp random env srv cbody now] by blast
  note c13 = modrinth_registry [of env srv mbody stamp random now]
  note c14 = curseforge_registry [of env srv cbody stamp random now]
  from c1 c2 c3 c4 c5 c6 c7 c8 c9 c10 c11 c12 c13 c14 show ?thesis
    by (intro conjI) (erule conjunct1 conjunct2 | assumption)+
qed

theorem job_status_forward_and_terminal_witness:
  "b_status (demo_job\<lparr>b_status := BPending\<rparr>) = BPending
   \<and> successively backup_step (map b_status (demo_job\<lparr>b_status := BPending\<rparr>
         # executeBackupJob demo_backup_world (demo_job\<lparr>b_status := BPending\<rparr>)))
   \<and> map b_status (demo_job\<lparr>b_status := BPending\<rparr>
         # executeBackupJob demo_backup_world (demo_job\<lparr>b_status := BPending\<rparr>))
       = [BPending, BRunning, BSuccess]
   \<and> b_result (last (executeBackupJob demo_backup_world (demo_job\<lparr>b_status := BPending\<rparr>)))
       = Some \<lparr>backup_path = generateBackupKey (dirName_of ''/data/world'') 1762056000000,
               br_size = 3, br_note = Some ''complete backup''\<rparr>
   \<and> \<not> backup_terminal (b_status ((demo_job\<lparr>b_status := BPending\<rparr>
         # executeBackupJob demo_backup_world (demo_job\<lparr>b_status := BPending\<rparr>)) ! 1))
   \<and> b_status (last (executeBackupJob (demo_backup_world\<lparr>bw_env := Map.empty\<rparr>)
         (demo_job\<lparr>b_status := BPending\<rparr>))) = BFailed
   \<and> b_error (last (executeBackupJob (demo_backup_world\<lparr>bw_env := Map.empty\<rparr>)
         (demo_job\<lparr>b_status := BPending\<rparr>)))
       = Some ''Backup failed: Missing AWS credentials in environment''
   \<and> m_status demo_install = MPending
   \<and> successively install_move (map m_status (demo_install # run_modrinth_job tampered_world demo_install))
   \<and> install_terminal (m_status (last (demo_install # run_modrinth_job tampered_world demo_install)))
   \<and> \<not> install_terminal (m_status ((demo_install # run_modrinth_job tampered_world demo_install) ! 0))
   \<and> snd (processModrinthJob tampered_world demo_install) = Inl ''SHA-1 mismatch for mods/c.jar''
   \<and> m_status (last (demo_install # run_modrinth_job tampered_world demo_install)) = MFailed
   \<and> m_error (last (demo_install # run_modrinth_job tampered_world demo_install))
       = Some ''SHA-1 mismatch for mods/c.jar''
   \<and> snd (processModrinthJob demo_modrinth_world demo_install) = Inr ()
   \<and> m_status (last (demo_install # run_modrinth_job demo_modrinth_world demo_install)) = MCompleted
   \<and> m_status demo_curseforge_install = MPending
   \<and> successively install_move (map m_status
         (demo_curseforge_install # run_curseforge_job refused_world demo_payload demo_curseforge_install))
   \<and> install_terminal (m_status (last
         (demo_curseforge_install # run_curseforge_job refused_world demo_payload demo_curseforge_install)))
   \<and> \<not> install_terminal (m_status
         ((demo_curseforge_install # run_curseforge_job refused_world demo_payload demo_curseforge_install) ! 0))
   \<and> snd (processCurseforgeJob refused_world demo_payload demo_curseforge_install)
       = Inl ''CurseForge API request failed (403)''
   \<and> m_status (last
         (demo_curseforge_install # run_curseforge_job refused_world demo_payload demo_curseforge_install))
       = MFailed
   \<and> m_error (last
         (demo_curseforge_install # run_curseforge_job refused_world demo_payload demo_curseforge_install))
       = Some ''CurseForge API request failed (403)''
   \<and> snd (processCurseforgeJob demo_curseforge_world demo_payload demo_curseforge_install) = Inr ()
   \<and> m_status (last (demo_curseforge_install
         # run_curseforge_job demo_curseforge_world demo_payload demo_curseforge_install)) = MCompleted
   \<and> backupJobs finished_server ''b1'' = Some demo_job
   \<and> backupJobs (fst (snd (handleBackgroundBackupStart demo_backup_world finished_server 1762056009999
          ''/data/world'' ''b2''))) ''b1'' = Some demo_job
   \<and> generateJobId Modrinth ''mhh6nb40'' ''k3j9zq'' \<noteq> generateJobId Modrinth ''mhh6nb41'' ''a1b2c3''
   \<and> modpackJobs (fst (snd (handleModrinthInstall keyed_env finished_server
          (Some \<lparr>url = Some ''https://modrinth.com/modpack/x'', packVersion = None\<rparr>)
          ''mhh6nb41'' ''a1b2c3'' 1762056000001)))
        (generateJobId Modrinth ''mhh6nb40'' ''k3j9zq'') = Some finished_install
   \<and> snd (snd (handleModrinthInstall keyed_env finished_server
          (Some \<lparr>url = Some ''https://modrinth.com/modpack/x'', packVersion = None\<rparr>)
          ''mhh6nb41'' ''a1b2c3'' 1762056000001))
       = Some (queued_job (generateJobId Modrinth ''mhh6nb41'' ''a1b2c3'') Modrinth 1762056000001)
   \<and> modpackJobs (fst (snd (handleModrinthInstall keyed_env finished_server
          (Some \<lparr>url = Some ''https://modrinth.com/modpack/x'', packVersion = None\<rparr>)
          ''mhh6nb41'' ''a1b2c3'' 1762056000001)))
       = (modpackJobs finished_server)(generateJobId Modrinth ''mhh6nb41'' ''a1b2c3'' \<mapsto>
            queued_job (generateJobId Modrinth ''mhh6nb41'' ''a1b2c3'') Modrinth 1762056000001)
   \<and> snd (snd (handleCurseforgeInstall keyed_env finished_server None ''mhh6nb41'' ''a1b2c3''
          1762056000001)) = None
   \<and> fst (snd (handleCurseforgeInstall keyed_env finished_server None ''mhh6nb41'' ''a1b2c3''
          1762056000001)) = finished_server"
proof -
  let ?pj = "demo_job\<lparr>b_status := BPending\<rparr>"
  let ?cj = demo_curseforge_install
  let ?mr = "\<lparr>url = Some ''https://modrinth.com/modpack/x'', packVersion = None\<rparr>"
  note A = job_status_forward_and_terminal [where job = ?pj and bw = demo_backup_world
      and mjob = demo_install and w = tampered_world and cjob = ?cj and cw = refused_world
      and request = demo_payload and srv = finished_server and now = 1762056009999
      and pathname = "''/data/world''" and ident = "''b2''"]
  note B = job_status_forward_and_terminal [where job = ?pj
      and bw = "demo_backup_world\<lparr>bw_env := Map.empty\<rparr>"
      and mjob = demo_install and w = demo_modrinth_world and cjob = ?cj
      and cw = demo_curseforge_world and request = demo_payload and srv = finished_server
      and env = keyed_env and mbody = "Some ?mr" and cbody = None and stamp = "''mhh6nb41''"
      and random = "''a1b2c3''" and now = 1762056000001]
  note A1 = A [THEN conjunct1]
  note A3 = A [THEN conjunct2, THEN conjunct2, THEN conjunct1]
  note A4 = A [THEN conjunct2, THEN conjunct2, THEN conjunct2, THEN conjunct1]
  note A5 = A [THEN conjunct2, THEN conjunct2, THEN conjunct2, THEN conjunct2, THEN conjunct1]
  note A6' = A [THEN conjunct2, THEN conjunct2, THEN conjunct2, THEN conjunct2, THEN conjunct2,
      THEN conjunct2]
  note A7 = A6' [THEN conjunct1]
  note A8 = A6' [THEN conjunct2, THEN conjunct1]
  note A10 = A6' [THEN conjunct2, THEN conjunct2, THEN conjunct2, THEN conjunct1]
  note B2 = B [THEN conjunct2, THEN conjunct1]
  note B6' = B [THEN conjunct2, THEN conjunct2, THEN conjunct2, THEN conjunct2, THEN conjunct2]
  note B6 = B6' [THEN conjunct1]
  note B9 = B6' [THEN conjunct2, THEN conjunct2, THEN conjunct2, THEN conjunct1]
  note B10' = B6' [THEN conjunct2, THEN conjunct2, THEN conjunct2, THEN conjunct2, THEN conjunct2]
  note B11 = B10' [THEN conjunct1]
  note B13' = B10' [THEN conjunct2, THEN conjunct2]
  note B14 = B13' [THEN conjunct2, THEN conjunct1]
  note B15 = B13' [THEN conjunct2, THEN conjunct2, THEN conjunct1]
  have p: "b_status ?pj = BPending" by simp
  have mp: "m_status demo_install = MPending" by (simp add: demo_install_def queued_job_def)
  have cp: "m_status ?cj = MPending" by (simp add: demo_curseforge_install_def queued_job_def)
  have reg: "backupJobs finished_server ''b1'' = Some demo_job"
    by (simp add: finished_server_def demo_server_def)
  have len: "Suc 1 < length (?pj # executeBackupJob demo_backup_world ?pj)"
    by (simp add: executeBackupJob_def Let_def split: sum.splits)
  have mlen: "Suc 0 < length (demo_install # run_modrinth_job tampered_world demo_install)"
    by (cases "processModrinthJob tampered_world demo_install")
      (use tampered_rejects [of demo_install] in \<open>simp add: run_modrinth_job_def\<close>)
  have clen: "Suc 0 < length (?cj # run_curseforge_job refused_world demo_payload ?cj)"
    by (cases "processCurseforgeJob refused_world demo_payload ?cj")
      (use refused_rejects [of demo_payload ?cj] in \<open>simp add: run_curseforge_job_def\<close>)
  from A1 p have b1: "successively backup_step (map b_status (?pj # executeBackupJob demo_backup_world ?pj))"
    by blast
  from A1 p len have b2: "\<not> backup_terminal (b_status ((?pj # executeBackupJob demo_backup_world ?pj) ! 1))"
    by blast
  from A3 demo_backup_work
  have b3: "b_result (last (executeBackupJob demo_backup_world ?pj))
          = Some \<lparr>backup_path = generateBackupKey (dirName_of ''/data/world'') 1762056000000,
                  br_size = 3, br_note = Some ''complete backup''\<rparr>"
    by blast
  have b4: "map b_status (?pj # executeBackupJob demo_backup_world ?pj) = [BPending, BRunning, BSuccess]"
    using demo_backup_work by (simp add: executeBackupJob_statuses)
  from B2 offline_backup_work
  have "b_status (last (executeBackupJob (demo_backup_world\<lparr>bw_env := Map.empty\<rparr>) ?pj)) = BFailed
      \<and> b_error (last (executeBackupJob (demo_backup_world\<lparr>bw_env := Map.empty\<rparr>) ?pj))
          = Some (''Backup failed: '' @ ''Missing AWS credentials in environment'')"
    by blast
  then have b5: "b_status (last (executeBackupJob (demo_backup_world\<lparr>bw_env := Map.empty\<rparr>) ?pj)) = BFailed"
    and b6: "b_error (last (executeBackupJob (demo_backup_world\<lparr>bw_env := Map.empty\<rparr>) ?pj))
          = Some ''Backup failed: Missing AWS credentials in environment''"
    by simp_all
  from A4 mp
  have m1: "successively install_move (map m_status (demo_install # run_modrinth_job tampered_world demo_install))"
    and m1': "install_terminal (m_status (last (demo_install # run_modrinth_job tampered_world demo_install)))"
    by blast+
  from A4 mp mlen
  have m2: "\<not> install_terminal (m_status ((demo_install # run_modrinth_job tampered_world demo_install) ! 0))"
    by blast
  note tr = tampered_rejects [of demo_install]
  from A5 tr
  have m3: "m_status (last (demo_install # run_modrinth_job tampered_world demo_install)) = MFailed"
    and m3': "m_error (last (demo_install # run_modrinth_job tampered_world demo_install))
          = Some ''SHA-1 mismatch for mods/c.jar''"
    by blast+
  note dr = demo_resolves [of demo_install]
  from B6 dr
  have m4: "m_status (last (demo_install # run_modrinth_job demo_modrinth_world demo_install)) = MCompleted"
    by blast
  from A7 cp
  have k1: "successively install_move (map m_status (?cj # run_curseforge_job refused_world demo_payload ?cj))"
    and k1': "install_terminal (m_status (last (?cj # run_curseforge_job refused_world demo_payload ?cj)))"
    by blast+
  from A7 cp clen
  have k2: "\<not> install_terminal (m_status ((?cj # run_curseforge_job refused_world demo_payload ?cj) ! 0))"
    by blast
  note rr = refused_rejects [of demo_payload ?cj]
  from A8 rr
  have k3: "m_status (last (?cj # run_curseforge_job refused_world demo_payload ?cj)) = MFailed"
    and k3': "m_error (last (?cj # run_curseforge_job refused_world demo_payload ?cj))
          = Some ''CurseForge API request failed (403)''"
    by blast+
  note cr = demo_curseforge_resolves [of demo_payload ?cj]
  from B9 cr
  have k4: "m_status (last (?cj # run_curseforge_job demo_curseforge_world demo_payload ?cj)) = MCompleted"
    by blast
  from A10 reg
  have f: "backupJobs (fst (snd (handleBackgroundBackupStart demo_backup_world finished_server 1762056009999
          ''/data/world'' ''b2''))) ''b1'' = Some demo_job"
    by blast
  have ne: "generateJobId Modrinth ''mhh6nb40'' ''k3j9zq'' \<noteq> generateJobId Modrinth ''mhh6nb41'' ''a1b2c3''"
    by (simp add: generateJobId_def)
  have held: "modpackJobs finished_server (generateJobId Modrinth ''mhh6nb40'' ''k3j9zq'')
      = Some finished_install"
    by (simp add: finished_server_def)
  from B11 ne held
  have g1: "modpackJobs (fst (snd (handleModrinthInstall keyed_env finished_server (Some ?mr)
          ''mhh6nb41'' ''a1b2c3'' 1762056000001)))
        (generateJobId Modrinth ''mhh6nb40'' ''k3j9zq'') = Some finished_install"
    by simp
  have g2: "snd (snd (handleModrinthInstall keyed_env finished_server (Some ?mr)
          ''mhh6nb41'' ''a1b2c3'' 1762056000001))
       = Some (queued_job (generateJobId Modrinth ''mhh6nb41'' ''a1b2c3'') Modrinth 1762056000001)"
    by (simp only: keyed_modrinth_request snd_conv)
  from B14 g2
  have g3: "modpackJobs (fst (snd (handleModrinthInstall keyed_env finished_server (Some ?mr)
          ''mhh6nb41'' ''a1b2c3'' 1762056000001)))
       = (modpackJobs finished_server)(generateJobId Modrinth ''mhh6nb41'' ''a1b2c3'' \<mapsto>
            queued_job (generateJobId Modrinth ''mhh6nb41'' ''a1b2c3'') Modrinth 1762056000001)"
    by blast
  have g4: "snd (snd (handleCurseforgeInstall keyed_env finished_server None ''mhh6nb41'' ''a1b2c3''
          1762056000001)) = None"
    by (simp add: handleCurseforgeInstall_def)
  from B15 g4
  have g5: "fst (snd (handleCurseforgeInstall keyed_env finished_server None ''mhh6nb41'' ''a1b2c3''
          1762056000001)) = finished_server"
    by blast
  show ?thesis
    apply (intro conjI)
    apply (rule p b1 b4 b3 b2 b5 b6 mp m1 m1' m2 tr m3 m3' dr m4 cp k1 k1' k2 rr k3 k3' cr k4 reg f
        ne g1 g2 g3 g4 g5)+
    done
qed

end
